theory Spec2Isabelle
  imports Main
begin

section \<open>Python values and exceptions\<close>

text \<open>
  The two scripts (\<^verbatim>\<open>MLB_API.py\<close>, class \<^verbatim>\<open>MLBPostseasonICSMaker\<close>, and
  \<^verbatim>\<open>MLB_PostSeason.py\<close>, class \<^verbatim>\<open>MLBPostseasonUpdater\<close>) read decoded JSON:
  dictionaries, lists, strings, integers, booleans and \<^verbatim>\<open>None\<close>.  A dictionary is an
  association list (the first binding of a key is the one \<^verbatim>\<open>.get\<close> sees).  Strings are
  lists of bytes, read as ASCII; JSON floats are not part of the model.
\<close>

datatype pyval =
    VNone
  | VBool bool
  | VInt int
  | VStr string
  | VList "pyval list"
  | VDict "(string \<times> pyval) list"

datatype exn =
    TypeError
  | AttributeError
  | ValueError
  | OverflowError
  | IndexError
  | OSError

definition exn_bind :: "exn + 'a \<Rightarrow> ('a \<Rightarrow> exn + 'b) \<Rightarrow> exn + 'b" where
  "exn_bind m f = (case m of Inl e \<Rightarrow> Inl e | Inr v \<Rightarrow> f v)"

text \<open>\<^verbatim>\<open>d.get(key, default)\<close>; on a value that is no dictionary the attribute is missing.\<close>

definition dict_get :: "pyval \<Rightarrow> string \<Rightarrow> pyval \<Rightarrow> exn + pyval" where
  "dict_get d k dflt =
     (case d of
        VDict kvs \<Rightarrow> (case map_of kvs k of None \<Rightarrow> Inr dflt | Some v \<Rightarrow> Inr v)
      | _ \<Rightarrow> Inl AttributeError)"

text \<open>Truth value of an object (\<^verbatim>\<open>if x\<close>, \<^verbatim>\<open>not x\<close>, \<^verbatim>\<open>x or y\<close>).\<close>

fun py_truthy :: "pyval \<Rightarrow> bool" where
  "py_truthy VNone = False"
| "py_truthy (VBool b) = b"
| "py_truthy (VInt n) = (n \<noteq> 0)"
| "py_truthy (VStr s) = (s \<noteq> [])"
| "py_truthy (VList xs) = (xs \<noteq> [])"
| "py_truthy (VDict kvs) = (kvs \<noteq> [])"

definition py_or :: "pyval \<Rightarrow> pyval \<Rightarrow> pyval" where
  "py_or a b = (if py_truthy a then a else b)"

subsection \<open>Strings\<close>

fun starts_with :: "string \<Rightarrow> string \<Rightarrow> bool" where
  "starts_with [] s = True"
| "starts_with (p # ps) [] = False"
| "starts_with (p # ps) (c # cs) = (p = c \<and> starts_with ps cs)"

text \<open>\<^verbatim>\<open>needle in haystack\<close> on two strings.\<close>

fun str_contains :: "string \<Rightarrow> string \<Rightarrow> bool" where
  "str_contains needle [] = (needle = [])"
| "str_contains needle (c # cs) = (starts_with needle (c # cs) \<or> str_contains needle cs)"

text \<open>\<^verbatim>\<open>s.count(c)\<close> for a one-character argument.\<close>

definition str_count :: "char \<Rightarrow> string \<Rightarrow> nat" where
  "str_count c s = length (filter (\<lambda>x. x = c) s)"

text \<open>\<^verbatim>\<open>s.replace('Z', '+00:00')\<close>: every occurrence of the character is replaced.\<close>

definition replace_char :: "char \<Rightarrow> string \<Rightarrow> string \<Rightarrow> string" where
  "replace_char c new s = concat (map (\<lambda>x. if x = c then new else [x]) s)"

text \<open>\<^verbatim>\<open>sep.join(lines)\<close>.\<close>

fun join :: "string \<Rightarrow> string list \<Rightarrow> string" where
  "join sep [] = []"
| "join sep [l] = l"
| "join sep (l # m # ls) = l @ sep @ join sep (m # ls)"

definition decimal_digits :: "(char \<times> int) list" where
  "decimal_digits = zip ''0123456789'' [0, 1, 2, 3, 4, 5, 6, 7, 8, 9]"

definition is_digit :: "char \<Rightarrow> bool" where
  "is_digit c = (map_of decimal_digits c \<noteq> None)"

definition digit_val :: "char \<Rightarrow> int" where
  "digit_val c = (case map_of decimal_digits c of Some v \<Rightarrow> v | None \<Rightarrow> 0)"

definition digits_val :: "string \<Rightarrow> int" where
  "digits_val cs = foldl (\<lambda>a c. 10 * a + digit_val c) 0 cs"

definition digit_char :: "int \<Rightarrow> char" where
  "digit_char d =
     (case map_of (map (\<lambda>(c, v). (v, c)) decimal_digits) d of Some c \<Rightarrow> c | None \<Rightarrow> CHR ''0'')"

text \<open>The decimal digits of a non-negative integer.\<close>

function show_digits :: "int \<Rightarrow> string" where
  "show_digits n =
     (if n < 10 then [digit_char n] else show_digits (n div 10) @ [digit_char (n mod 10)])"
  by pat_completeness auto
termination
  by (relation "measure nat") auto

declare show_digits.simps [simp del]

text \<open>\<^verbatim>\<open>str(n)\<close> of an integer.\<close>

definition show_int :: "int \<Rightarrow> string" where
  "show_int i = (if i < 0 then CHR ''-'' # show_digits (- i) else show_digits i)"

text \<open>A non-negative number in at least two, or four, decimal digits (\<^verbatim>\<open>%02d\<close>, \<^verbatim>\<open>%04d\<close>).\<close>

definition pad2 :: "int \<Rightarrow> string" where
  "pad2 i = (if i < 10 then CHR ''0'' # show_digits i else show_digits i)"

definition pad4 :: "int \<Rightarrow> string" where
  "pad4 i =
     (if i < 10 then ''000'' @ show_digits i
      else if i < 100 then ''00'' @ show_digits i
      else if i < 1000 then CHR ''0'' # show_digits i
      else show_digits i)"

section \<open>Dates and times\<close>

text \<open>
  A \<^verbatim>\<open>datetime\<close> object is kept as the proleptic Gregorian ordinal of its date
  (\<^verbatim>\<open>date.toordinal()\<close>, 1 for 0001-01-01), its time of day in microseconds since
  midnight, and its \<^verbatim>\<open>tzinfo\<close>.  Year, month, day, hour, minute and second are read off
  these two numbers.  A \<^verbatim>\<open>timedelta\<close> is a number of microseconds.
\<close>

definition is_leap :: "int \<Rightarrow> bool" where
  "is_leap y = (y mod 4 = 0 \<and> (y mod 100 \<noteq> 0 \<or> y mod 400 = 0))"

definition days_in_month :: "int \<Rightarrow> int \<Rightarrow> int" where
  "days_in_month y m =
     (if m = 2 then (if is_leap y then 29 else 28)
      else if m = 4 \<or> m = 6 \<or> m = 9 \<or> m = 11 then 30 else 31)"

definition days_before_year :: "int \<Rightarrow> int" where
  "days_before_year y = (y - 1) * 365 + (y - 1) div 4 - (y - 1) div 100 + (y - 1) div 400"

definition days_before_month_common :: "int \<Rightarrow> int" where
  "days_before_month_common m =
     (if m \<le> 1 then 0 else if m = 2 then 31 else if m = 3 then 59 else if m = 4 then 90
      else if m = 5 then 120 else if m = 6 then 151 else if m = 7 then 181
      else if m = 8 then 212 else if m = 9 then 243 else if m = 10 then 273
      else if m = 11 then 304 else 334)"

definition days_before_month :: "int \<Rightarrow> int \<Rightarrow> int" where
  "days_before_month y m = days_before_month_common m + (if 2 < m \<and> is_leap y then 1 else 0)"

definition ymd2ord :: "int \<Rightarrow> int \<Rightarrow> int \<Rightarrow> int" where
  "ymd2ord y m d = days_before_year y + days_before_month y m + d"

text \<open>The inverse, by the division steps of the standard library (400, 100, 4 and 1 year cycles).\<close>

definition ord2ymd :: "int \<Rightarrow> int \<times> int \<times> int" where
  "ord2ymd ordn =
     (let n0 = ordn - 1;
          n400 = n0 div 146097; r400 = n0 mod 146097;
          n100 = r400 div 36524; r100 = r400 mod 36524;
          n4 = r100 div 1461; r4 = r100 mod 1461;
          n1 = r4 div 365; n = r4 mod 365;
          year = n400 * 400 + 1 + n100 * 100 + n4 * 4 + n1
      in if n1 = 4 \<or> n100 = 4 then (year - 1, 12, 31)
         else
           let leapyear = (n1 = 3 \<and> (n4 \<noteq> 24 \<or> n100 = 3));
               month = (n + 50) div 32;
               preceding = days_before_month_common month + (if 2 < month \<and> leapyear then 1 else 0)
           in if n < preceding
              then (year, month - 1,
                    n - (preceding - (days_in_month 1 (month - 1)
                                      + (if month - 1 = 2 \<and> leapyear then 1 else 0))) + 1)
              else (year, month, n - preceding + 1))"

definition max_ordinal :: int where
  "max_ordinal = 3652059"

definition us_per_second :: int where "us_per_second = 1000000"
definition us_per_minute :: int where "us_per_minute = 60000000"
definition us_per_hour :: int where "us_per_hour = 3600000000"
definition us_per_day :: int where "us_per_day = 86400000000"

text \<open>
  The time zones the scripts meet: \<^verbatim>\<open>pytz.UTC\<close>; a fixed offset built by
  \<^verbatim>\<open>fromisoformat\<close> (\<^verbatim>\<open>datetime.timezone\<close>, offset in microseconds); and one of the
  two faces of pytz's \<^verbatim>\<open>US/Eastern\<close> (EDT or EST), again with its offset.
\<close>

datatype tzinfo = PytzUTC | FixedOffset int | USEastern int

fun utcoffset :: "tzinfo \<Rightarrow> int" where
  "utcoffset PytzUTC = 0"
| "utcoffset (FixedOffset off) = off"
| "utcoffset (USEastern off) = off"

record datetime =
  ordinal :: int
  tod :: int
  tzinfo :: "tzinfo option"

definition dt_year :: "datetime \<Rightarrow> int" where
  "dt_year dt = fst (ord2ymd (ordinal dt))"

definition dt_month :: "datetime \<Rightarrow> int" where
  "dt_month dt = fst (snd (ord2ymd (ordinal dt)))"

definition dt_day :: "datetime \<Rightarrow> int" where
  "dt_day dt = snd (snd (ord2ymd (ordinal dt)))"

definition dt_hour :: "datetime \<Rightarrow> int" where
  "dt_hour dt = tod dt div us_per_hour"

definition dt_minute :: "datetime \<Rightarrow> int" where
  "dt_minute dt = (tod dt div us_per_minute) mod 60"

definition dt_second :: "datetime \<Rightarrow> int" where
  "dt_second dt = (tod dt div us_per_second) mod 60"

text \<open>The point on the time line a date and a time of day name, in microseconds.\<close>

definition instant :: "datetime \<Rightarrow> int" where
  "instant dt = ordinal dt * us_per_day + tod dt"

text \<open>
  \<^verbatim>\<open>dt + timedelta\<close>: the wall clock moves, the \<^verbatim>\<open>tzinfo\<close> stays; a result outside
  years 1..9999 raises \<^verbatim>\<open>OverflowError\<close>.
\<close>

definition dt_add :: "datetime \<Rightarrow> int \<Rightarrow> exn + datetime" where
  "dt_add dt delta =
     (let t = tod dt + delta; d = ordinal dt + t div us_per_day
      in if 1 \<le> d \<and> d \<le> max_ordinal
         then Inr (dt\<lparr>ordinal := d, tod := t mod us_per_day\<rparr>)
         else Inl OverflowError)"

text \<open>
  The constructor \<^verbatim>\<open>datetime(year, month, day, hour, minute, second, microsecond)\<close> with
  its range checks.
\<close>

definition mk_datetime ::
  "int \<Rightarrow> int \<Rightarrow> int \<Rightarrow> int \<Rightarrow> int \<Rightarrow> int \<Rightarrow> int \<Rightarrow> tzinfo option \<Rightarrow> exn + datetime" where
  "mk_datetime y m d hh mm ss us tz =
     (if 1 \<le> y \<and> y \<le> 9999 \<and> 1 \<le> m \<and> m \<le> 12 \<and> 1 \<le> d \<and> d \<le> days_in_month y m
         \<and> 0 \<le> hh \<and> hh \<le> 23 \<and> 0 \<le> mm \<and> mm \<le> 59 \<and> 0 \<le> ss \<and> ss \<le> 59
         \<and> 0 \<le> us \<and> us \<le> 999999
      then Inr \<lparr>ordinal = ymd2ord y m d,
               tod = hh * us_per_hour + mm * us_per_minute + ss * us_per_second + us,
               tzinfo = tz\<rparr>
      else Inl ValueError)"

text \<open>
  \<^verbatim>\<open>dt.strftime('%Y%m%dT%H%M%SZ')\<close>.  The year is written in four digits; for years
  below 1000 some C libraries write fewer.
\<close>

definition strftime_ics :: "datetime \<Rightarrow> string" where
  "strftime_ics dt =
     pad4 (dt_year dt) @ pad2 (dt_month dt) @ pad2 (dt_day dt) @ ''T''
       @ pad2 (dt_hour dt) @ pad2 (dt_minute dt) @ pad2 (dt_second dt) @ ''Z''"

subsection \<open>Parsing\<close>

definition take_digits :: "nat \<Rightarrow> string \<Rightarrow> (int \<times> string) option" where
  "take_digits n s =
     (if n \<le> length s \<and> list_all is_digit (take n s)
      then Some (digits_val (take n s), drop n s) else None)"

text \<open>A field of one or two digits, the longer reading first.\<close>

definition take_1or2 :: "string \<Rightarrow> (int \<times> string) option" where
  "take_1or2 s = (case take_digits 2 s of Some r \<Rightarrow> Some r | None \<Rightarrow> take_digits 1 s)"

text \<open>The day field of \<^verbatim>\<open>strptime\<close> also reads a blank followed by one digit.\<close>

definition take_day :: "string \<Rightarrow> (int \<times> string) option" where
  "take_day s =
     (case s of
        c # d # r \<Rightarrow> (if c = CHR '' '' \<and> is_digit d then Some (digit_val d, r) else take_1or2 s)
      | _ \<Rightarrow> take_1or2 s)"

definition expect :: "char \<Rightarrow> string \<Rightarrow> string option" where
  "expect c s = (case s of x # r \<Rightarrow> (if x = c then Some r else None) | [] \<Rightarrow> None)"

text \<open>A literal letter of a \<^verbatim>\<open>strptime\<close> format matches in either case.\<close>

definition expect2 :: "char \<Rightarrow> char \<Rightarrow> string \<Rightarrow> string option" where
  "expect2 c c' s = (case s of x # r \<Rightarrow> (if x = c \<or> x = c' then Some r else None) | [] \<Rightarrow> None)"

text \<open>
  \<^verbatim>\<open>%Y-%m-%d\<close>: the pattern \<^verbatim>\<open>strptime\<close> compiles is four digits for the year and,
  for month and day, two digits or one, each followed by the literal \<^verbatim>\<open>-\<close>; the ranges
  of the fields are checked when the \<^verbatim>\<open>datetime\<close> is built.
\<close>

definition parse_ymd :: "string \<Rightarrow> ((int \<times> int \<times> int) \<times> string) option" where
  "parse_ymd s =
     Option.bind (take_digits 4 s) (\<lambda>(y, r1).
     Option.bind (expect CHR ''-'' r1) (\<lambda>r2.
     Option.bind (take_1or2 r2) (\<lambda>(m, r3).
     Option.bind (expect CHR ''-'' r3) (\<lambda>r4.
     Option.bind (take_day r4) (\<lambda>(d, r5). Some ((y, m, d), r5))))))"

definition parse_hms :: "string \<Rightarrow> ((int \<times> int \<times> int) \<times> string) option" where
  "parse_hms s =
     Option.bind (take_1or2 s) (\<lambda>(hh, r1).
     Option.bind (expect CHR '':'' r1) (\<lambda>r2.
     Option.bind (take_1or2 r2) (\<lambda>(mm, r3).
     Option.bind (expect CHR '':'' r3) (\<lambda>r4.
     Option.bind (take_1or2 r4) (\<lambda>(ss, r5). Some ((hh, mm, ss), r5))))))"

text \<open>\<^verbatim>\<open>datetime.strptime(s, "%Y-%m-%dT%H:%M:%SZ")\<close>; the result is naive.\<close>

definition strptime_utc :: "string \<Rightarrow> exn + datetime" where
  "strptime_utc s =
     (case Option.bind (parse_ymd s) (\<lambda>(ymd, r1).
           Option.bind (expect2 CHR ''T'' CHR ''t'' r1) (\<lambda>r2.
           Option.bind (parse_hms r2) (\<lambda>(hms, r3).
           Option.bind (expect2 CHR ''Z'' CHR ''z'' r3) (\<lambda>r4.
             if r4 = [] then Some (ymd, hms) else None)))) of
        None \<Rightarrow> Inl ValueError
      | Some ((y, m, d), (hh, mm, ss)) \<Rightarrow> mk_datetime y m d hh mm ss 0 None)"

text \<open>\<^verbatim>\<open>datetime.strptime(s, '%Y-%m-%d')\<close>.\<close>

definition strptime_date :: "string \<Rightarrow> exn + datetime" where
  "strptime_date s =
     (case parse_ymd s of
        Some ((y, m, d), []) \<Rightarrow> mk_datetime y m d 0 0 0 0 None
      | _ \<Rightarrow> Inl ValueError)"

text \<open>
  \<^verbatim>\<open>datetime.fromisoformat\<close> in the format the library documents for it up to
  Python 3.10: \<^verbatim>\<open>YYYY-MM-DD[*HH[:MM[:SS[.fff[fff]]]][+HH:MM[:SS[.ffffff]]]]\<close>, where
  \<^verbatim>\<open>*\<close> is any one character.  What is read off the string is the date, the clock
  with its microseconds, and the offset from UTC in microseconds, if there is one.
\<close>

type_synonym iso_fields = "(int \<times> int \<times> int) \<times> (int \<times> int \<times> int \<times> int) \<times> int option"

definition parse_fraction :: "string \<Rightarrow> int option" where
  "parse_fraction s =
     (if length s = 3 \<and> list_all is_digit s then Some (digits_val s * 1000)
      else if length s = 6 \<and> list_all is_digit s then Some (digits_val s)
      else None)"

text \<open>\<^verbatim>\<open>HH[:MM[:SS[.fff[fff]]]]\<close>, the whole string.\<close>

definition parse_hh_mm_ss_ff :: "string \<Rightarrow> (int \<times> int \<times> int \<times> int) option" where
  "parse_hh_mm_ss_ff s =
     Option.bind (take_digits 2 s) (\<lambda>(hh, r1).
       if r1 = [] then Some (hh, 0, 0, 0)
       else Option.bind (expect CHR '':'' r1) (\<lambda>r2.
            Option.bind (take_digits 2 r2) (\<lambda>(mm, r3).
              if r3 = [] then Some (hh, mm, 0, 0)
              else Option.bind (expect CHR '':'' r3) (\<lambda>r4.
                   Option.bind (take_digits 2 r4) (\<lambda>(ss, r5).
                     if r5 = [] then Some (hh, mm, ss, 0)
                     else Option.bind (expect CHR ''.'' r5) (\<lambda>r6.
                          Option.bind (parse_fraction r6) (\<lambda>us. Some (hh, mm, ss, us))))))))"

text \<open>The offset \<^verbatim>\<open>HH:MM[:SS[.ffffff]]\<close> after the sign, in microseconds.\<close>

definition parse_tz_offset :: "string \<Rightarrow> int option" where
  "parse_tz_offset s =
     (if length s = 5 \<or> length s = 8 \<or> length s = 15
      then Option.bind (parse_hh_mm_ss_ff s) (\<lambda>(hh, mm, ss, us).
             Some (hh * us_per_hour + mm * us_per_minute + ss * us_per_second + us))
      else None)"

definition is_sign :: "char \<Rightarrow> bool" where
  "is_sign c = (c = CHR ''+'' \<or> c = CHR ''-'')"

text \<open>
  The time part: the clock up to the first sign character, the offset after it.  An offset
  of a day or more is refused.
\<close>

definition parse_isoformat_time :: "string \<Rightarrow> ((int \<times> int \<times> int \<times> int) \<times> int option) option" where
  "parse_isoformat_time s =
     (let clock = takeWhile (\<lambda>c. \<not> is_sign c) s; rest = dropWhile (\<lambda>c. \<not> is_sign c) s
      in Option.bind (parse_hh_mm_ss_ff clock) (\<lambda>t.
           case rest of
             [] \<Rightarrow> Some (t, None)
           | sg # tzs \<Rightarrow>
               Option.bind (parse_tz_offset tzs) (\<lambda>off.
                 if us_per_day \<le> off then None
                 else Some (t, Some (if sg = CHR ''-'' then - off else off)))))"

definition documented_isoformat :: "string \<Rightarrow> iso_fields option" where
  "documented_isoformat s =
     Option.bind (take_digits 4 s) (\<lambda>(y, r1).
     Option.bind (expect CHR ''-'' r1) (\<lambda>r2.
     Option.bind (take_digits 2 r2) (\<lambda>(m, r3).
     Option.bind (expect CHR ''-'' r3) (\<lambda>r4.
     Option.bind (take_digits 2 r4) (\<lambda>(d, r5).
       case r5 of
         [] \<Rightarrow> Some ((y, m, d), (0, 0, 0, 0), None)
       | sep # r6 \<Rightarrow> Option.bind (parse_isoformat_time r6) (\<lambda>(t, off). Some ((y, m, d), t, off)))))))"

text \<open>
  The machine the scripts run on enters in two places.  A naive \<^verbatim>\<open>datetime\<close> is read in
  the local zone of the machine: \<open>local_utcoffset\<close> is its offset from UTC, from ordinal
  and time of day to microseconds.  And the strings \<^verbatim>\<open>datetime.fromisoformat\<close> reads
  depend on the version of Python (from 3.11 it reads most of ISO 8601, an offset without
  colon for one): \<open>isoformat_fields\<close> is what the installed version reads off a string,
  \<open>None\<close> where it raises \<^verbatim>\<open>ValueError\<close>.
\<close>

record host =
  local_utcoffset :: "int \<Rightarrow> int \<Rightarrow> int"
  isoformat_fields :: "string \<Rightarrow> iso_fields option"

text \<open>
  \<^verbatim>\<open>datetime.fromisoformat(s)\<close>: the fields go through the range checks of the
  constructor; an offset makes the result aware, with a \<^verbatim>\<open>datetime.timezone\<close>.
\<close>

definition fromisoformat :: "host \<Rightarrow> string \<Rightarrow> exn + datetime" where
  "fromisoformat h s =
     (case isoformat_fields h s of
        None \<Rightarrow> Inl ValueError
      | Some ((y, m, d), (hh, mm, ss, us), off) \<Rightarrow>
          mk_datetime y m d hh mm ss us (map_option FixedOffset off))"

subsection \<open>Time zones\<close>

text \<open>
  \<^verbatim>\<open>pytz.timezone("US/Eastern")\<close>, by the rule of the time zone database in force from
  2007 (and up to 2037, where pytz's table ends): daylight time from the second Sunday of
  March, 02:00 EST (07:00 UTC), to the first Sunday of November, 02:00 EDT (06:00 UTC).
  Ordinals divisible by 7 are Sundays.  The rows of pytz's table for other years are not
  modelled, so statements about Eastern time are made for dates from 2007 to 2037.
\<close>

definition sunday_on_or_after :: "int \<Rightarrow> int" where
  "sunday_on_or_after d = d + (- d) mod 7"

definition dst_start_ordinal :: "int \<Rightarrow> int" where
  "dst_start_ordinal y = sunday_on_or_after (ymd2ord y 3 1) + 7"

definition dst_end_ordinal :: "int \<Rightarrow> int" where
  "dst_end_ordinal y = sunday_on_or_after (ymd2ord y 11 1)"

definition edt_offset :: int where "edt_offset = - 4 * us_per_hour"
definition est_offset :: int where "est_offset = - 5 * us_per_hour"

text \<open>The offset of Eastern time at a point of UTC (what \<^verbatim>\<open>fromutc\<close> looks up).\<close>

definition eastern_offset_at_utc :: "int \<Rightarrow> int \<Rightarrow> int" where
  "eastern_offset_at_utc ordn t =
     (let y = fst (ord2ymd ordn); u = ordn * us_per_day + t
      in if dst_start_ordinal y * us_per_day + 7 * us_per_hour \<le> u
            \<and> u < dst_end_ordinal y * us_per_day + 6 * us_per_hour
         then edt_offset else est_offset)"

text \<open>
  The offset \<^verbatim>\<open>localize\<close> gives a wall-clock time (\<^verbatim>\<open>is_dst=False\<close>): daylight time
  from 03:00 on the day it starts to 01:00 on the day it ends, standard time otherwise.
\<close>

definition eastern_offset_at_wall :: "int \<Rightarrow> int \<Rightarrow> int" where
  "eastern_offset_at_wall ordn t =
     (let y = fst (ord2ymd ordn); w = ordn * us_per_day + t
      in if dst_start_ordinal y * us_per_day + 3 * us_per_hour \<le> w
            \<and> w < dst_end_ordinal y * us_per_day + 1 * us_per_hour
         then edt_offset else est_offset)"

text \<open>
  \<^verbatim>\<open>dt.astimezone(tz)\<close> first takes \<^verbatim>\<open>dt\<close> to UTC by subtracting its offset.  A naive
  \<^verbatim>\<open>dt\<close> is read in the local zone of the machine \<open>lz\<close>.
\<close>

definition to_utc :: "host \<Rightarrow> datetime \<Rightarrow> exn + datetime" where
  "to_utc lz dt =
     (let off = (case tzinfo dt of None \<Rightarrow> local_utcoffset lz (ordinal dt) (tod dt) | Some z \<Rightarrow> utcoffset z)
      in dt_add dt (- off))"

text \<open>\<^verbatim>\<open>dt.astimezone(pytz.UTC)\<close>.\<close>

definition astimezone_utc :: "host \<Rightarrow> datetime \<Rightarrow> exn + datetime" where
  "astimezone_utc lz dt =
     exn_bind (to_utc lz dt) (\<lambda>u. Inr (u\<lparr>tzinfo := Some PytzUTC\<rparr>))"

text \<open>\<^verbatim>\<open>dt.astimezone(et_tz)\<close>.\<close>

definition astimezone_eastern :: "host \<Rightarrow> datetime \<Rightarrow> exn + datetime" where
  "astimezone_eastern lz dt =
     exn_bind (to_utc lz dt) (\<lambda>u.
       let off = eastern_offset_at_utc (ordinal u) (tod u)
       in exn_bind (dt_add u off) (\<lambda>l. Inr (l\<lparr>tzinfo := Some (USEastern off)\<rparr>)))"

text \<open>
  \<^verbatim>\<open>et_tz.localize(dt)\<close>: refuses an aware \<^verbatim>\<open>dt\<close>; looks the zone up one day before and
  one day after \<^verbatim>\<open>dt\<close>, which overflows on the first and the last day of the calendar.
\<close>

definition eastern_localize :: "datetime \<Rightarrow> exn + datetime" where
  "eastern_localize dt =
     (if tzinfo dt \<noteq> None then Inl ValueError
      else if ordinal dt - 1 < 1 \<or> max_ordinal < ordinal dt + 1 then Inl OverflowError
      else Inr (dt\<lparr>tzinfo := Some (USEastern (eastern_offset_at_wall (ordinal dt) (tod dt)))\<rparr>))"

text \<open>\<^verbatim>\<open>pytz.utc.localize(dt)\<close>.\<close>

definition utc_localize :: "datetime \<Rightarrow> exn + datetime" where
  "utc_localize dt =
     (if tzinfo dt \<noteq> None then Inl ValueError else Inr (dt\<lparr>tzinfo := Some PytzUTC\<rparr>))"

text \<open>The placeholder kickoff \<^verbatim>\<open>time(15, 8)\<close>, as a time of day.\<close>

definition time_15_08 :: int where
  "time_15_08 = 15 * us_per_hour + 8 * us_per_minute"

text \<open>\<^verbatim>\<open>datetime.combine(date, time(15, 8))\<close>, naive.\<close>

definition combine_15_08 :: "int \<Rightarrow> datetime" where
  "combine_15_08 date_ordinal = \<lparr>ordinal = date_ordinal, tod = time_15_08, tzinfo = None\<rparr>"

section \<open>The time resolver of \<^verbatim>\<open>MLB_PostSeason.py\<close>\<close>

text \<open>\<^verbatim>\<open>lit in x\<close> for a string literal on the left.\<close>

definition py_in :: "string \<Rightarrow> pyval \<Rightarrow> exn + bool" where
  "py_in lit x =
     (case x of
        VStr s \<Rightarrow> Inr (str_contains lit s)
      | VList xs \<Rightarrow> Inr (VStr lit \<in> set xs)
      | VDict kvs \<Rightarrow> Inr (lit \<in> set (map fst kvs))
      | _ \<Rightarrow> Inl TypeError)"

text \<open>\<^verbatim>\<open>any(keyword in team for keyword in ("TBD", "Winner", "Lower", "Higher"))\<close>.\<close>

definition has_placeholder :: "pyval \<Rightarrow> exn + bool" where
  "has_placeholder team =
     exn_bind (py_in ''TBD'' team) (\<lambda>a. if a then Inr True else
     exn_bind (py_in ''Winner'' team) (\<lambda>b. if b then Inr True else
     exn_bind (py_in ''Lower'' team) (\<lambda>c. if c then Inr True else
     py_in ''Higher'' team)))"

text \<open>
  The placeholder rule, written out twice in the source (lines 146 to 156 and 167 to 180):
  the parsed time is declared UTC, its date in Eastern time is taken, and 15:08 of that date
  is localized in Eastern time.
\<close>

definition eastern_15_08 :: "host \<Rightarrow> datetime \<Rightarrow> exn + datetime" where
  "eastern_15_08 lz utc_dt =
     exn_bind (astimezone_eastern lz (utc_dt\<lparr>tzinfo := Some PytzUTC\<rparr>)) (\<lambda>et.
       eastern_localize (combine_15_08 (ordinal et)))"

text \<open>\<^verbatim>\<open>dt.replace(hour=h, minute=m)\<close>: seconds and microseconds stay.\<close>

definition replace_hour_minute :: "datetime \<Rightarrow> int \<Rightarrow> int \<Rightarrow> datetime" where
  "replace_hour_minute dt h m =
     dt\<lparr>tod := h * us_per_hour + m * us_per_minute + tod dt mod us_per_minute\<rparr>"

text \<open>The length of a game in this script: \<^verbatim>\<open>timedelta(hours=3, minutes=30)\<close>.\<close>

definition updater_duration :: int where
  "updater_duration = 3 * us_per_hour + 30 * us_per_minute"

text \<open>\<^verbatim>\<open>Asia/Seoul\<close>, nine hours east of UTC (used for a log line only).\<close>

definition kst_offset :: int where
  "kst_offset = 9 * us_per_hour"

text \<open>
  The body of the \<^verbatim>\<open>try\<close> block of \<^verbatim>\<open>format_game_time\<close>, for a timestamp that is a
  string, in its two halves.  The first (lines 140 to 201) decides the time \<^verbatim>\<open>dt\<close> of the
  game; it always assigns one or raises, so the test \<^verbatim>\<open>dt is None\<close> after it never holds.
\<close>

definition game_time_of ::
  "host \<Rightarrow> string \<Rightarrow> pyval \<Rightarrow> pyval \<Rightarrow> exn + datetime" where
  "game_time_of lz game_datetime away_team home_team =
     exn_bind
       (if game_datetime = [] then Inr True
        else exn_bind (has_placeholder away_team) (\<lambda>a.
               if a then Inr True else has_placeholder home_team))
       (\<lambda>undetermined.
          if undetermined then
            exn_bind (strptime_utc game_datetime) (eastern_15_08 lz)
          else if str_contains ''Z'' game_datetime then
            exn_bind (strptime_utc game_datetime) (\<lambda>utc_dt.
              if dt_minute utc_dt = 33 then eastern_15_08 lz utc_dt
              else fromisoformat lz (replace_char CHR ''Z'' ''+00:00'' game_datetime))
          else if str_contains ''+'' game_datetime \<or> 2 < str_count CHR ''-'' game_datetime then
            fromisoformat lz game_datetime
          else if str_contains ''T'' game_datetime then
            exn_bind (fromisoformat lz game_datetime) (\<lambda>dt.
              if tzinfo dt = None then utc_localize dt else Inr dt)
          else
            exn_bind (strptime_date game_datetime) (\<lambda>dt.
              eastern_localize (replace_hour_minute dt 15 8)))"

text \<open>
  The second half (lines 206 to 222) converts to UTC, formats start and end, and converts
  to Korean time for a log line (a conversion that can overflow like any other).
\<close>

definition utc_start_end :: "host \<Rightarrow> datetime \<Rightarrow> exn + string \<times> string" where
  "utc_start_end lz dt =
     exn_bind (if tzinfo dt \<noteq> Some PytzUTC then astimezone_utc lz dt else Inr dt) (\<lambda>dt_utc.
     exn_bind (dt_add dt_utc updater_duration) (\<lambda>dt_end.
     exn_bind (dt_add dt_utc kst_offset) (\<lambda>dt_kst.
       Inr (strftime_ics dt_utc, strftime_ics dt_end))))"

definition format_game_time_try ::
  "host \<Rightarrow> string \<Rightarrow> pyval \<Rightarrow> pyval \<Rightarrow> exn + string \<times> string" where
  "format_game_time_try lz game_datetime away_team home_team =
     exn_bind (game_time_of lz game_datetime away_team home_team) (utc_start_end lz)"

text \<open>
  \<^verbatim>\<open>format_game_time(game_datetime, away_team, home_team)\<close>: every exception of the
  body is caught and becomes \<^verbatim>\<open>(None, None)\<close>.  A timestamp that is not a string ends in
  an exception on every path (\<^verbatim>\<open>strptime\<close> and \<^verbatim>\<open>fromisoformat\<close> take strings only,
  and the tests before them either raise or lead to one of the two).
\<close>

definition format_game_time ::
  "host \<Rightarrow> pyval \<Rightarrow> pyval \<Rightarrow> pyval \<Rightarrow> string option \<times> string option" where
  "format_game_time lz game_datetime away_team home_team =
     (case game_datetime of
        VStr s \<Rightarrow>
          (case format_game_time_try lz s away_team home_team of
             Inl e \<Rightarrow> (None, None)
           | Inr (start_time, end_time) \<Rightarrow> (Some start_time, Some end_time))
      | _ \<Rightarrow> (None, None))"

section \<open>The time resolver of \<^verbatim>\<open>MLB_API.py\<close>\<close>

text \<open>The length of a game in this script: \<^verbatim>\<open>timedelta(hours=3)\<close>.\<close>

definition icsmaker_duration :: int where
  "icsmaker_duration = 3 * us_per_hour"

text \<open>\<^verbatim>\<open>game_start_date.replace("Z", "+00:00")\<close>; only a string has the method.\<close>

definition py_replace_Z :: "pyval \<Rightarrow> exn + string" where
  "py_replace_Z v =
     (case v of VStr s \<Rightarrow> Inr (replace_char CHR ''Z'' ''+00:00'' s) | _ \<Rightarrow> Inl AttributeError)"

text \<open>\<^verbatim>\<open>next_day.replace(hour=0, minute=8, second=0, microsecond=0)\<close>.\<close>

definition replace_00_08 :: "datetime \<Rightarrow> datetime" where
  "replace_00_08 dt = dt\<lparr>tod := 8 * us_per_minute\<rparr>"

text \<open>The two \<^verbatim>\<open>try\<close> blocks of \<^verbatim>\<open>get_game_date_time\<close>.\<close>

definition game_date_time_tbd_try :: "host \<Rightarrow> pyval \<Rightarrow> exn + string \<times> string" where
  "game_date_time_tbd_try lz game_start_date =
     exn_bind (py_replace_Z game_start_date) (\<lambda>s.
     exn_bind (fromisoformat lz s) (\<lambda>game_date.
     exn_bind (dt_add game_date us_per_day) (\<lambda>next_day.
     exn_bind (astimezone_utc lz (replace_00_08 next_day)) (\<lambda>utc_time.
     exn_bind (dt_add utc_time icsmaker_duration) (\<lambda>end_time.
       Inr (strftime_ics utc_time, strftime_ics end_time))))))"

definition game_date_time_try :: "host \<Rightarrow> pyval \<Rightarrow> exn + string \<times> string" where
  "game_date_time_try lz game_start_date =
     exn_bind (py_replace_Z game_start_date) (\<lambda>s.
     exn_bind (fromisoformat lz s) (\<lambda>game_date.
     exn_bind (astimezone_utc lz game_date) (\<lambda>utc_time.
     exn_bind (dt_add utc_time icsmaker_duration) (\<lambda>end_time.
       Inr (strftime_ics utc_time, strftime_ics end_time)))))"

text \<open>
  \<^verbatim>\<open>get_game_date_time(game)\<close>.  The two \<^verbatim>\<open>.get\<close> chains at its head are outside the
  \<^verbatim>\<open>try\<close> blocks; a failure is the pair of empty strings.
\<close>

definition get_game_date_time :: "host \<Rightarrow> pyval \<Rightarrow> exn + string \<times> string" where
  "get_game_date_time lz game =
     exn_bind (dict_get game ''status'' (VDict [])) (\<lambda>st.
     exn_bind (dict_get st ''startTimeTBD'' (VBool False)) (\<lambda>status.
     exn_bind (dict_get game ''gameDate'' (VStr [])) (\<lambda>game_start_date.
       if status = VBool True then
         (if py_truthy game_start_date then
            (case game_date_time_tbd_try lz game_start_date of
               Inl e \<Rightarrow> Inr ([], [])
             | Inr r \<Rightarrow> Inr r)
          else Inr ([], []))
       else
         (if py_truthy game_start_date then
            (case game_date_time_try lz game_start_date of
               Inl e \<Rightarrow> Inr ([], [])
             | Inr r \<Rightarrow> Inr r)
          else Inr ([], [])))))"

text \<open>A name that contains one of the four placeholder markers.\<close>

definition is_placeholder_name :: "string \<Rightarrow> bool" where
  "is_placeholder_name name =
     (str_contains ''TBD'' name \<or> str_contains ''Winner'' name
      \<or> str_contains ''Lower'' name \<or> str_contains ''Higher'' name)"

section \<open>Formatting and comparing values\<close>

text \<open>
  \<^verbatim>\<open>repr\<close> of a string: single quotes, unless the string has a single quote and no
  double quote; backslash, the quote and control characters escaped.
\<close>

definition hex_digit :: "nat \<Rightarrow> char" where
  "hex_digit n = (''0123456789abcdef'' ! n)"

definition repr_char :: "char \<Rightarrow> char \<Rightarrow> string" where
  "repr_char q c =
     (if c = CHR 0x5C then [CHR 0x5C, CHR 0x5C]
      else if c = q then [CHR 0x5C, q]
      else if c = CHR 0x0A then [CHR 0x5C, CHR ''n'']
      else if c = CHR 0x0D then [CHR 0x5C, CHR ''r'']
      else if c = CHR 0x09 then [CHR 0x5C, CHR ''t'']
      else if (of_char c :: nat) < 32 \<or> c = CHR 0x7F
        then [CHR 0x5C, CHR ''x'', hex_digit (of_char c div 16), hex_digit (of_char c mod 16)]
      else [c])"

definition repr_str :: "string \<Rightarrow> string" where
  "repr_str s =
     (let q = (if CHR 0x27 \<in> set s \<and> CHR 0x22 \<notin> set s then CHR 0x22 else CHR 0x27)
      in q # concat (map (repr_char q) s) @ [q])"

fun py_repr :: "pyval \<Rightarrow> string" where
  "py_repr VNone = ''None''"
| "py_repr (VBool b) = (if b then ''True'' else ''False'')"
| "py_repr (VInt i) = show_int i"
| "py_repr (VStr s) = repr_str s"
| "py_repr (VList xs) = ''['' @ join '', '' (map py_repr xs) @ '']''"
| "py_repr (VDict kvs) =
     ''{'' @ join '', '' (map (\<lambda>kv. repr_str (fst kv) @ '': '' @ py_repr (snd kv)) kvs) @ ''}''"

text \<open>\<^verbatim>\<open>str(x)\<close>, which is what a replacement field of an f-string inserts.\<close>

definition py_str :: "pyval \<Rightarrow> string" where
  "py_str v = (case v of VStr s \<Rightarrow> s | _ \<Rightarrow> py_repr v)"

text \<open>The integer behind a number; \<^verbatim>\<open>bool\<close> is a subtype of \<^verbatim>\<open>int\<close>.\<close>

definition as_number :: "pyval \<Rightarrow> int option" where
  "as_number v =
     (case v of VInt i \<Rightarrow> Some i | VBool b \<Rightarrow> Some (if b then 1 else 0) | _ \<Rightarrow> None)"

text \<open>\<^verbatim>\<open>x // 2\<close>.\<close>

definition py_floordiv2 :: "pyval \<Rightarrow> exn + int" where
  "py_floordiv2 v = (case as_number v of Some i \<Rightarrow> Inr (i div 2) | None \<Rightarrow> Inl TypeError)"

text \<open>Strings are ordered by their characters, the shorter first among prefixes.\<close>

fun str_less :: "string \<Rightarrow> string \<Rightarrow> bool" where
  "str_less [] [] = False"
| "str_less [] (y # ys) = True"
| "str_less (x # xs) [] = False"
| "str_less (x # xs) (y # ys) =
     ((of_char x :: nat) < of_char y \<or> (x = y \<and> str_less xs ys))"

text \<open>
  \<^verbatim>\<open>a == b\<close>: numbers by value (\<^verbatim>\<open>True == 1\<close>), strings and \<^verbatim>\<open>None\<close> with
  their like, lists element by element, dictionaries by their keys and what each key is
  bound to (\<open>seen\<close> holds the keys already met, a later binding of one being shadowed).
\<close>

fun py_eq :: "pyval \<Rightarrow> pyval \<Rightarrow> bool"
  and py_eq_list :: "pyval list \<Rightarrow> pyval list \<Rightarrow> bool"
  and py_eq_items :: "string list \<Rightarrow> (string \<times> pyval) list \<Rightarrow> (string \<times> pyval) list \<Rightarrow> bool" where
  "py_eq VNone b = (b = VNone)"
| "py_eq (VBool x) b = (as_number b = Some (if x then 1 else 0))"
| "py_eq (VInt i) b = (as_number b = Some i)"
| "py_eq (VStr s) b = (b = VStr s)"
| "py_eq (VList xs) b = (case b of VList ys \<Rightarrow> py_eq_list xs ys | _ \<Rightarrow> False)"
| "py_eq (VDict kvs) b =
     (case b of
        VDict kvs' \<Rightarrow> set (map fst kvs) = set (map fst kvs') \<and> py_eq_items [] kvs kvs'
      | _ \<Rightarrow> False)"
| "py_eq_list [] ys = (ys = [])"
| "py_eq_list (x # xs) ys =
     (case ys of y # ys' \<Rightarrow> py_eq x y \<and> py_eq_list xs ys' | [] \<Rightarrow> False)"
| "py_eq_items seen [] kvs' = True"
| "py_eq_items seen (kv # kvs) kvs' =
     (if fst kv \<in> set seen then py_eq_items seen kvs kvs'
      else case map_of kvs' (fst kv) of
             Some w \<Rightarrow> py_eq (snd kv) w \<and> py_eq_items (fst kv # seen) kvs kvs'
           | None \<Rightarrow> False)"

text \<open>
  \<^verbatim>\<open>a > b\<close>: numbers with numbers, strings with strings, and lists with lists, where
  the first pair of elements that are not equal decides and, without one, the longer list
  is the greater; any other pair of JSON values raises \<^verbatim>\<open>TypeError\<close>.
\<close>

fun py_gt :: "pyval \<Rightarrow> pyval \<Rightarrow> exn + bool"
  and py_gt_list :: "pyval list \<Rightarrow> pyval list \<Rightarrow> exn + bool" where
  "py_gt a b =
     (case (as_number a, as_number b) of
        (Some i, Some j) \<Rightarrow> Inr (j < i)
      | _ \<Rightarrow>
        (case (a, b) of
           (VStr s, VStr t) \<Rightarrow> Inr (str_less t s)
         | (VList xs, VList ys) \<Rightarrow> py_gt_list xs ys
         | _ \<Rightarrow> Inl TypeError))"
| "py_gt_list [] ys = Inr False"
| "py_gt_list (x # xs) [] = Inr True"
| "py_gt_list (x # xs) (y # ys) = (if py_eq x y then py_gt_list xs ys else py_gt x y)"

text \<open>\<^verbatim>\<open>a >= n\<close> for an integer \<open>n\<close>.\<close>

definition py_ge_int :: "pyval \<Rightarrow> int \<Rightarrow> exn + bool" where
  "py_ge_int a n = (case as_number a of Some i \<Rightarrow> Inr (n \<le> i) | None \<Rightarrow> Inl TypeError)"

text \<open>What a \<^verbatim>\<open>for\<close> loop over a value visits.\<close>

definition py_iter :: "pyval \<Rightarrow> exn + pyval list" where
  "py_iter v =
     (case v of
        VStr s \<Rightarrow> Inr (map (\<lambda>c. VStr [c]) s)
      | VList xs \<Rightarrow> Inr xs
      | VDict kvs \<Rightarrow> Inr (map (\<lambda>kv. VStr (fst kv)) kvs)
      | _ \<Rightarrow> Inl TypeError)"

text \<open>Whether a value can be a dictionary key (lists and dictionaries cannot).\<close>

definition hashable :: "pyval \<Rightarrow> bool" where
  "hashable v = (case v of VList xs \<Rightarrow> False | VDict kvs \<Rightarrow> False | _ \<Rightarrow> True)"

section \<open>Summary and description in \<^verbatim>\<open>MLB_API.py\<close>\<close>

definition series_type_map :: "(string \<times> string) list" where
  "series_type_map = [(''F'', ''WC''), (''D'', ''DS''), (''L'', ''CS''), (''W'', ''WS'')]"

text \<open>
  The loop over the characters of the game type: the first one that is a key of the table
  decides; testing an unhashable element against the table raises.
\<close>

fun find_series_type :: "pyval list \<Rightarrow> exn + string option" where
  "find_series_type [] = Inr None"
| "find_series_type (c # cs) =
     (if \<not> hashable c then Inl TypeError
      else case c of
             VStr k \<Rightarrow> (case map_of series_type_map k of
                          Some t \<Rightarrow> Inr (Some t)
                        | None \<Rightarrow> find_series_type cs)
           | _ \<Rightarrow> find_series_type cs)"

text \<open>The trophy sign and its variation selector, as UTF-8.\<close>

definition trophy :: string where
  "trophy = [CHR 0xF0, CHR 0x9F, CHR 0x8F, CHR 0x86, CHR 0xEF, CHR 0xB8, CHR 0x8F]"

text \<open>\<^verbatim>\<open>MLBPostseasonICSMaker.get_series_name(game)\<close>.\<close>

definition icsmaker_get_series_name :: "pyval \<Rightarrow> exn + string" where
  "icsmaker_get_series_name game =
     exn_bind (dict_get game ''teams'' (VDict [])) (\<lambda>teams.
     exn_bind (dict_get game ''gamesInSeries'' (VDict [])) (\<lambda>gamesInSeries.
     exn_bind (dict_get teams ''away'' (VDict [])) (\<lambda>away_team.
     exn_bind (dict_get teams ''home'' (VDict [])) (\<lambda>home_team.
     exn_bind (dict_get game ''gameType'' (VStr [])) (\<lambda>game_type.
     exn_bind (dict_get game ''status'' (VDict [])) (\<lambda>status.
     exn_bind (dict_get status ''statusCode'' (VStr [])) (\<lambda>status_code.
     exn_bind (dict_get game ''seriesGameNumber'' (VInt 1)) (\<lambda>series_game_number.
     exn_bind (dict_get away_team ''team'' (VDict [])) (\<lambda>away.
     exn_bind (dict_get away ''abbreviation'' (VStr ''TBD'')) (\<lambda>away_name.
     exn_bind (dict_get home_team ''team'' (VDict [])) (\<lambda>home.
     exn_bind (dict_get home ''abbreviation'' (VStr ''TBD'')) (\<lambda>home_name.
     exn_bind (dict_get away ''shortName'' (VStr ''TBD'')) (\<lambda>away_name_shortName.
     exn_bind (dict_get home ''shortName'' (VStr ''TBD'')) (\<lambda>home_name_shortName.
     exn_bind (dict_get home ''league'' (VDict [])) (\<lambda>home_league.
     exn_bind (dict_get home_league ''abbreviation'' (VStr [])) (\<lambda>league.
     exn_bind (dict_get away_team ''leagueRecord'' (VDict [])) (\<lambda>away_record.
     exn_bind (dict_get away_record ''wins'' (VInt 0)) (\<lambda>away_wins.
     exn_bind (dict_get home_team ''leagueRecord'' (VDict [])) (\<lambda>home_record.
     exn_bind (dict_get home_record ''wins'' (VInt 0)) (\<lambda>home_wins.
     exn_bind (py_floordiv2 gamesInSeries) (\<lambda>half.
     let wins_needed = half + 1;
         tally = ''('' @ py_str away_wins @ ''-'' @ py_str home_wins @ '')''
     in
     exn_bind
       (exn_bind (py_gt away_wins home_wins) (\<lambda>away_ahead.
          if away_ahead then
            exn_bind (py_ge_int away_wins wins_needed) (\<lambda>won.
              if won then Inr ('' '' @ trophy @ '' '' @ py_str away_name_shortName @ '' Wins'')
              else Inr (tally @ '' '' @ py_str away_name_shortName @ '' Leads''))
          else
            exn_bind (py_gt home_wins away_wins) (\<lambda>home_ahead.
              if home_ahead then
                exn_bind (py_ge_int home_wins wins_needed) (\<lambda>won.
                  if won then Inr ('' '' @ trophy @ '' '' @ py_str home_name_shortName @ '' Wins'')
                  else Inr (tally @ '' '' @ py_str home_name_shortName @ '' Leads''))
              else
                Inr (tally @ [CHR 0x20, CHR 0x20, CHR 0x08] @ ''Tied '' @ py_str away_name
                       @ ''-'' @ py_str home_name)))) (\<lambda>series_record.
     exn_bind (py_in ''F'' status_code) (\<lambda>is_finished.
     let team_score =
           (if is_finished then []
            else py_str away_name_shortName @ '' - '' @ py_str home_name_shortName)
     in
     exn_bind (py_iter game_type) (\<lambda>chars.
     exn_bind (find_series_type chars) (\<lambda>series_type.
       case series_type of
         None \<Rightarrow> Inr team_score
       | Some st \<Rightarrow>
           let series_prefix =
                 (if st = ''WS'' then st @ py_str series_game_number
                  else py_str league @ st @ py_str series_game_number)
           in if is_finished then Inr (series_prefix @ series_record @ '' '' @ team_score)
              else Inr (series_prefix @ '' '' @ team_score))))))))))))))))))))))))))"

text \<open>\<^verbatim>\<open>get_description(game)\<close>.\<close>

definition get_description :: "pyval \<Rightarrow> exn + string" where
  "get_description game =
     exn_bind (dict_get game ''teams'' (VDict [])) (\<lambda>teams.
     exn_bind (dict_get teams ''away'' (VDict [])) (\<lambda>away_team.
     exn_bind (dict_get teams ''home'' (VDict [])) (\<lambda>home_team.
     exn_bind (dict_get game ''status'' (VDict [])) (\<lambda>status.
     exn_bind (dict_get status ''statusCode'' (VStr [])) (\<lambda>status_code.
     exn_bind (dict_get away_team ''team'' (VDict [])) (\<lambda>away.
     exn_bind (dict_get away ''shortName'' (VStr ''TBD'')) (\<lambda>away_name_shortName.
     exn_bind (dict_get home_team ''team'' (VDict [])) (\<lambda>home.
     exn_bind (dict_get home ''shortName'' (VStr ''TBD'')) (\<lambda>home_name_shortName.
     exn_bind (dict_get away_team ''score'' (VStr [])) (\<lambda>away_score.
     exn_bind (dict_get home_team ''score'' (VStr [])) (\<lambda>home_score.
     exn_bind (py_in ''F'' status_code) (\<lambda>is_finished.
       if is_finished
       then Inr (py_str away_name_shortName @ '' '' @ py_str away_score @ '' - ''
                 @ py_str home_name_shortName @ '' '' @ py_str home_score)
       else Inr (py_str away_name_shortName @ '' - '' @ py_str home_name_shortName)))))))))))))"

text \<open>The dictionary \<^verbatim>\<open>makeViewModel\<close> builds.\<close>

record view_model =
  game_PK :: pyval
  game_start_time :: string
  game_end_time :: string
  description :: string
  location :: pyval
  summary :: string

definition makeViewModel :: "host \<Rightarrow> pyval \<Rightarrow> exn + view_model" where
  "makeViewModel lz game =
     exn_bind (icsmaker_get_series_name game) (\<lambda>summ.
     exn_bind (get_game_date_time lz game) (\<lambda>(start_time, end_time).
     exn_bind (get_description game) (\<lambda>descr.
     exn_bind (dict_get game ''gamePk'' (VStr [])) (\<lambda>pk.
     exn_bind (dict_get game ''venue'' (VDict [])) (\<lambda>venue.
     exn_bind (dict_get venue ''name'' (VStr ''TBD'')) (\<lambda>loc.
       Inr \<lparr>game_PK = pk, game_start_time = start_time, game_end_time = end_time,
            description = descr, location = loc, summary = summ\<rparr>))))))"

section \<open>The calendar renderer of \<^verbatim>\<open>MLB_API.py\<close>\<close>

text \<open>The fixed head of the calendar, the same list in both scripts.\<close>

definition calendar_header :: "string list" where
  "calendar_header =
     [''BEGIN:VCALENDAR'',
      ''VERSION:2.0'',
      ''PRODID:-//MLB 2025 Postseason Auto-Updated//EN'',
      ''CALSCALE:GREGORIAN'',
      ''METHOD:PUBLISH'',
      ''X-WR-CALNAME:MLB 2025 Postseason'',
      ''X-WR-TIMEZONE:UTC'',
      ''X-PUBLISHED-TTL:PT1H'']"

definition calendar_footer :: "string list" where
  "calendar_footer = ['''', ''END:VCALENDAR'']"

text \<open>What one \<^verbatim>\<open>VEVENT\<close> is written from, apart from the time of writing.\<close>

record event =
  ev_uid :: string
  ev_start :: string
  ev_end :: string
  ev_summary :: string
  ev_location :: string
  ev_description :: string

text \<open>
  The eleven lines of one event.  \<open>now\<close> is the reading of the clock
  (\<^verbatim>\<open>datetime.now(pytz.UTC)\<close>) taken while the event is written.
\<close>

definition event_lines :: "datetime \<Rightarrow> event \<Rightarrow> string list" where
  "event_lines now ev =
     ['''',
      ''BEGIN:VEVENT'',
      ''UID:mlb-2025-'' @ ev_uid ev @ ''@mlb.com'',
      ''DTSTAMP:'' @ strftime_ics now,
      ''DTSTART:'' @ ev_start ev,
      ''DTEND:'' @ ev_end ev,
      ''SUMMARY:'' @ ev_summary ev,
      ''LOCATION:'' @ ev_location ev,
      ''DESCRIPTION:'' @ ev_description ev,
      ''STATUS:CONFIRMED'',
      ''END:VEVENT'']"

text \<open>
  The loop over games, which both scripts write in the same way: the body either raises,
  or passes the game over (\<^verbatim>\<open>continue\<close>), or has an event to append.  \<open>body\<close> is that
  part of the loop body.  The clock is a sequence of readings; \<open>k\<close> counts the readings
  taken so far, one per event written.  The result is the lines added and the new count,
  or the exception that ends the whole run.
\<close>

fun for_each_game ::
  "(nat \<Rightarrow> datetime) \<Rightarrow> ('g \<Rightarrow> exn + event option) \<Rightarrow> nat \<Rightarrow> 'g list \<Rightarrow> exn + string list \<times> nat" where
  "for_each_game clock body k [] = Inr ([], k)"
| "for_each_game clock body k (game # games) =
     exn_bind (body game) (\<lambda>r.
       case r of
         None \<Rightarrow> for_each_game clock body k games
       | Some ev \<Rightarrow>
           exn_bind (for_each_game clock body (Suc k) games) (\<lambda>(ls, k').
             Inr (event_lines (clock k) ev @ ls, k')))"

text \<open>
  The body of the inner loop of \<^verbatim>\<open>generate_ics_content\<close> in \<^verbatim>\<open>MLB_API.py\<close> (lines
  245 to 261): the view model is built first, then the two times are examined.
\<close>

definition icsmaker_loop_body :: "host \<Rightarrow> pyval \<Rightarrow> exn + event option" where
  "icsmaker_loop_body lz game =
     exn_bind (makeViewModel lz game) (\<lambda>game_info.
       if game_start_time game_info = [] \<or> game_end_time game_info = [] then Inr None
       else Inr (Some \<lparr>ev_uid = py_str (game_PK game_info),
                       ev_start = game_start_time game_info,
                       ev_end = game_end_time game_info,
                       ev_summary = summary game_info,
                       ev_location = py_str (location game_info),
                       ev_description = description game_info\<rparr>))"

text \<open>The outer loop over the entries of \<^verbatim>\<open>dates\<close>.\<close>

fun icsmaker_dates ::
  "(nat \<Rightarrow> datetime) \<Rightarrow> host \<Rightarrow> nat \<Rightarrow> pyval list \<Rightarrow> exn + string list \<times> nat" where
  "icsmaker_dates clock lz k [] = Inr ([], k)"
| "icsmaker_dates clock lz k (date_data # dates) =
     exn_bind (dict_get date_data ''games'' (VList [])) (\<lambda>gs.
     exn_bind (py_iter gs) (\<lambda>games.
     exn_bind (for_each_game clock (icsmaker_loop_body lz) k games) (\<lambda>(ls, k').
     exn_bind (icsmaker_dates clock lz k' dates) (\<lambda>(ls', k'').
       Inr (ls @ ls', k'')))))"

text \<open>The list \<^verbatim>\<open>ics_lines\<close> at the end of \<^verbatim>\<open>generate_ics_content\<close>.\<close>

definition icsmaker_ics_lines ::
  "(nat \<Rightarrow> datetime) \<Rightarrow> host \<Rightarrow> pyval \<Rightarrow> exn + string list" where
  "icsmaker_ics_lines clock lz games_data =
     exn_bind (dict_get games_data ''dates'' (VList [])) (\<lambda>ds.
     exn_bind (py_iter ds) (\<lambda>dates.
     exn_bind (icsmaker_dates clock lz 0 dates) (\<lambda>(ls, k).
       Inr (calendar_header @ ls @ calendar_footer))))"

text \<open>\<^verbatim>\<open>MLBPostseasonICSMaker.generate_ics_content(games_data)\<close>.\<close>

definition icsmaker_generate_ics_content ::
  "(nat \<Rightarrow> datetime) \<Rightarrow> host \<Rightarrow> pyval \<Rightarrow> exn + string" where
  "icsmaker_generate_ics_content clock lz games_data =
     exn_bind (icsmaker_ics_lines clock lz games_data) (\<lambda>ics_lines.
       Inr (join [CHR 0x0A] ics_lines))"

section \<open>Summary and description in \<^verbatim>\<open>MLB_PostSeason.py\<close>\<close>

text \<open>\<^verbatim>\<open>x == lit\<close> for a string literal: only that very string is equal to it.\<close>

definition py_eq_str :: "pyval \<Rightarrow> string \<Rightarrow> bool" where
  "py_eq_str v lit = (v = VStr lit)"

definition type_map :: "(string \<times> string) list" where
  "type_map = [(''F'', ''WC''), (''D'', ''DS''), (''L'', ''CS''), (''W'', ''WS'')]"

text \<open>\<^verbatim>\<open>MLBPostseasonUpdater.get_series_name(game_type, series_desc)\<close>.\<close>

definition updater_get_series_name :: "pyval \<Rightarrow> pyval \<Rightarrow> exn + string" where
  "updater_get_series_name game_type series_desc =
     (if \<not> hashable game_type then Inl TypeError
      else
        let series_name =
              (case game_type of
                 VStr k \<Rightarrow> (case map_of type_map k of Some t \<Rightarrow> t | None \<Rightarrow> ''Postseason'')
               | _ \<Rightarrow> ''Postseason'');
            tail =
              (if py_eq_str game_type ''F'' then ''WC''
               else if py_eq_str game_type ''W'' then ''WS''
               else series_name)
        in
        if py_truthy series_desc then
          exn_bind (exn_bind (py_in ''American League'' series_desc) (\<lambda>a.
                      if a then Inr True else py_in ''AL'' series_desc)) (\<lambda>al.
            if al then
              (if py_eq_str game_type ''D'' then Inr ''ALDS''
               else if py_eq_str game_type ''L'' then Inr ''ALCS''
               else Inr tail)
            else
              exn_bind (exn_bind (py_in ''National League'' series_desc) (\<lambda>a.
                          if a then Inr True else py_in ''NL'' series_desc)) (\<lambda>nl.
                if nl then
                  (if py_eq_str game_type ''D'' then Inr ''NLDS''
                   else if py_eq_str game_type ''L'' then Inr ''NLCS''
                   else Inr tail)
                else Inr tail))
        else Inr tail)"

definition special_cases :: "(string \<times> string) list" where
  "special_cases =
     [(''Los Angeles Dodgers'', ''LA Dodgers''),
      (''Los Angeles Angels'', ''LA Angels''),
      (''New York Yankees'', ''NY Yankees''),
      (''New York Mets'', ''NY Mets''),
      (''Chicago White Sox'', ''Chi White Sox''),
      (''Chicago Cubs'', ''Chi Cubs''),
      (''San Francisco Giants'', ''SF Giants''),
      (''San Diego Padres'', ''San Diego''),
      (''Tampa Bay Rays'', ''Tampa Bay'')]"

text \<open>White space for \<^verbatim>\<open>str.split()\<close>, among the ASCII characters.\<close>

definition is_space :: "char \<Rightarrow> bool" where
  "is_space c =
     (c \<in> set [CHR 0x20, CHR 0x09, CHR 0x0A, CHR 0x0B, CHR 0x0C, CHR 0x0D,
                CHR 0x1C, CHR 0x1D, CHR 0x1E, CHR 0x1F])"

text \<open>\<^verbatim>\<open>s.split()\<close>: the maximal runs of characters that are not white space.\<close>

fun split_words :: "string \<Rightarrow> string \<Rightarrow> string list" where
  "split_words w [] = (if w = [] then [] else [w])"
| "split_words w (c # cs) =
     (if is_space c then (if w = [] then split_words [] cs else w # split_words [] cs)
      else split_words (w @ [c]) cs)"

definition py_split :: "string \<Rightarrow> string list" where
  "py_split s = split_words [] s"

text \<open>\<^verbatim>\<open>w.endswith('.')\<close>.\<close>

definition ends_with_dot :: "string \<Rightarrow> bool" where
  "ends_with_dot w = (w \<noteq> [] \<and> last w = CHR ''.'')"

text \<open>
  \<^verbatim>\<open>get_team_location(full_team_name)\<close>.  The look-up in \<^verbatim>\<open>special_cases\<close> hashes the
  name; \<^verbatim>\<open>split\<close> is a method of strings only; \<^verbatim>\<open>words[0]\<close> needs a word.
\<close>

definition get_team_location :: "pyval \<Rightarrow> exn + pyval" where
  "get_team_location full_team_name =
     (case full_team_name of
        VStr name \<Rightarrow>
          (case map_of special_cases name of
             Some short \<Rightarrow> Inr (VStr short)
           | None \<Rightarrow>
               (case py_split name of
                  w0 # w1 # ws \<Rightarrow>
                    if ends_with_dot w0 then Inr (VStr (w0 @ '' '' @ w1))
                    else if is_placeholder_name name then Inr (VStr name)
                    else Inr (VStr w0)
                | [w0] \<Rightarrow> if is_placeholder_name name then Inr (VStr name) else Inr (VStr w0)
                | [] \<Rightarrow> if is_placeholder_name name then Inr (VStr name) else Inl IndexError))
      | VList xs \<Rightarrow> Inl TypeError
      | VDict kvs \<Rightarrow> Inl TypeError
      | _ \<Rightarrow> Inl AttributeError)"

text \<open>\<^verbatim>\<open>status in ['Final', 'Game Over']\<close>.\<close>

definition is_final :: "pyval \<Rightarrow> bool" where
  "is_final status = (py_eq_str status ''Final'' \<or> py_eq_str status ''Game Over'')"

text \<open>The check mark, as UTF-8.\<close>

definition check_mark :: string where
  "check_mark = [CHR 0xE2, CHR 0x9C, CHR 0x93]"

text \<open>\<^verbatim>\<open>create_event_summary(game)\<close>.\<close>

definition create_event_summary :: "pyval \<Rightarrow> exn + string" where
  "create_event_summary game =
     exn_bind (dict_get game ''away_name'' (VStr ''TBD'')) (\<lambda>away_team_full.
     exn_bind (dict_get game ''home_name'' (VStr ''TBD'')) (\<lambda>home_team_full.
     exn_bind (get_team_location away_team_full) (\<lambda>away_team.
     exn_bind (get_team_location home_team_full) (\<lambda>home_team.
     exn_bind (dict_get game ''game_type'' (VStr [])) (\<lambda>game_type.
     exn_bind (dict_get game ''series_description'' (VStr [])) (\<lambda>series_desc.
     exn_bind (dict_get game ''game_number'' (VInt 1)) (\<lambda>game_number.
     exn_bind (dict_get game ''series_game_number'' game_number) (\<lambda>game_num.
     exn_bind (updater_get_series_name game_type series_desc) (\<lambda>series_name.
     exn_bind (dict_get game ''status'' (VStr [])) (\<lambda>status.
       if is_final status then
         exn_bind (dict_get game ''away_score'' (VInt 0)) (\<lambda>away_score.
         exn_bind (dict_get game ''home_score'' (VInt 0)) (\<lambda>home_score.
           Inr (check_mark @ '' '' @ series_name @ '' '' @ py_str game_num @ '': ''
                @ py_str away_team @ '' '' @ py_str away_score @ '' @ ''
                @ py_str home_team @ '' '' @ py_str home_score)))
       else
         Inr (series_name @ '' '' @ py_str game_num @ '': '' @ py_str away_team @ '' @ ''
              @ py_str home_team)))))))))))"

text \<open>
  \<^verbatim>\<open>create_event_description(game)\<close>; the lines are joined by a backslash and the
  letter n, not by a line feed.
\<close>

definition create_event_description :: "pyval \<Rightarrow> exn + string" where
  "create_event_description game =
     exn_bind (dict_get game ''series_description'' (VStr [])) (\<lambda>series_desc.
     exn_bind (dict_get game ''status'' (VStr [])) (\<lambda>status.
     exn_bind (dict_get game ''venue_name'' (VStr ''TBD'')) (\<lambda>venue.
     exn_bind (dict_get game ''game_type'' (VStr [])) (\<lambda>game_type.
       let head = (if py_truthy series_desc then [''Series: '' @ py_str series_desc] else [])
                    @ [''Game Type: '' @ py_str game_type,
                       ''Status: '' @ py_str status,
                       ''Venue: '' @ py_str venue];
           sep = [CHR 0x5C, CHR ''n'']
       in if is_final status then
            exn_bind (dict_get game ''away_score'' (VInt 0)) (\<lambda>away_score.
            exn_bind (dict_get game ''home_score'' (VInt 0)) (\<lambda>home_score.
            exn_bind (dict_get game ''away_name'' (VStr ''Away'')) (\<lambda>away_name.
            exn_bind (dict_get game ''home_name'' (VStr ''Home'')) (\<lambda>home_name.
              Inr (join sep (head @ [sep @ ''Final Score:'',
                                     py_str away_name @ '': '' @ py_str away_score,
                                     py_str home_name @ '': '' @ py_str home_score]))))))
          else Inr (join sep head)))))"

section \<open>The calendar renderer of \<^verbatim>\<open>MLB_PostSeason.py\<close>\<close>

text \<open>
  The body of the loop of \<^verbatim>\<open>generate_ics_content(games)\<close> (lines 366 to 383).  A game
  without a timestamp, or whose time is not resolved, is passed over before its summary
  is built.
\<close>

definition updater_loop_body :: "host \<Rightarrow> pyval \<Rightarrow> exn + event option" where
  "updater_loop_body lz game =
     exn_bind (dict_get game ''game_datetime'' VNone) (\<lambda>gdt.
     exn_bind (dict_get game ''game_date'' VNone) (\<lambda>gd.
     exn_bind (dict_get game ''away_name'' (VStr ''TBD'')) (\<lambda>away_team.
     exn_bind (dict_get game ''home_name'' (VStr ''TBD'')) (\<lambda>home_team.
       let game_datetime = py_or gdt gd in
       if \<not> py_truthy game_datetime then Inr None
       else
         case format_game_time lz game_datetime away_team home_team of
           (Some start_time, Some end_time) \<Rightarrow>
             if start_time = [] then Inr None
             else
               exn_bind (dict_get game ''game_id'' (VStr [])) (\<lambda>game_id.
               exn_bind (create_event_summary game) (\<lambda>summ.
               exn_bind (create_event_description game) (\<lambda>descr.
               exn_bind (dict_get game ''venue_name'' (VStr ''TBD'')) (\<lambda>loc.
                 Inr (Some \<lparr>ev_uid = py_str game_id, ev_start = start_time,
                             ev_end = end_time, ev_summary = summ,
                             ev_location = py_str loc, ev_description = descr\<rparr>)))))
         | _ \<Rightarrow> Inr None))))"

definition updater_ics_lines ::
  "(nat \<Rightarrow> datetime) \<Rightarrow> host \<Rightarrow> pyval list \<Rightarrow> exn + string list" where
  "updater_ics_lines clock lz games =
     exn_bind (for_each_game clock (updater_loop_body lz) 0 games) (\<lambda>(ls, k).
       Inr (calendar_header @ ls @ calendar_footer))"

text \<open>\<^verbatim>\<open>MLBPostseasonUpdater.generate_ics_content(games)\<close>.\<close>

definition updater_generate_ics_content ::
  "(nat \<Rightarrow> datetime) \<Rightarrow> host \<Rightarrow> pyval list \<Rightarrow> exn + string" where
  "updater_generate_ics_content clock lz games =
     exn_bind (updater_ics_lines clock lz games) (\<lambda>ics_lines.
       Inr (join [CHR 0x0A] ics_lines))"

section \<open>The file writers\<close>

text \<open>
  The file system is a parameter: \<open>fs path text\<close> is what opening \<open>path\<close> for writing
  and writing \<open>text\<close> does, either nothing to report or the exception raised.
\<close>

text \<open>
  \<^verbatim>\<open>save_ics_file(games_data)\<close> of \<^verbatim>\<open>MLB_API.py\<close>: rendering and writing are inside
  one \<^verbatim>\<open>try\<close>, and \<^verbatim>\<open>except Exception\<close> answers \<^verbatim>\<open>False\<close>.
\<close>

definition save_ics_file ::
  "(nat \<Rightarrow> datetime) \<Rightarrow> host \<Rightarrow> (string \<Rightarrow> string \<Rightarrow> exn + unit) \<Rightarrow> string \<Rightarrow> pyval \<Rightarrow> bool" where
  "save_ics_file clock lz fs output_file games_data =
     (case exn_bind (icsmaker_generate_ics_content clock lz games_data) (\<lambda>ics_content.
             fs output_file ics_content) of
        Inl e \<Rightarrow> False
      | Inr u \<Rightarrow> True)"

text \<open>
  \<^verbatim>\<open>update_ics_file()\<close> of \<^verbatim>\<open>MLB_PostSeason.py\<close>, from the list of games the two
  fetches have produced.  With no games it returns at once; otherwise it reads
  \<^verbatim>\<open>game_date\<close> of the first game for a log line, renders, and writes, with no
  \<^verbatim>\<open>try\<close> around any of it.  The counts it prints afterwards cannot raise once the
  rendering has gone through.  It returns \<^verbatim>\<open>None\<close>.
\<close>

definition update_ics_file ::
  "(nat \<Rightarrow> datetime) \<Rightarrow> host \<Rightarrow> (string \<Rightarrow> string \<Rightarrow> exn + unit) \<Rightarrow> string \<Rightarrow> pyval list \<Rightarrow> exn + unit" where
  "update_ics_file clock lz fs output_file games =
     (case games of
        [] \<Rightarrow> Inr ()
      | first_game # rest \<Rightarrow>
          exn_bind (dict_get first_game ''game_date'' VNone) (\<lambda>d.
          exn_bind (updater_generate_ics_content clock lz games) (\<lambda>ics_content.
          exn_bind (fs output_file ics_content) (\<lambda>u. Inr ()))))"

section \<open>Notions of the specification\<close>

text \<open>
  The Eastern civil date of a point of UTC: the date the clock shows once the Eastern
  offset in force at that point is added.
\<close>

definition eastern_date_of_utc :: "int \<Rightarrow> int \<Rightarrow> int" where
  "eastern_date_of_utc ordn t = (ordn * us_per_day + t + eastern_offset_at_utc ordn t) div us_per_day"

text \<open>
  15:08 Eastern time on a date, converted to UTC: the wall-clock time less the Eastern
  offset in force at that wall-clock time.
\<close>

definition eastern_15_08_as_utc :: "int \<Rightarrow> datetime" where
  "eastern_15_08_as_utc date =
     (let u = date * us_per_day + time_15_08 - eastern_offset_at_wall date time_15_08
      in \<lparr>ordinal = u div us_per_day, tod = u mod us_per_day, tzinfo = Some PytzUTC\<rparr>)"

text \<open>A time of day within the day.\<close>

definition time_of_day_ok :: "datetime \<Rightarrow> bool" where
  "time_of_day_ok dt = (0 \<le> tod dt \<and> tod dt < us_per_day)"

text \<open>
  A machine with a given local zone whose \<^verbatim>\<open>fromisoformat\<close> reads the documented
  format, and the one among them whose local zone is UTC, for the concrete runs below.
\<close>

definition documented_host :: "(int \<Rightarrow> int \<Rightarrow> int) \<Rightarrow> host" where
  "documented_host z = \<lparr>local_utcoffset = z, isoformat_fields = documented_isoformat\<rparr>"

definition utc_host :: host where
  "utc_host = documented_host (\<lambda>d t. 0)"

text \<open>The text of a calendar without events.\<close>

definition empty_calendar :: string where
  "empty_calendar = join [CHR 0x0A] (calendar_header @ calendar_footer)"

text \<open>
  The game of the worked example of the specification as \<^verbatim>\<open>MLB_API.py\<close> receives it:
  a Division Series game of the American League, game 3 of 5, the away team ahead 2-1,
  scheduled for \<^verbatim>\<open>2025-10-15T23:08:00Z\<close>.  The short names of the two teams and the
  status code are left open.
\<close>

definition worked_example :: "string \<Rightarrow> string \<Rightarrow> string \<Rightarrow> pyval" where
  "worked_example away_short home_short status_code =
     VDict
       [(''gameDate'', VStr ''2025-10-15T23:08:00Z''),
        (''gameType'', VStr ''D''),
        (''seriesGameNumber'', VInt 3),
        (''gamesInSeries'', VInt 5),
        (''status'', VDict [(''statusCode'', VStr status_code)]),
        (''teams'',
         VDict
           [(''away'',
             VDict [(''leagueRecord'', VDict [(''wins'', VInt 2)]),
                    (''team'', VDict [(''shortName'', VStr away_short),
                                      (''league'', VDict [(''abbreviation'', VStr ''AL'')])])]),
            (''home'',
             VDict [(''leagueRecord'', VDict [(''wins'', VInt 1)]),
                    (''team'', VDict [(''shortName'', VStr home_short),
                                      (''league'', VDict [(''abbreviation'', VStr ''AL'')])])])])]"

text \<open>A clock that stands still, and a file system on which every write fails.\<close>

definition still_clock :: "nat \<Rightarrow> datetime" where
  "still_clock k = \<lparr>ordinal = 739539, tod = 0, tzinfo = Some PytzUTC\<rparr>"

definition failing_fs :: "string \<Rightarrow> string \<Rightarrow> exn + unit" where
  "failing_fs path text = Inl OSError"

text \<open>A game as \<^verbatim>\<open>statsapi.schedule\<close> lists it for \<^verbatim>\<open>MLB_PostSeason.py\<close>.\<close>

definition sample_game :: pyval where
  "sample_game =
     VDict [(''game_id'', VInt 813044),
            (''game_datetime'', VStr ''2025-10-15T23:08:00Z''),
            (''game_date'', VStr ''2025-10-15''),
            (''game_type'', VStr ''D''),
            (''status'', VStr ''Scheduled''),
            (''away_name'', VStr ''Seattle Mariners''),
            (''home_name'', VStr ''Detroit Tigers''),
            (''venue_name'', VStr ''Comerica Park''),
            (''series_description'', VStr ''AL Division Series''),
            (''series_game_number'', VInt 3)]"

definition default_output_file :: string where
  "default_output_file = ''public/mlb_postseason_2025.ics''"

text \<open>The lines of a text: what lies between its line feeds.\<close>

fun split_lines :: "string \<Rightarrow> string \<Rightarrow> string list" where
  "split_lines cur [] = [cur]"
| "split_lines cur (c # cs) =
     (if c = CHR 0x0A then cur # split_lines [] cs else split_lines (cur @ [c]) cs)"

definition lines_of :: "string \<Rightarrow> string list" where
  "lines_of text = split_lines [] text"

text \<open>A text read modulo the time of rendering: every \<^verbatim>\<open>DTSTAMP\<close> line is blanked.\<close>

definition mask_dtstamp :: "string \<Rightarrow> string" where
  "mask_dtstamp l = (if starts_with ''DTSTAMP:'' l then ''DTSTAMP:'' else l)"

definition modulo_dtstamp :: "string \<Rightarrow> string list" where
  "modulo_dtstamp text = map mask_dtstamp (lines_of text)"

text \<open>Two lines of two renderings: the same, or both a \<^verbatim>\<open>DTSTAMP\<close> line.\<close>

definition same_but_dtstamp :: "string \<Rightarrow> string \<Rightarrow> bool" where
  "same_but_dtstamp a b =
     (a = b \<or> (\<exists>x y. a = ''DTSTAMP:'' @ strftime_ics x \<and> b = ''DTSTAMP:'' @ strftime_ics y))"

text \<open>
  Two runs of a loop agree: the same exception, or as many clock readings and lines that
  are the same but for \<^verbatim>\<open>DTSTAMP\<close>.
\<close>

definition runs_agree :: "exn + string list \<times> nat \<Rightarrow> exn + string list \<times> nat \<Rightarrow> bool" where
  "runs_agree r1 r2 =
     (case (r1, r2) of
        (Inl e1, Inl e2) \<Rightarrow> e1 = e2
      | (Inr (l1, k1), Inr (l2, k2)) \<Rightarrow> k1 = k2 \<and> list_all2 same_but_dtstamp l1 l2
      | _ \<Rightarrow> False)"

text \<open>A dictionary with one key bound anew.\<close>

definition with_field :: "string \<Rightarrow> pyval \<Rightarrow> pyval \<Rightarrow> pyval" where
  "with_field k v d = (case d of VDict kvs \<Rightarrow> VDict ((k, v) # kvs) | _ \<Rightarrow> d)"

text \<open>A file system on which every write goes through.\<close>

definition accepting_fs :: "string \<Rightarrow> string \<Rightarrow> exn + unit" where
  "accepting_fs path text = Inr ()"

text \<open>
  Variants of the worked example, final: as it is, with an empty \<^verbatim>\<open>gameDate\<close>, and
  with a \<^verbatim>\<open>gameDate\<close> that is no timestamp; and the listed game of the other script
  without its two timestamps.
\<close>

definition final_game :: pyval where
  "final_game = worked_example ''Seattle'' ''Detroit'' ''F''"

definition game_without_date :: pyval where
  "game_without_date = with_field ''gameDate'' (VStr []) final_game"

definition game_with_bad_date :: pyval where
  "game_with_bad_date = with_field ''gameDate'' (VStr ''soon'') final_game"

definition sample_game_without_date :: pyval where
  "sample_game_without_date =
     with_field ''game_datetime'' (VStr []) (with_field ''game_date'' (VStr []) sample_game)"

text \<open>
  More games for the concrete runs: the worked example while it is only scheduled, with
  other teams and a game number; the final game with a \<^verbatim>\<open>gamesInSeries\<close> that is a
  string; and a second listed game for the other script.
\<close>

definition scheduled_game :: pyval where
  "scheduled_game = with_field ''gamePk'' (VInt 813046) (worked_example ''Toronto'' ''New York'' ''S'')"

definition game_with_bad_series_length :: pyval where
  "game_with_bad_series_length = with_field ''gamesInSeries'' (VStr ''5'') final_game"

definition second_sample_game :: pyval where
  "second_sample_game =
     with_field ''game_id'' (VInt 813045)
       (with_field ''game_datetime'' (VStr ''2025-10-16T20:08:00Z'')
          (with_field ''series_game_number'' (VInt 4) sample_game))"

text \<open>
  The calendar with the events of \<open>final_game\<close> and \<open>scheduled_game\<close>, written while
  the clock stands at \<open>still_clock\<close>.
\<close>

definition two_event_calendar :: string where
  "two_event_calendar =
     ''BEGIN:VCALENDAR\<newline>VERSION:2.0\<newline>PRODID:-//MLB 2025 Postseason Auto-Updated//EN\<newline>CALSCALE:GREGORIAN\<newline>METHOD:PUBLISH\<newline>X-WR-CALNAME:MLB 2025 Postseason\<newline>X-WR-TIMEZONE:UTC\<newline>X-PUBLISHED-TTL:PT1H\<newline>\<newline>BEGIN:VEVENT\<newline>UID:mlb-2025-@mlb.com\<newline>DTSTAMP:20251015T000000Z\<newline>DTSTART:20251015T230800Z\<newline>DTEND:20251016T020800Z\<newline>SUMMARY:ALDS3(2-1) Seattle Leads \<newline>LOCATION:TBD\<newline>DESCRIPTION:Seattle  - Detroit \<newline>STATUS:CONFIRMED\<newline>END:VEVENT\<newline>\<newline>BEGIN:VEVENT\<newline>UID:mlb-2025-813046@mlb.com\<newline>DTSTAMP:20251015T000000Z\<newline>DTSTART:20251015T230800Z\<newline>DTEND:20251016T020800Z\<newline>SUMMARY:ALDS3 Toronto - New York\<newline>LOCATION:TBD\<newline>DESCRIPTION:Toronto - New York\<newline>STATUS:CONFIRMED\<newline>END:VEVENT\<newline>\<newline>END:VCALENDAR''"

text \<open>
  The events a loop has for a list of games: those of the games for which its body has
  one, in the order of the games.
\<close>

fun events_of :: "('g \<Rightarrow> exn + event option) \<Rightarrow> 'g list \<Rightarrow> event list" where
  "events_of body [] = []"
| "events_of body (g # gs) =
     (case body g of Inr (Some ev) \<Rightarrow> ev # events_of body gs | _ \<Rightarrow> events_of body gs)"

text \<open>The lines of a list of events, each one stamped with the next reading of the clock.\<close>

fun stamp_events :: "(nat \<Rightarrow> datetime) \<Rightarrow> nat \<Rightarrow> event list \<Rightarrow> string list" where
  "stamp_events clock k [] = []"
| "stamp_events clock k (ev # evs) = event_lines (clock k) ev @ stamp_events clock (Suc k) evs"

text \<open>The text of the calendar with exactly the given events.\<close>

definition calendar_of :: "(nat \<Rightarrow> datetime) \<Rightarrow> event list \<Rightarrow> string" where
  "calendar_of clock evs =
     join [CHR 0x0A] (calendar_header @ stamp_events clock 0 evs @ calendar_footer)"

text \<open>The number of \<^verbatim>\<open>VEVENT\<close> blocks that open in a list of lines.\<close>

definition count_vevents :: "string list \<Rightarrow> nat" where
  "count_vevents ls = length (filter (\<lambda>l. l = ''BEGIN:VEVENT'') ls)"

text \<open>
  The batch of records in a response of the schedule API: the games of its dates, in the
  order the two loops of \<^verbatim>\<open>generate_ics_content\<close> visit them (the response has one
  entry of \<^verbatim>\<open>dates\<close> per day).
\<close>

definition games_of_date :: "pyval \<Rightarrow> exn + pyval list" where
  "games_of_date date_data = exn_bind (dict_get date_data ''games'' (VList [])) py_iter"

fun games_of_dates :: "pyval list \<Rightarrow> exn + pyval list" where
  "games_of_dates [] = Inr []"
| "games_of_dates (date_data # dates) =
     exn_bind (games_of_date date_data) (\<lambda>games.
     exn_bind (games_of_dates dates) (\<lambda>rest. Inr (games @ rest)))"

definition batch_games :: "pyval \<Rightarrow> exn + pyval list" where
  "batch_games games_data =
     exn_bind (dict_get games_data ''dates'' (VList [])) (\<lambda>ds.
     exn_bind (py_iter ds) games_of_dates)"

text \<open>A response with the given games on each of its days.\<close>

definition schedule_of :: "pyval list list \<Rightarrow> pyval" where
  "schedule_of days =
     VDict [(''dates'', VList (map (\<lambda>games. VDict [(''games'', VList games)]) days))]"

section \<open>Verified properties\<close>

subsection \<open>Auxiliary facts\<close>

lemma exn_bind_simps [simp]:
  "exn_bind (Inl e) f = Inl e" "exn_bind (Inr v) f = f v"
  by (simp_all add: exn_bind_def)

lemma mod_day_shift: "(d * us_per_day + x) mod us_per_day = x mod us_per_day"
  by (simp add: us_per_day_def)

lemma div_day_shift: "(d * us_per_day + x) div us_per_day = d + x div us_per_day"
  by (simp add: us_per_day_def)

lemma mk_datetime_tod:
  assumes "mk_datetime y m d hh mm ss us tz = Inr dt"
  shows "0 \<le> tod dt \<and> tod dt < us_per_day \<and> tzinfo dt = tz"
proof -
  have c: "0 \<le> hh" "hh \<le> 23" "0 \<le> mm" "mm \<le> 59" "0 \<le> ss" "ss \<le> 59" "0 \<le> us" "us \<le> 999999"
    and e: "dt = \<lparr>ordinal = ymd2ord y m d,
               tod = hh * us_per_hour + mm * us_per_minute + ss * us_per_second + us,
               tzinfo = tz\<rparr>"
    using assms by (simp_all add: mk_datetime_def split: if_splits)
  show ?thesis using c unfolding e
    by (simp add: us_per_day_def us_per_hour_def us_per_minute_def us_per_second_def)
qed

lemma strptime_utc_tod:
  assumes "strptime_utc s = Inr dt"
  shows "0 \<le> tod dt \<and> tod dt < us_per_day \<and> tzinfo dt = None"
proof -
  obtain y m d hh mm ss where "mk_datetime y m d hh mm ss 0 None = Inr dt"
    using assms unfolding strptime_utc_def
    by (auto split: option.splits prod.splits)
  then show ?thesis by (rule mk_datetime_tod)
qed

lemma strptime_utc_nonempty: "strptime_utc s = Inr dt \<Longrightarrow> s \<noteq> []"
  by (auto simp: strptime_utc_def parse_ymd_def take_digits_def)

lemma eastern_offset_at_utc_cases:
  "eastern_offset_at_utc d t = edt_offset \<or> eastern_offset_at_utc d t = est_offset"
  by (simp add: eastern_offset_at_utc_def Let_def)

lemma eastern_offset_at_wall_cases:
  "eastern_offset_at_wall d t = edt_offset \<or> eastern_offset_at_wall d t = est_offset"
  by (simp add: eastern_offset_at_wall_def Let_def)

lemma has_placeholder_str: "\<exists>b. has_placeholder (VStr a) = Inr b"
  by (auto simp: has_placeholder_def py_in_def)

lemma dt_add_zero:
  assumes "0 \<le> tod dt" "tod dt < us_per_day" "1 \<le> ordinal dt" "ordinal dt \<le> max_ordinal"
  shows "dt_add dt 0 = Inr dt"
  using assms by (simp add: dt_add_def Let_def)

lemma day_div_cases:
  assumes "- us_per_day \<le> x" "x < us_per_day"
  shows "x div us_per_day = -1 \<or> x div us_per_day = 0"
proof (cases "0 \<le> x")
  case True
  then show ?thesis using assms by simp
next
  case False
  then have "x div us_per_day = - 1"
    using assms by (simp add: us_per_day_def div_pos_neg_trivial)
  then show ?thesis by simp
qed

lemma astimezone_eastern_utc:
  assumes t: "0 \<le> tod dt" "tod dt < us_per_day"
    and r: "2 \<le> ordinal dt" "ordinal dt \<le> max_ordinal"
  shows "\<exists>et. astimezone_eastern lz (dt\<lparr>tzinfo := Some PytzUTC\<rparr>) = Inr et
           \<and> ordinal et = eastern_date_of_utc (ordinal dt) (tod dt)"
proof -
  let ?u = "dt\<lparr>tzinfo := Some PytzUTC\<rparr>"
  have u: "to_utc lz ?u = Inr ?u"
    using t r dt_add_zero [of ?u] by (simp add: to_utc_def)
  let ?e = "eastern_offset_at_utc (ordinal dt) (tod dt)"
  have e: "?e = edt_offset \<or> ?e = est_offset" by (rule eastern_offset_at_utc_cases)
  have lo: "- us_per_day \<le> tod dt + ?e" "tod dt + ?e < us_per_day"
    using e t by (auto simp: edt_offset_def est_offset_def us_per_day_def us_per_hour_def)
  have dv: "(tod dt + ?e) div us_per_day = -1 \<or> (tod dt + ?e) div us_per_day = 0"
    using lo by (rule day_div_cases)
  have d: "eastern_date_of_utc (ordinal dt) (tod dt) = ordinal dt + (tod dt + ?e) div us_per_day"
    by (simp add: eastern_date_of_utc_def div_day_shift add.assoc)
  have rng: "1 \<le> ordinal dt + (tod dt + ?e) div us_per_day"
            "ordinal dt + (tod dt + ?e) div us_per_day \<le> max_ordinal"
    using dv r by auto
  show ?thesis
    using u rng d by (simp add: astimezone_eastern_def dt_add_def Let_def)
qed


lemma eastern_15_08_as_utc_cases:
  "eastern_15_08_as_utc d = \<lparr>ordinal = d, tod = 19 * us_per_hour + 8 * us_per_minute, tzinfo = Some PytzUTC\<rparr>
   \<or> eastern_15_08_as_utc d = \<lparr>ordinal = d, tod = 20 * us_per_hour + 8 * us_per_minute, tzinfo = Some PytzUTC\<rparr>"
proof -
  have a: "d * us_per_day + time_15_08 - edt_offset = d * us_per_day + (19 * us_per_hour + 8 * us_per_minute)"
    and b: "d * us_per_day + time_15_08 - est_offset = d * us_per_day + (20 * us_per_hour + 8 * us_per_minute)"
    by (simp_all add: time_15_08_def edt_offset_def est_offset_def)
  have c: "(19 * us_per_hour + 8 * us_per_minute) div us_per_day = 0"
          "(19 * us_per_hour + 8 * us_per_minute) mod us_per_day = 19 * us_per_hour + 8 * us_per_minute"
          "(20 * us_per_hour + 8 * us_per_minute) div us_per_day = 0"
          "(20 * us_per_hour + 8 * us_per_minute) mod us_per_day = 20 * us_per_hour + 8 * us_per_minute"
    by (simp_all add: us_per_day_def us_per_hour_def us_per_minute_def)
  show ?thesis
    using eastern_offset_at_wall_cases [of d time_15_08]
    by (auto simp: eastern_15_08_as_utc_def Let_def a b c div_day_shift mod_day_shift)
qed

lemma utc_start_end_eastern:
  assumes r: "1 \<le> d" "d < max_ordinal"
  shows "\<exists>dt_end. utc_start_end lz \<lparr>ordinal = d, tod = time_15_08,
                  tzinfo = Some (USEastern (eastern_offset_at_wall d time_15_08))\<rparr>
          = Inr (strftime_ics (eastern_15_08_as_utc d), strftime_ics dt_end)
          \<and> dt_add (eastern_15_08_as_utc d) updater_duration = Inr dt_end"
proof -
  let ?w = "eastern_offset_at_wall d time_15_08"
  let ?x = "\<lparr>ordinal = d, tod = time_15_08, tzinfo = Some (USEastern ?w)\<rparr>"
  have w: "?w = edt_offset \<or> ?w = est_offset" by (rule eastern_offset_at_wall_cases)
  have dv: "(time_15_08 - ?w) div us_per_day = 0"
    using w by (auto simp: time_15_08_def edt_offset_def est_offset_def us_per_day_def
        us_per_hour_def us_per_minute_def)
  have eq: "eastern_15_08_as_utc d =
      \<lparr>ordinal = d, tod = (time_15_08 - ?w) mod us_per_day, tzinfo = Some PytzUTC\<rparr>"
    using dv
    by (simp add: eastern_15_08_as_utc_def Let_def div_day_shift mod_day_shift
        add_diff_eq [symmetric])
  have a: "astimezone_utc lz ?x = Inr (eastern_15_08_as_utc d)"
    using r dv by (simp add: astimezone_utc_def to_utc_def dt_add_def Let_def eq)
  have "\<exists>e. dt_add (eastern_15_08_as_utc d) updater_duration = Inr e"
    using eastern_15_08_as_utc_cases [of d] r
    by (auto simp: dt_add_def Let_def updater_duration_def us_per_day_def us_per_hour_def
        us_per_minute_def)
  then obtain e where e: "dt_add (eastern_15_08_as_utc d) updater_duration = Inr e" ..
  have "\<exists>k. dt_add (eastern_15_08_as_utc d) kst_offset = Inr k"
    using eastern_15_08_as_utc_cases [of d] r
    by (auto simp: dt_add_def Let_def kst_offset_def us_per_day_def us_per_hour_def
        us_per_minute_def)
  then obtain k where k: "dt_add (eastern_15_08_as_utc d) kst_offset = Inr k" ..
  show ?thesis
    using a e k by (simp add: utc_start_end_def)
qed


lemma eastern_15_08_value:
  assumes t: "0 \<le> tod dt" "tod dt < us_per_day" "tzinfo dt = None"
    and r: "3 \<le> ordinal dt" "ordinal dt < max_ordinal"
  shows "eastern_15_08 lz dt =
           Inr \<lparr>ordinal = eastern_date_of_utc (ordinal dt) (tod dt), tod = time_15_08,
                tzinfo = Some (USEastern (eastern_offset_at_wall
                                 (eastern_date_of_utc (ordinal dt) (tod dt)) time_15_08))\<rparr>"
    and "2 \<le> eastern_date_of_utc (ordinal dt) (tod dt)"
    and "eastern_date_of_utc (ordinal dt) (tod dt) < max_ordinal"
proof -
  let ?e = "eastern_offset_at_utc (ordinal dt) (tod dt)"
  let ?D = "eastern_date_of_utc (ordinal dt) (tod dt)"
  have e: "?e = edt_offset \<or> ?e = est_offset" by (rule eastern_offset_at_utc_cases)
  have lo: "- us_per_day \<le> tod dt + ?e" "tod dt + ?e < us_per_day"
    using e t by (auto simp: edt_offset_def est_offset_def us_per_day_def us_per_hour_def)
  have dv: "(tod dt + ?e) div us_per_day = -1 \<or> (tod dt + ?e) div us_per_day = 0"
    using lo by (rule day_div_cases)
  have d: "?D = ordinal dt + (tod dt + ?e) div us_per_day"
    by (simp add: eastern_date_of_utc_def div_day_shift add.assoc)
  show lo2: "2 \<le> ?D" and hi2: "?D < max_ordinal"
    using dv r d by auto
  obtain et where et: "astimezone_eastern lz (dt\<lparr>tzinfo := Some PytzUTC\<rparr>) = Inr et"
    and o: "ordinal et = ?D"
    using astimezone_eastern_utc [of dt lz] t r by auto
  show "eastern_15_08 lz dt =
           Inr \<lparr>ordinal = ?D, tod = time_15_08,
                tzinfo = Some (USEastern (eastern_offset_at_wall ?D time_15_08))\<rparr>"
    using et o lo2 hi2
    by (simp add: eastern_15_08_def eastern_localize_def combine_15_08_def)
qed

lemma placeholder_resolution:
  assumes p: "strptime_utc s = Inr dt"
    and r: "3 \<le> ordinal dt" "ordinal dt < max_ordinal"
    and g: "game_time_of lz s away home = eastern_15_08 lz dt"
  shows "\<exists>dt_end. format_game_time lz (VStr s) away home =
            (Some (strftime_ics (eastern_15_08_as_utc (eastern_date_of_utc (ordinal dt) (tod dt)))),
             Some (strftime_ics dt_end))
          \<and> dt_add (eastern_15_08_as_utc (eastern_date_of_utc (ordinal dt) (tod dt)))
               updater_duration = Inr dt_end"
proof -
  let ?D = "eastern_date_of_utc (ordinal dt) (tod dt)"
  have t: "0 \<le> tod dt" "tod dt < us_per_day" "tzinfo dt = None"
    using strptime_utc_tod [OF p] by simp_all
  note v = eastern_15_08_value [OF t r]
  obtain dt_end where
    u: "utc_start_end lz \<lparr>ordinal = ?D, tod = time_15_08,
           tzinfo = Some (USEastern (eastern_offset_at_wall ?D time_15_08))\<rparr>
         = Inr (strftime_ics (eastern_15_08_as_utc ?D), strftime_ics dt_end)"
    and a: "dt_add (eastern_15_08_as_utc ?D) updater_duration = Inr dt_end"
    using utc_start_end_eastern [of ?D lz] v(2,3) by auto
  have "format_game_time lz (VStr s) away home =
          (Some (strftime_ics (eastern_15_08_as_utc ?D)), Some (strftime_ics dt_end))"
    using g v(1) u by (simp add: format_game_time_def format_game_time_try_def)
  then show ?thesis using a by blast
qed

subsection \<open>The minute-33 rule\<close>

text \<open>
  Claim C1.  A timestamp in the Z-suffixed form (\<^verbatim>\<open>strptime\<close> reads it with the format
  \<^verbatim>\<open>%Y-%m-%dT%H:%M:%SZ\<close> and it contains the letter \<^verbatim>\<open>Z\<close>) whose minute is 33 is
  resolved by \<^verbatim>\<open>format_game_time\<close> to 15:08 Eastern time on the Eastern civil date of
  the timestamp, converted to UTC and formatted \<^verbatim>\<open>YYYYMMDDTHHMMSSZ\<close>, whatever its hour
  (and whatever the two team names).  The date lies in the years 2007 to 2037, where the
  Eastern rules are modelled.
\<close>

theorem format_game_time_minute_33:
  assumes p: "strptime_utc s = Inr dt"
    and z: "str_contains ''Z'' s"
    and m: "dt_minute dt = 33"
    and lo: "ymd2ord 2007 1 1 \<le> ordinal dt"
    and hi: "ordinal dt \<le> ymd2ord 2037 12 31"
  shows "fst (format_game_time lz (VStr s) (VStr away) (VStr home)) =
           Some (strftime_ics (eastern_15_08_as_utc (eastern_date_of_utc (ordinal dt) (tod dt))))"
proof -
  have r: "3 \<le> ordinal dt" "ordinal dt < max_ordinal"
    using lo hi
    by (simp_all add: ymd2ord_def days_before_year_def days_before_month_def
        days_before_month_common_def is_leap_def max_ordinal_def)
  obtain a where a: "has_placeholder (VStr away) = Inr a"
    using has_placeholder_str by blast
  obtain h where h: "has_placeholder (VStr home) = Inr h"
    using has_placeholder_str by blast
  have g: "game_time_of lz s (VStr away) (VStr home) = eastern_15_08 lz dt"
    using p z m a h strptime_utc_nonempty [OF p]
    by (simp add: game_time_of_def)
  show ?thesis
    using placeholder_resolution [OF p r g] by auto
qed

text \<open>At 07:33 UTC on 24 October 2025 the start is 19:08 UTC, that is 15:08 EDT.\<close>

theorem format_game_time_minute_33_witness:
  "strptime_utc ''2025-10-24T07:33:00Z'' = Inr \<lparr>ordinal = 739548, tod = 27180000000, tzinfo = None\<rparr>
   \<and> str_contains ''Z'' ''2025-10-24T07:33:00Z''
   \<and> dt_minute \<lparr>ordinal = 739548, tod = 27180000000, tzinfo = None\<rparr> = 33
   \<and> ymd2ord 2007 1 1 \<le> 739548 \<and> 739548 \<le> ymd2ord 2037 12 31
   \<and> fst (format_game_time utc_host (VStr ''2025-10-24T07:33:00Z'') (VStr ''Toronto Blue Jays'')
            (VStr ''Los Angeles Dodgers'')) = Some ''20251024T190800Z''"
proof -
  let ?dt = "\<lparr>ordinal = 739548, tod = 27180000000, tzinfo = None\<rparr>"
  have p: "strptime_utc ''2025-10-24T07:33:00Z'' = Inr ?dt" by code_simp
  have z: "str_contains ''Z'' ''2025-10-24T07:33:00Z''" by code_simp
  have m: "dt_minute ?dt = 33" by code_simp
  have lo: "ymd2ord 2007 1 1 \<le> ordinal ?dt" by code_simp
  have hi: "ordinal ?dt \<le> ymd2ord 2037 12 31" by code_simp
  have v: "strftime_ics (eastern_15_08_as_utc (eastern_date_of_utc (ordinal ?dt) (tod ?dt)))
             = ''20251024T190800Z''" by code_simp
  show ?thesis
    using format_game_time_minute_33 [OF p z m lo hi, of utc_host "''Toronto Blue Jays''"
        "''Los Angeles Dodgers''"] p z m lo hi v
    by simp
qed

subsection \<open>Ranges of parsed dates\<close>

lemma days_before_year_nonneg: "1 \<le> y \<Longrightarrow> 0 \<le> days_before_year y"
proof -
  assume y: "1 \<le> y"
  have a: "(y - 1) div 100 \<le> (y - 1) div 4"
    using y by (intro zdiv_mono2) simp_all
  have b: "0 \<le> (y - 1) div 400" using y by simp
  have c: "0 \<le> (y - 1) * 365" using y by simp
  show ?thesis unfolding days_before_year_def using a b c by linarith
qed

lemma cycle_bound:
  fixes n q4 q100 q400 :: int
  assumes "4 * q4 \<le> n" "n - 99 \<le> 100 * q100" "400 * q400 \<le> n"
  shows "400 * (n * 365 + q4 - q100 + q400) \<le> 146097 * n + 396"
proof -
  have a: "400 * q4 \<le> 100 * n" using assms(1) by simp
  have b: "4 * n - 396 \<le> 400 * q100" using assms(2) by simp
  show ?thesis using a b assms(3) by (simp add: algebra_simps)
qed

lemma days_before_year_bound:
  "400 * days_before_year y \<le> 146097 * (y - 1) + 396"
proof -
  have a: "4 * ((y - 1) div 4) \<le> y - 1" by simp
  have b: "y - 1 - 99 \<le> 100 * ((y - 1) div 100)" by presburger
  have c: "400 * ((y - 1) div 400) \<le> y - 1" by simp
  show ?thesis unfolding days_before_year_def by (rule cycle_bound [OF a b c])
qed


lemma ymd2ord_range:
  assumes "1 \<le> y" "y \<le> 9999" "1 \<le> m" "m \<le> 12" "1 \<le> d" "d \<le> days_in_month y m"
  shows "1 \<le> ymd2ord y m d" "ymd2ord y m d \<le> max_ordinal"
proof -
  have a: "0 \<le> days_before_month y m"
    by (simp add: days_before_month_def days_before_month_common_def)
  show "1 \<le> ymd2ord y m d"
    using a days_before_year_nonneg [OF assms(1)] assms(5) by (simp add: ymd2ord_def)
  have b: "days_before_month y m + d \<le> 365 \<or> (is_leap y \<and> days_before_month y m + d \<le> 366)"
    using assms(3-6)
    by (auto simp: days_before_month_def days_before_month_common_def days_in_month_def
        split: if_splits)
  show "ymd2ord y m d \<le> max_ordinal"
  proof (cases "y = 9999")
    case True
    have n: "\<not> is_leap 9999" by (simp add: is_leap_def)
    have v: "days_before_year 9999 = 3651694" by (simp add: days_before_year_def)
    show ?thesis
      using b n v unfolding True by (simp add: ymd2ord_def max_ordinal_def)
  next
    case False
    then have "y - 1 \<le> 9997" using assms(2) by simp
    then have "146097 * (y - 1) \<le> 146097 * 9997" by simp
    then have "400 * days_before_year y \<le> 1460532105"
      using days_before_year_bound [of y] by simp
    then have "days_before_year y \<le> 3651330"
      by simp
    then show ?thesis using b by (auto simp: ymd2ord_def max_ordinal_def)
  qed
qed

lemma mk_datetime_ordinal:
  assumes "mk_datetime y m d hh mm ss us tz = Inr dt"
  shows "1 \<le> ordinal dt \<and> ordinal dt \<le> max_ordinal"
proof -
  have c: "1 \<le> y" "y \<le> 9999" "1 \<le> m" "m \<le> 12" "1 \<le> d" "d \<le> days_in_month y m"
    and e: "ordinal dt = ymd2ord y m d"
    using assms by (auto simp: mk_datetime_def split: if_splits)
  show ?thesis unfolding e using ymd2ord_range [OF c] by simp
qed

lemma fromisoformat_ordinal:
  assumes "fromisoformat h s = Inr dt"
  shows "1 \<le> ordinal dt \<and> ordinal dt \<le> max_ordinal"
proof -
  obtain y m d hh mm ss us tz where "mk_datetime y m d hh mm ss us tz = Inr dt"
    using assms unfolding fromisoformat_def
    by (auto split: option.splits prod.splits)
  then show ?thesis by (rule mk_datetime_ordinal)
qed

subsection \<open>Placeholder teams\<close>

lemma has_placeholder_VStr: "has_placeholder (VStr a) = Inr (is_placeholder_name a)"
  by (auto simp: has_placeholder_def py_in_def is_placeholder_name_def)

lemma ymd_range_2007_2037:
  assumes "ymd2ord 2007 1 1 \<le> d" "d \<le> ymd2ord 2037 12 31"
  shows "3 \<le> d" "d < max_ordinal"
  using assms
  by (simp_all add: ymd2ord_def days_before_year_def days_before_month_def
      days_before_month_common_def is_leap_def max_ordinal_def)

text \<open>
  On a timestamp in the Z-suffixed form the placeholder branch does what its comment says:
  when either team name contains a placeholder marker, \<^verbatim>\<open>format_game_time\<close> ignores
  the time of day and returns 15:08 Eastern time on the Eastern civil date of the
  timestamp, converted to UTC.  Dates from 2007 to 2037.
\<close>

lemma placeholder_teams_z_form:
  assumes p: "strptime_utc s = Inr dt"
    and n: "is_placeholder_name away \<or> is_placeholder_name home"
    and lo: "ymd2ord 2007 1 1 \<le> ordinal dt"
    and hi: "ordinal dt \<le> ymd2ord 2037 12 31"
  shows "fst (format_game_time lz (VStr s) (VStr away) (VStr home)) =
           Some (strftime_ics (eastern_15_08_as_utc (eastern_date_of_utc (ordinal dt) (tod dt))))"
proof -
  note r = ymd_range_2007_2037 [OF lo hi]
  have g: "game_time_of lz s (VStr away) (VStr home) = eastern_15_08 lz dt"
    using p n strptime_utc_nonempty [OF p]
    by (auto simp: game_time_of_def has_placeholder_VStr)
  show ?thesis
    using placeholder_resolution [OF p r g] by auto
qed

text \<open>The example of the specification: \<^verbatim>\<open>TBD\<close> at Boston, 13:08 UTC on 20 October 2025.\<close>

lemma placeholder_teams_z_form_example:
  "strptime_utc ''2025-10-20T13:08:00Z'' = Inr \<lparr>ordinal = 739544, tod = 47280000000, tzinfo = None\<rparr>
   \<and> (is_placeholder_name ''TBD'' \<or> is_placeholder_name ''Boston Red Sox'')
   \<and> ymd2ord 2007 1 1 \<le> 739544 \<and> 739544 \<le> ymd2ord 2037 12 31
   \<and> fst (format_game_time utc_host (VStr ''2025-10-20T13:08:00Z'') (VStr ''TBD'')
            (VStr ''Boston Red Sox'')) = Some ''20251020T190800Z''"
proof -
  let ?dt = "\<lparr>ordinal = 739544, tod = 47280000000, tzinfo = None\<rparr>"
  have p: "strptime_utc ''2025-10-20T13:08:00Z'' = Inr ?dt" by code_simp
  have n: "is_placeholder_name ''TBD'' \<or> is_placeholder_name ''Boston Red Sox''" by code_simp
  have lo: "ymd2ord 2007 1 1 \<le> ordinal ?dt" by code_simp
  have hi: "ordinal ?dt \<le> ymd2ord 2037 12 31" by code_simp
  have v: "strftime_ics (eastern_15_08_as_utc (eastern_date_of_utc (ordinal ?dt) (tod ?dt)))
             = ''20251020T190800Z''" by code_simp
  show ?thesis
    using placeholder_teams_z_form [OF p n lo hi, of utc_host] p n lo hi v
    by simp
qed

text \<open>
  Claim C2.  The claim asks for 15:08 Eastern time on the Eastern civil date of the
  timestamp whenever a team name contains a placeholder marker and the timestamp is not
  empty, for every shape of timestamp the resolver accepts: Z-suffixed, with a numeric
  offset, without offset, a bare date.  The code does so for the first shape only.  The
  placeholder branch hands every timestamp to \<^verbatim>\<open>strptime\<close> with the Z format, the
  test for a bare date at its head being commented out; so with the team \<^verbatim>\<open>TBD\<close> a
  bare date (what the renderer passes when a game has only \<^verbatim>\<open>game_date\<close>), a
  timestamp with an offset and one without are not resolved, and the game is dropped from
  the calendar.  The other branch resolves the same bare date, for two determined teams,
  to 15:08 Eastern time (19:08 UTC), which is what the comment at the head of the
  placeholder branch says of games whose teams are not determined.  This holds on every
  machine, none of these paths reading the local zone or \<^verbatim>\<open>fromisoformat\<close>.
\<close>

theorem placeholder_branch_drops_bare_date:
  "is_placeholder_name ''TBD''
   \<and> format_game_time lz (VStr ''2025-10-20'') (VStr ''TBD'') (VStr ''Boston Red Sox'')
       = (None, None)
   \<and> format_game_time lz (VStr ''2025-10-20T13:08:00-04:00'') (VStr ''TBD'')
        (VStr ''Boston Red Sox'') = (None, None)
   \<and> format_game_time lz (VStr ''2025-10-20T13:08:00'') (VStr ''TBD'')
        (VStr ''Boston Red Sox'') = (None, None)
   \<and> format_game_time lz (VStr ''2025-10-20'') (VStr ''Seattle Mariners'')
        (VStr ''Boston Red Sox'') = (Some ''20251020T190800Z'', Some ''20251020T223800Z'')
   \<and> updater_loop_body lz
        (VDict [(''game_id'', VInt 813050), (''game_date'', VStr ''2025-10-20''),
                (''away_name'', VStr ''TBD''), (''home_name'', VStr ''Boston Red Sox'')])
       = Inr None"
  by code_simp

subsection \<open>The fixed duration\<close>

lemma dt_add_instant:
  assumes "dt_add dt x = Inr dt'"
  shows "instant dt' = instant dt + x" and "time_of_day_ok dt'" and "tzinfo dt' = tzinfo dt"
proof -
  let ?t = "tod dt + x"
  have e: "dt' = dt\<lparr>ordinal := ordinal dt + ?t div us_per_day, tod := ?t mod us_per_day\<rparr>"
    using assms by (simp add: dt_add_def Let_def split: if_splits)
  have "(ordinal dt + ?t div us_per_day) * us_per_day + ?t mod us_per_day
          = ordinal dt * us_per_day + (?t div us_per_day * us_per_day + ?t mod us_per_day)"
    by (simp add: algebra_simps)
  also have "\<dots> = ordinal dt * us_per_day + ?t" by simp
  finally show "instant dt' = instant dt + x"
    by (simp add: e instant_def)
  show "time_of_day_ok dt'"
    by (simp add: e time_of_day_ok_def us_per_day_def)
  show "tzinfo dt' = tzinfo dt" by (simp add: e)
qed

lemma astimezone_utc_ok:
  assumes "astimezone_utc lz dt = Inr u"
  shows "time_of_day_ok u"
proof -
  obtain v where v: "to_utc lz dt = Inr v" and u: "u = v\<lparr>tzinfo := Some PytzUTC\<rparr>"
    using assms by (cases "to_utc lz dt") (auto simp: astimezone_utc_def)
  have "time_of_day_ok v"
    using v dt_add_instant(2) by (simp add: to_utc_def Let_def)
  then show ?thesis by (simp add: u time_of_day_ok_def)
qed

lemma fromisoformat_tod:
  assumes "fromisoformat h s = Inr dt"
  shows "time_of_day_ok dt"
proof -
  obtain y m d hh mm ss us tz where "mk_datetime y m d hh mm ss us tz = Inr dt"
    using assms unfolding fromisoformat_def
    by (auto split: option.splits prod.splits)
  then show ?thesis using mk_datetime_tod unfolding time_of_day_ok_def by blast
qed

lemma game_time_of_utc_ok:
  assumes "game_time_of lz s away home = Inr dt" and "tzinfo dt = Some PytzUTC"
  shows "time_of_day_ok dt"
proof -
  have a: "\<And>x y. eastern_15_08 lz x = Inr y \<Longrightarrow> tzinfo y \<noteq> Some PytzUTC"
    by (auto simp: eastern_15_08_def eastern_localize_def combine_15_08_def exn_bind_def
        split: sum.splits if_splits)
  have b: "\<And>x y. eastern_localize x = Inr y \<Longrightarrow> tzinfo y \<noteq> Some PytzUTC"
    by (auto simp: eastern_localize_def split: if_splits)
  have c: "\<And>x y. utc_localize x = Inr y \<Longrightarrow> time_of_day_ok x \<Longrightarrow> time_of_day_ok y"
    by (auto simp: utc_localize_def time_of_day_ok_def split: if_splits)
  show ?thesis
    using assms a b c fromisoformat_tod
    by (auto simp: game_time_of_def exn_bind_def split: sum.splits if_splits)
qed

lemma utc_start_end_duration:
  assumes "utc_start_end lz dt = Inr (s, e)"
    and "tzinfo dt = Some PytzUTC \<Longrightarrow> time_of_day_ok dt"
  shows "\<exists>a b. s = strftime_ics a \<and> e = strftime_ics b \<and> time_of_day_ok a \<and> time_of_day_ok b
           \<and> instant b = instant a + updater_duration"
proof -
  obtain u where u: "(if tzinfo dt \<noteq> Some PytzUTC then astimezone_utc lz dt else Inr dt) = Inr u"
    using assms(1) unfolding utc_start_end_def
    by (cases "if tzinfo dt \<noteq> Some PytzUTC then astimezone_utc lz dt else Inr dt") auto
  have ok: "time_of_day_ok u"
    using u assms(2) astimezone_utc_ok by (auto split: if_splits)
  obtain b where b: "dt_add u updater_duration = Inr b"
    using assms(1) u unfolding utc_start_end_def
    by (cases "dt_add u updater_duration") auto
  have se: "s = strftime_ics u" "e = strftime_ics b"
    using assms(1) u b unfolding utc_start_end_def
    by (cases "dt_add u kst_offset"; simp)+
  show ?thesis
    using se ok dt_add_instant [OF b] by blast
qed

lemma format_game_time_duration:
  assumes "format_game_time lz gd away home = (Some s, Some e)"
  shows "\<exists>a b. s = strftime_ics a \<and> e = strftime_ics b \<and> time_of_day_ok a \<and> time_of_day_ok b
           \<and> instant b = instant a + updater_duration"
proof -
  obtain str where gd: "gd = VStr str"
    using assms by (cases gd) (simp_all add: format_game_time_def)
  have t: "format_game_time_try lz str away home = Inr (s, e)"
    using assms unfolding gd format_game_time_def
    by (cases "format_game_time_try lz str away home") (auto split: prod.splits)
  obtain dt where g: "game_time_of lz str away home = Inr dt" and u: "utc_start_end lz dt = Inr (s, e)"
    using t unfolding format_game_time_try_def
    by (cases "game_time_of lz str away home") auto
  show ?thesis
    using utc_start_end_duration [OF u] game_time_of_utc_ok [OF g] by blast
qed

lemma strftime_ics_nonempty: "strftime_ics dt \<noteq> []"
  by (simp add: strftime_ics_def)

lemma game_date_time_try_duration:
  assumes "game_date_time_try lz v = Inr (s, e)"
  shows "\<exists>a b. s = strftime_ics a \<and> e = strftime_ics b \<and> time_of_day_ok a \<and> time_of_day_ok b
           \<and> instant b = instant a + icsmaker_duration"
proof -
  from assms obtain dt ut en where
      "astimezone_utc lz dt = Inr ut" "dt_add ut icsmaker_duration = Inr en"
      "s = strftime_ics ut" "e = strftime_ics en"
    unfolding game_date_time_try_def exn_bind_def
    by (auto split: sum.splits)
  then show ?thesis
    using astimezone_utc_ok dt_add_instant by blast
qed

lemma game_date_time_tbd_try_duration:
  assumes "game_date_time_tbd_try lz v = Inr (s, e)"
  shows "\<exists>a b. s = strftime_ics a \<and> e = strftime_ics b \<and> time_of_day_ok a \<and> time_of_day_ok b
           \<and> instant b = instant a + icsmaker_duration"
proof -
  from assms obtain dt ut en where
      "astimezone_utc lz dt = Inr ut" "dt_add ut icsmaker_duration = Inr en"
      "s = strftime_ics ut" "e = strftime_ics en"
    unfolding game_date_time_tbd_try_def exn_bind_def
    by (auto split: sum.splits)
  then show ?thesis
    using astimezone_utc_ok dt_add_instant by blast
qed

lemma get_game_date_time_duration:
  assumes "get_game_date_time lz game = Inr (s, e)" and "s \<noteq> []"
  shows "\<exists>a b. s = strftime_ics a \<and> e = strftime_ics b \<and> time_of_day_ok a \<and> time_of_day_ok b
           \<and> instant b = instant a + icsmaker_duration"
proof -
  from assms obtain v where
     "game_date_time_tbd_try lz v = Inr (s, e) \<or> game_date_time_try lz v = Inr (s, e)"
    unfolding get_game_date_time_def exn_bind_def
    by (auto split: sum.splits if_splits)
  then show ?thesis
    using game_date_time_try_duration game_date_time_tbd_try_duration by blast
qed

text \<open>
  Claim C5.  Whenever a resolver produces a result, the two strings are the formats of two
  times of day \<open>a\<close> and \<open>b\<close> with \<open>b\<close> exactly the fixed duration after \<open>a\<close>:
  3 hours 30 minutes in \<^verbatim>\<open>format_game_time\<close> (\<^verbatim>\<open>MLB_PostSeason.py\<close>), 3 hours in
  \<^verbatim>\<open>get_game_date_time\<close> (\<^verbatim>\<open>MLB_API.py\<close>).  The constant does not depend on the game, so it
  is the same for all events of one rendering.
\<close>

theorem end_is_start_plus_duration:
  "(format_game_time lz gd away home = (Some s, Some e) \<longrightarrow>
      (\<exists>a b. s = strftime_ics a \<and> e = strftime_ics b \<and> time_of_day_ok a \<and> time_of_day_ok b
             \<and> instant b = instant a + updater_duration))
   \<and> (get_game_date_time lz game = Inr (s', e') \<and> s' \<noteq> [] \<longrightarrow>
      (\<exists>a b. s' = strftime_ics a \<and> e' = strftime_ics b \<and> time_of_day_ok a \<and> time_of_day_ok b
             \<and> instant b = instant a + icsmaker_duration))
   \<and> updater_duration = (3 * 3600 + 30 * 60) * 1000000
   \<and> icsmaker_duration = 3 * 3600 * 1000000"
  using format_game_time_duration [of lz gd away home s e]
    get_game_date_time_duration [of lz game s' e']
  by (simp add: updater_duration_def icsmaker_duration_def us_per_hour_def us_per_minute_def)

theorem end_is_start_plus_duration_witness:
  "format_game_time utc_host (VStr ''2025-10-15T23:08:00Z'') (VStr ''Seattle Mariners'')
      (VStr ''Detroit Tigers'') = (Some ''20251015T230800Z'', Some ''20251016T023800Z'')
   \<and> get_game_date_time utc_host (VDict [(''gameDate'', VStr ''2025-10-15T23:08:00Z'')])
       = Inr (''20251015T230800Z'', ''20251016T020800Z'')
   \<and> (\<exists>a b. ''20251015T230800Z'' = strftime_ics a \<and> ''20251016T023800Z'' = strftime_ics b
          \<and> time_of_day_ok a \<and> time_of_day_ok b \<and> instant b = instant a + updater_duration)
   \<and> (\<exists>a b. ''20251015T230800Z'' = strftime_ics a \<and> ''20251016T020800Z'' = strftime_ics b
          \<and> time_of_day_ok a \<and> time_of_day_ok b \<and> instant b = instant a + icsmaker_duration)"
proof -
  have f: "format_game_time utc_host (VStr ''2025-10-15T23:08:00Z'') (VStr ''Seattle Mariners'')
      (VStr ''Detroit Tigers'') = (Some ''20251015T230800Z'', Some ''20251016T023800Z'')"
    by code_simp
  have g: "get_game_date_time utc_host (VDict [(''gameDate'', VStr ''2025-10-15T23:08:00Z'')])
       = Inr (''20251015T230800Z'', ''20251016T020800Z'')"
    by code_simp
  have n: "''20251015T230800Z'' \<noteq> []" by simp
  note T = end_is_start_plus_duration [of utc_host "VStr ''2025-10-15T23:08:00Z''"
        "VStr ''Seattle Mariners''" "VStr ''Detroit Tigers''" "''20251015T230800Z''"
        "''20251016T023800Z''" "VDict [(''gameDate'', VStr ''2025-10-15T23:08:00Z'')]"
        "''20251015T230800Z''" "''20251016T020800Z''"]
  have A: "\<exists>a b. ''20251015T230800Z'' = strftime_ics a \<and> ''20251016T023800Z'' = strftime_ics b
          \<and> time_of_day_ok a \<and> time_of_day_ok b \<and> instant b = instant a + updater_duration"
    by (rule T [THEN conjunct1, THEN mp, OF f])
  have B: "\<exists>a b. ''20251015T230800Z'' = strftime_ics a \<and> ''20251016T020800Z'' = strftime_ics b
          \<and> time_of_day_ok a \<and> time_of_day_ok b \<and> instant b = instant a + icsmaker_duration"
    by (rule T [THEN conjunct2, THEN conjunct1, THEN mp, OF conjI [OF g n]])
  show ?thesis
    by (intro conjI) (rule f g A B)+
qed

subsection \<open>Undetermined start times in \<^verbatim>\<open>MLB_API.py\<close>\<close>

lemma replace_char_nonempty: "replace_char c new s \<noteq> [] \<Longrightarrow> s \<noteq> []"
  by (auto simp: replace_char_def)

text \<open>
  On a timestamp with a zero UTC offset (a Z suffix or \<^verbatim>\<open>+00:00\<close>), which is what the
  schedule API sends, the code does what its comments say.  \<^verbatim>\<open>get_game_date_time\<close>
  reads only \<^verbatim>\<open>status\<close> and \<^verbatim>\<open>gameDate\<close> of the game, never the teams; when
  \<^verbatim>\<open>startTimeTBD\<close> is \<^verbatim>\<open>True\<close> and \<^verbatim>\<open>gameDate\<close> parses with a zero offset to
  a date before 9999-12-31, the start is 00:08:00 UTC on the next calendar day and the end
  is three hours later.
\<close>

lemma start_time_tbd_next_day:
  assumes st: "dict_get game ''status'' (VDict []) = Inr status"
    and tbd: "dict_get status ''startTimeTBD'' (VBool False) = Inr (VBool True)"
    and gd: "dict_get game ''gameDate'' (VStr []) = Inr (VStr s)"
    and p: "fromisoformat lz (replace_char CHR ''Z'' ''+00:00'' s) = Inr dt"
    and z: "tzinfo dt = Some (FixedOffset 0)"
    and r: "ordinal dt < max_ordinal"
    and ne: "s \<noteq> []"
  shows "get_game_date_time lz game =
           Inr (strftime_ics \<lparr>ordinal = ordinal dt + 1, tod = 8 * us_per_minute,
                               tzinfo = Some PytzUTC\<rparr>,
                strftime_ics \<lparr>ordinal = ordinal dt + 1,
                               tod = 8 * us_per_minute + icsmaker_duration,
                               tzinfo = Some PytzUTC\<rparr>)"
proof -
  have t: "0 \<le> tod dt" "tod dt < us_per_day"
    using fromisoformat_tod [OF p] by (simp_all add: time_of_day_ok_def)
  have o: "1 \<le> ordinal dt" using fromisoformat_ordinal [OF p] by simp
  have dv: "(tod dt + us_per_day) div us_per_day = 1"
    using t by (simp add: us_per_day_def)
  have md: "(tod dt + us_per_day) mod us_per_day = tod dt"
    using t by (simp add: us_per_day_def)
  have n: "dt_add dt us_per_day = Inr (dt\<lparr>ordinal := ordinal dt + 1\<rparr>)"
    using o r dv md by (simp add: dt_add_def Let_def)
  let ?x = "replace_00_08 (dt\<lparr>ordinal := ordinal dt + 1\<rparr>)"
  let ?u = "\<lparr>ordinal = ordinal dt + 1, tod = 8 * us_per_minute, tzinfo = Some PytzUTC\<rparr>"
  have a: "astimezone_utc lz ?x = Inr ?u"
    using o r z
    by (simp add: astimezone_utc_def to_utc_def dt_add_def Let_def replace_00_08_def
        us_per_minute_def us_per_day_def)
  have e: "dt_add ?u icsmaker_duration =
             Inr \<lparr>ordinal = ordinal dt + 1, tod = 8 * us_per_minute + icsmaker_duration,
                  tzinfo = Some PytzUTC\<rparr>"
    using o r
    by (simp add: dt_add_def Let_def icsmaker_duration_def us_per_minute_def us_per_hour_def
        us_per_day_def)
  have "game_date_time_tbd_try lz (VStr s) =
           Inr (strftime_ics ?u, strftime_ics \<lparr>ordinal = ordinal dt + 1,
                  tod = 8 * us_per_minute + icsmaker_duration, tzinfo = Some PytzUTC\<rparr>)"
    using p n a e by (simp add: game_date_time_tbd_try_def py_replace_Z_def)
  then show ?thesis
    using st tbd gd ne by (simp add: get_game_date_time_def)
qed

text \<open>The timestamp quoted in the source, 07:33 UTC on 24 October 2025.\<close>

lemma start_time_tbd_next_day_example:
  "get_game_date_time utc_host
      (VDict [(''gameDate'', VStr ''2025-10-24T07:33:00Z''),
              (''status'', VDict [(''startTimeTBD'', VBool True)])])
     = Inr (''20251025T000800Z'', ''20251025T030800Z'')"
proof -
  let ?st = "VDict [(''startTimeTBD'', VBool True)]"
  let ?g = "VDict [(''gameDate'', VStr ''2025-10-24T07:33:00Z''), (''status'', ?st)]"
  let ?dt = "\<lparr>ordinal = 739548, tod = 27180000000, tzinfo = Some (FixedOffset 0)\<rparr>"
  have st: "dict_get ?g ''status'' (VDict []) = Inr ?st" by code_simp
  have tbd: "dict_get ?st ''startTimeTBD'' (VBool False) = Inr (VBool True)" by code_simp
  have gd: "dict_get ?g ''gameDate'' (VStr []) = Inr (VStr ''2025-10-24T07:33:00Z'')" by code_simp
  have p: "fromisoformat utc_host (replace_char CHR ''Z'' ''+00:00'' ''2025-10-24T07:33:00Z'') = Inr ?dt"
    by code_simp
  have z: "tzinfo ?dt = Some (FixedOffset 0)" by simp
  have r: "ordinal ?dt < max_ordinal" by (simp add: max_ordinal_def)
  have ne: "''2025-10-24T07:33:00Z'' \<noteq> []" by simp
  have v1: "strftime_ics \<lparr>ordinal = ordinal ?dt + 1, tod = 8 * us_per_minute,
                               tzinfo = Some PytzUTC\<rparr> = ''20251025T000800Z''" by code_simp
  have v2: "strftime_ics \<lparr>ordinal = ordinal ?dt + 1, tod = 8 * us_per_minute + icsmaker_duration,
                               tzinfo = Some PytzUTC\<rparr> = ''20251025T030800Z''" by code_simp
  show ?thesis
    using start_time_tbd_next_day [OF st tbd gd p z r ne]
    unfolding v1 v2 .
qed

text \<open>
  Claim C9.  The claim asks, for every game with \<^verbatim>\<open>startTimeTBD\<close> whose
  \<^verbatim>\<open>gameDate\<close> parses, for a start at 00:08:00 UTC on the calendar day after the
  timestamp and an end three hours later; the comments of \<^verbatim>\<open>get_game_date_time\<close>
  say the same (the time is set to 00:08:00Z of the next day).  The code sets the clock to
  00:08 in the offset of the timestamp and converts to UTC afterwards.  So for
  \<^verbatim>\<open>2025-10-24T20:00:00-04:00\<close> the start is 04:08 UTC on 25 October, on every
  machine whose \<^verbatim>\<open>fromisoformat\<close> reads the documented format, and not 00:08 UTC of
  any day; the timestamp \<^verbatim>\<open>2025-10-24T07:33:00Z\<close> quoted in the source gives 00:08
  UTC on 25 October.
\<close>

theorem start_time_tbd_with_offset:
  "get_game_date_time (documented_host z)
      (VDict [(''gameDate'', VStr ''2025-10-24T20:00:00-04:00''),
              (''status'', VDict [(''startTimeTBD'', VBool True)])])
     = Inr (''20251025T040800Z'', ''20251025T070800Z'')
   \<and> get_game_date_time (documented_host z)
      (VDict [(''gameDate'', VStr ''2025-10-24T07:33:00Z''),
              (''status'', VDict [(''startTimeTBD'', VBool True)])])
     = Inr (''20251025T000800Z'', ''20251025T030800Z'')"
  by code_simp

subsection \<open>Rendering no games\<close>

text \<open>
  Claim C8.  With no games both renderers return exactly the fixed envelope: the eight
  header lines, the empty line both scripts put before the last line, and
  \<^verbatim>\<open>END:VCALENDAR\<close>; no \<^verbatim>\<open>BEGIN:VEVENT\<close> occurs in it.  For \<^verbatim>\<open>MLB_API.py\<close>
  "no games" is an empty dictionary (what a failed fetch returns), an empty list of dates,
  or a date without games.
\<close>

theorem rendering_zero_games:
  "updater_generate_ics_content clock lz [] = Inr empty_calendar
   \<and> icsmaker_generate_ics_content clock lz (VDict []) = Inr empty_calendar
   \<and> icsmaker_generate_ics_content clock lz (VDict [(''dates'', VList [])]) = Inr empty_calendar
   \<and> icsmaker_generate_ics_content clock lz
         (VDict [(''dates'', VList [VDict [(''games'', VList [])]])]) = Inr empty_calendar
   \<and> empty_calendar =
        ''BEGIN:VCALENDAR\<newline>VERSION:2.0\<newline>PRODID:-//MLB 2025 Postseason Auto-Updated//EN\<newline>CALSCALE:GREGORIAN\<newline>METHOD:PUBLISH\<newline>X-WR-CALNAME:MLB 2025 Postseason\<newline>X-WR-TIMEZONE:UTC\<newline>X-PUBLISHED-TTL:PT1H\<newline>\<newline>END:VCALENDAR''
   \<and> \<not> str_contains ''BEGIN:VEVENT'' empty_calendar"
proof -
  have a: "updater_generate_ics_content clock lz [] = Inr empty_calendar"
    by (simp add: updater_generate_ics_content_def updater_ics_lines_def empty_calendar_def)
  have b: "icsmaker_generate_ics_content clock lz (VDict []) = Inr empty_calendar"
    by (simp add: icsmaker_generate_ics_content_def icsmaker_ics_lines_def empty_calendar_def
        dict_get_def py_iter_def)
  have c: "icsmaker_generate_ics_content clock lz (VDict [(''dates'', VList [])])
             = Inr empty_calendar"
    by (simp add: icsmaker_generate_ics_content_def icsmaker_ics_lines_def empty_calendar_def
        dict_get_def py_iter_def)
  have d: "icsmaker_generate_ics_content clock lz
             (VDict [(''dates'', VList [VDict [(''games'', VList [])]])]) = Inr empty_calendar"
    by (simp add: icsmaker_generate_ics_content_def icsmaker_ics_lines_def empty_calendar_def
        dict_get_def py_iter_def)
  have e: "empty_calendar =
        ''BEGIN:VCALENDAR\<newline>VERSION:2.0\<newline>PRODID:-//MLB 2025 Postseason Auto-Updated//EN\<newline>CALSCALE:GREGORIAN\<newline>METHOD:PUBLISH\<newline>X-WR-CALNAME:MLB 2025 Postseason\<newline>X-WR-TIMEZONE:UTC\<newline>X-PUBLISHED-TTL:PT1H\<newline>\<newline>END:VCALENDAR''"
    by code_simp
  have f: "\<not> str_contains ''BEGIN:VEVENT'' empty_calendar"
    by code_simp
  show ?thesis using a b c d e f by (intro conjI)
qed

subsection \<open>Failures of the file system\<close>

lemma updater_generate_first_dict:
  assumes "updater_generate_ics_content clock lz (g # gs) = Inr content"
  shows "\<exists>d. dict_get g ''game_date'' VNone = Inr d"
proof -
  have "\<exists>r. updater_loop_body lz g = Inr r"
    using assms
    by (cases "updater_loop_body lz g")
       (simp_all add: updater_generate_ics_content_def updater_ics_lines_def)
  then have "\<exists>kvs. g = VDict kvs"
    by (cases g) (simp_all add: updater_loop_body_def dict_get_def)
  then show ?thesis
    by (auto simp: dict_get_def split: option.splits)
qed

text \<open>
  Claim C7, as amended.  \<^verbatim>\<open>save_ics_file\<close> (\<^verbatim>\<open>MLB_API.py\<close>) returns \<^verbatim>\<open>True\<close>
  exactly when the rendering and the write both go through, and \<^verbatim>\<open>False\<close> for every
  exception raised by the write; \<^verbatim>\<open>update_ics_file\<close> (\<^verbatim>\<open>MLB_PostSeason.py\<close>) has
  no handler: an exception raised by the write leaves it as that exception.
\<close>

theorem write_failure_by_variant:
  "(save_ics_file clock lz fs output_file games_data
      \<longleftrightarrow> (\<exists>content. icsmaker_generate_ics_content clock lz games_data = Inr content
                     \<and> fs output_file content = Inr ()))
   \<and> (icsmaker_generate_ics_content clock lz games_data = Inr content
        \<and> fs output_file content = Inl e
      \<longrightarrow> save_ics_file clock lz fs output_file games_data = False)
   \<and> (updater_generate_ics_content clock lz (g # gs) = Inr content'
        \<and> fs output_file content' = Inl e
      \<longrightarrow> update_ics_file clock lz fs output_file (g # gs) = Inl e)"
proof -
  have a: "save_ics_file clock lz fs output_file games_data
      \<longleftrightarrow> (\<exists>content. icsmaker_generate_ics_content clock lz games_data = Inr content
                     \<and> fs output_file content = Inr ())"
    by (cases "icsmaker_generate_ics_content clock lz games_data")
       (auto simp: save_ics_file_def split: sum.splits)
  have b: "icsmaker_generate_ics_content clock lz games_data = Inr content
        \<and> fs output_file content = Inl e
      \<longrightarrow> save_ics_file clock lz fs output_file games_data = False"
    by (simp add: save_ics_file_def)
  have c: "updater_generate_ics_content clock lz (g # gs) = Inr content'
        \<and> fs output_file content' = Inl e
      \<longrightarrow> update_ics_file clock lz fs output_file (g # gs) = Inl e"
    using updater_generate_first_dict [of clock lz g gs content']
    by (auto simp: update_ics_file_def)
  show ?thesis using a b c by (intro conjI)
qed


text \<open>Both halves on a file system that refuses every write.\<close>

theorem write_failure_by_variant_witness:
  "icsmaker_generate_ics_content still_clock utc_host (VDict []) = Inr empty_calendar
   \<and> failing_fs default_output_file empty_calendar = Inl OSError
   \<and> save_ics_file still_clock utc_host failing_fs default_output_file (VDict []) = False
   \<and> (\<exists>content. updater_generate_ics_content still_clock utc_host [sample_game] = Inr content
          \<and> failing_fs default_output_file content = Inl OSError)
   \<and> update_ics_file still_clock utc_host failing_fs default_output_file [sample_game]
        = Inl OSError"
proof -
  have g: "icsmaker_generate_ics_content still_clock utc_host (VDict []) = Inr empty_calendar"
    by (simp add: icsmaker_generate_ics_content_def icsmaker_ics_lines_def empty_calendar_def
        dict_get_def py_iter_def)
  have f: "\<And>c. failing_fs default_output_file c = Inl OSError"
    by (simp add: failing_fs_def)
  have r: "\<not> isl (updater_generate_ics_content still_clock utc_host [sample_game])"
    by code_simp
  then obtain content where
    c: "updater_generate_ics_content still_clock utc_host [sample_game] = Inr content"
    by (cases "updater_generate_ics_content still_clock utc_host [sample_game]") simp_all
  note T = write_failure_by_variant [of still_clock utc_host failing_fs default_output_file
      "VDict []" empty_calendar OSError sample_game "[]" content]
  have s: "save_ics_file still_clock utc_host failing_fs default_output_file (VDict []) = False"
    using T g f by blast
  have u: "update_ics_file still_clock utc_host failing_fs default_output_file [sample_game]
        = Inl OSError"
    using T c f by blast
  show ?thesis using g f s u c by blast
qed

text \<open>
  Claim C7 as stated fails for \<^verbatim>\<open>update_ics_file\<close>: with one scheduled game and a
  failing write it raises \<^verbatim>\<open>OSError\<close> instead of returning a flag, where
  \<^verbatim>\<open>save_ics_file\<close> returns \<^verbatim>\<open>False\<close>.
\<close>

theorem update_ics_file_write_error_counterexample:
  "update_ics_file still_clock utc_host failing_fs default_output_file [sample_game]
     = Inl OSError
   \<and> save_ics_file still_clock utc_host failing_fs default_output_file
        (VDict [(''dates'', VList [])]) = False"
  by code_simp

subsection \<open>The worked example\<close>

text \<open>
  Claim C3, as amended.  For the game of the worked example, whatever the two short names:
  when the status code contains \<^verbatim>\<open>F\<close> (the game is final) the summary is
  \<^verbatim>\<open>ALDS3(2-1) <away> Leads \<close>; otherwise it is \<^verbatim>\<open>ALDS3 <away> - <home>\<close>, without
  tally and without marker.  In both cases the times are \<^verbatim>\<open>20251015T230800Z\<close> and
  \<^verbatim>\<open>20251016T020800Z\<close> (the game does not set \<^verbatim>\<open>startTimeTBD\<close>).
\<close>

theorem worked_example_summary_and_times:
  "icsmaker_get_series_name (worked_example a h code) =
     Inr (if str_contains ''F'' code then ''ALDS3(2-1) '' @ a @ '' Leads ''
          else ''ALDS3 '' @ a @ '' - '' @ h)
   \<and> get_game_date_time (documented_host z) (worked_example a h code)
       = Inr (''20251015T230800Z'', ''20251016T020800Z'')"
proof -
  have s: "icsmaker_get_series_name (worked_example a h code) =
     Inr (if str_contains ''F'' code then ''ALDS3(2-1) '' @ a @ '' Leads ''
          else ''ALDS3 '' @ a @ '' - '' @ h)"
    by (simp add: icsmaker_get_series_name_def worked_example_def dict_get_def py_floordiv2_def
        as_number_def py_ge_int_def py_in_def py_iter_def hashable_def
        series_type_map_def py_str_def py_repr.simps show_int_def show_digits.simps
        digit_char_def decimal_digits_def Let_def)
  have t: "game_date_time_try (documented_host z) (VStr ''2025-10-15T23:08:00Z'')
             = Inr (''20251015T230800Z'', ''20251016T020800Z'')"
    by code_simp
  have g: "get_game_date_time (documented_host z) (worked_example a h code)
       = Inr (''20251015T230800Z'', ''20251016T020800Z'')"
    using t by (simp add: get_game_date_time_def worked_example_def dict_get_def)
  show ?thesis using s g by (intro conjI)
qed

text \<open>
  Claim C3 as stated fails for the example while it is only scheduled (status code
  \<^verbatim>\<open>S\<close>): the summary has neither \<^verbatim>\<open>(2-1)\<close> nor \<^verbatim>\<open>Leads\<close>.
\<close>

theorem worked_example_scheduled_counterexample:
  "icsmaker_get_series_name (worked_example ''Seattle'' ''Detroit'' ''S'')
     = Inr ''ALDS3 Seattle - Detroit''
   \<and> \<not> str_contains ''(2-1)'' ''ALDS3 Seattle - Detroit''
   \<and> \<not> str_contains ''Leads'' ''ALDS3 Seattle - Detroit''"
  by code_simp

subsection \<open>Determinism of the rendering\<close>

lemma split_lines_append:
  "split_lines cur (a @ CHR 0x0A # b) = split_lines cur a @ split_lines [] b"
  by (induction a arbitrary: cur) simp_all

lemma split_lines_no_lf:
  "CHR 0x0A \<notin> set a \<Longrightarrow> split_lines cur a = [cur @ a]"
  by (induction a arbitrary: cur) auto

lemma lines_of_join_Cons:
  "lines_of (join [CHR 0x0A] (l # ls)) = concat (map lines_of (l # ls))"
proof (induction ls arbitrary: l)
  case Nil
  show ?case by simp
next
  case (Cons m ms)
  have "lines_of (join [CHR 0x0A] (l # m # ms))
          = split_lines [] (l @ CHR 0x0A # join [CHR 0x0A] (m # ms))"
    by (simp add: lines_of_def)
  also have "\<dots> = lines_of l @ lines_of (join [CHR 0x0A] (m # ms))"
    by (simp only: split_lines_append lines_of_def)
  finally show ?case using Cons.IH [of m] by simp
qed

lemma digit_char_no_lf: "digit_char d \<noteq> CHR 0x0A"
  by (auto simp: digit_char_def decimal_digits_def split: option.splits if_splits)

lemma show_digits_no_lf: "CHR 0x0A \<notin> set (show_digits n)"
proof (induction n rule: show_digits.induct)
  case (1 n)
  show ?case
  proof (cases "n < 10")
    case True
    then show ?thesis using digit_char_no_lf [of n]
      by (subst show_digits.simps) auto
  next
    case False
    then show ?thesis using 1 digit_char_no_lf [of "n mod 10"]
      by (subst show_digits.simps) auto
  qed
qed

lemma strftime_ics_no_lf: "CHR 0x0A \<notin> set (strftime_ics dt)"
  by (simp add: strftime_ics_def pad2_def pad4_def show_digits_no_lf)

lemma same_but_dtstamp_refl [simp]: "same_but_dtstamp a a"
  by (simp add: same_but_dtstamp_def)

lemma same_but_dtstamp_masked:
  assumes "same_but_dtstamp a b"
  shows "map mask_dtstamp (lines_of a) = map mask_dtstamp (lines_of b)"
proof -
  have "\<And>x. map mask_dtstamp (lines_of (''DTSTAMP:'' @ strftime_ics x)) = [''DTSTAMP:'']"
    using strftime_ics_no_lf
    by (simp add: lines_of_def split_lines_no_lf mask_dtstamp_def)
  then show ?thesis using assms by (auto simp: same_but_dtstamp_def)
qed

lemma all2_masked:
  assumes "list_all2 same_but_dtstamp l1 l2"
  shows "map mask_dtstamp (concat (map lines_of l1)) = map mask_dtstamp (concat (map lines_of l2))"
  using assms
  by (induction rule: list_all2_induct) (simp_all add: same_but_dtstamp_masked)

lemma event_lines_rel: "list_all2 same_but_dtstamp (event_lines x ev) (event_lines y ev)"
  by (auto simp: event_lines_def same_but_dtstamp_def)

lemma runs_agree_Inl: "runs_agree (Inl e) r \<longleftrightarrow> r = Inl e"
  by (cases r) (auto simp: runs_agree_def)

lemma runs_agree_Inr:
  "runs_agree (Inr (l1, k1)) r \<longleftrightarrow> (\<exists>l2. r = Inr (l2, k1) \<and> list_all2 same_but_dtstamp l1 l2)"
  by (cases r) (auto simp: runs_agree_def)

lemma for_each_game_agree:
  "runs_agree (for_each_game c1 body k games) (for_each_game c2 body k games)"
proof (induction games arbitrary: k)
  case Nil
  show ?case by (simp add: runs_agree_def)
next
  case (Cons g gs)
  show ?case
  proof (cases "body g")
    case (Inl e)
    then show ?thesis by (simp add: runs_agree_def)
  next
    case (Inr r)
    show ?thesis
    proof (cases r)
      case None
      then show ?thesis using Inr Cons.IH [of k] by simp
    next
      case (Some ev)
      show ?thesis
      proof (cases "for_each_game c1 body (Suc k) gs")
        case (Inl e)
        then have "for_each_game c2 body (Suc k) gs = Inl e"
          using Cons.IH [of "Suc k"] by (simp add: runs_agree_Inl)
        then show ?thesis using Inl Inr Some by (simp add: runs_agree_def)
      next
        case rest: (Inr p)
        obtain l1 k1 where p: "p = (l1, k1)" by (cases p)
        obtain l2 where l2: "for_each_game c2 body (Suc k) gs = Inr (l2, k1)"
          and rel: "list_all2 same_but_dtstamp l1 l2"
          using Cons.IH [of "Suc k"] rest p by (auto simp: runs_agree_Inr)
        have "list_all2 same_but_dtstamp (event_lines (c1 k) ev @ l1) (event_lines (c2 k) ev @ l2)"
          using event_lines_rel rel by (rule list_all2_appendI)
        then show ?thesis using rest p l2 Inr Some by (simp add: runs_agree_def)
      qed
    qed
  qed
qed

lemma same_but_dtstamp_all2_refl: "list_all2 same_but_dtstamp l l"
  by (simp add: list_all2_refl)

lemma icsmaker_dates_agree:
  "runs_agree (icsmaker_dates c1 lz k dates) (icsmaker_dates c2 lz k dates)"
proof (induction dates arbitrary: k)
  case Nil
  show ?case by (simp add: runs_agree_def)
next
  case (Cons d ds)
  show ?case
  proof (cases "dict_get d ''games'' (VList [])")
    case (Inl e)
    then show ?thesis by (simp add: runs_agree_def)
  next
    case gs: (Inr gs)
    show ?thesis
    proof (cases "py_iter gs")
      case (Inl e)
      then show ?thesis using gs by (simp add: runs_agree_def)
    next
      case games: (Inr games)
      note fe = for_each_game_agree [of c1 "icsmaker_loop_body lz" k games c2]
      show ?thesis
      proof (cases "for_each_game c1 (icsmaker_loop_body lz) k games")
        case (Inl e)
        then have "for_each_game c2 (icsmaker_loop_body lz) k games = Inl e"
          using fe by (simp add: runs_agree_Inl)
        then show ?thesis using Inl gs games by (simp add: runs_agree_def)
      next
        case inner: (Inr p)
        obtain l1 k1 where p: "p = (l1, k1)" by (cases p)
        obtain l2 where l2: "for_each_game c2 (icsmaker_loop_body lz) k games = Inr (l2, k1)"
          and rel: "list_all2 same_but_dtstamp l1 l2"
          using fe inner p by (auto simp: runs_agree_Inr)
        show ?thesis
        proof (cases "icsmaker_dates c1 lz k1 ds")
          case (Inl e)
          then have "icsmaker_dates c2 lz k1 ds = Inl e"
            using Cons.IH [of k1] by (simp add: runs_agree_Inl)
          then show ?thesis using Inl gs games inner p l2 by (simp add: runs_agree_def)
        next
          case outer: (Inr q)
          obtain m1 j1 where q: "q = (m1, j1)" by (cases q)
          obtain m2 where m2: "icsmaker_dates c2 lz k1 ds = Inr (m2, j1)"
            and rel2: "list_all2 same_but_dtstamp m1 m2"
            using Cons.IH [of k1] outer q by (auto simp: runs_agree_Inr)
          have "list_all2 same_but_dtstamp (l1 @ m1) (l2 @ m2)"
            using rel rel2 by (rule list_all2_appendI)
          then show ?thesis
            using gs games inner p l2 outer q m2 by (simp add: runs_agree_def)
        qed
      qed
    qed
  qed
qed

lemma enveloped_masked:
  assumes "list_all2 same_but_dtstamp l1 l2"
  shows "modulo_dtstamp (join [CHR 0x0A] (calendar_header @ l1 @ calendar_footer))
           = modulo_dtstamp (join [CHR 0x0A] (calendar_header @ l2 @ calendar_footer))"
proof -
  have r: "list_all2 same_but_dtstamp (calendar_header @ l1 @ calendar_footer)
             (calendar_header @ l2 @ calendar_footer)"
    by (intro list_all2_appendI same_but_dtstamp_all2_refl assms)
  obtain h hs where h: "calendar_header = h # hs"
    by (simp add: calendar_header_def)
  show ?thesis
    unfolding modulo_dtstamp_def h append_Cons lines_of_join_Cons
    using all2_masked [OF r] unfolding h append_Cons .
qed

lemma updater_generate_deterministic:
  "map_sum id modulo_dtstamp (updater_generate_ics_content c1 lz games)
     = map_sum id modulo_dtstamp (updater_generate_ics_content c2 lz games)"
proof -
  note fe = for_each_game_agree [of c1 "updater_loop_body lz" 0 games c2]
  show ?thesis
  proof (cases "for_each_game c1 (updater_loop_body lz) 0 games")
    case (Inl e)
    then have "for_each_game c2 (updater_loop_body lz) 0 games = Inl e"
      using fe by (simp add: runs_agree_Inl)
    then show ?thesis
      using Inl by (simp add: updater_generate_ics_content_def updater_ics_lines_def)
  next
    case (Inr p)
    obtain l1 k1 where p: "p = (l1, k1)" by (cases p)
    obtain l2 where l2: "for_each_game c2 (updater_loop_body lz) 0 games = Inr (l2, k1)"
      and rel: "list_all2 same_but_dtstamp l1 l2"
      using fe Inr p by (auto simp: runs_agree_Inr)
    show ?thesis
      using Inr p l2 enveloped_masked [OF rel]
      by (simp add: updater_generate_ics_content_def updater_ics_lines_def)
  qed
qed

lemma icsmaker_generate_deterministic:
  "map_sum id modulo_dtstamp (icsmaker_generate_ics_content c1 lz games_data)
     = map_sum id modulo_dtstamp (icsmaker_generate_ics_content c2 lz games_data)"
proof (cases "exn_bind (dict_get games_data ''dates'' (VList [])) py_iter")
  case (Inl e)
  then show ?thesis
    by (cases "dict_get games_data ''dates'' (VList [])")
       (simp_all add: icsmaker_generate_ics_content_def icsmaker_ics_lines_def)
next
  case (Inr dates)
  then obtain ds where ds: "dict_get games_data ''dates'' (VList []) = Inr ds"
    and it: "py_iter ds = Inr dates"
    by (cases "dict_get games_data ''dates'' (VList [])") simp_all
  note fe = icsmaker_dates_agree [of c1 lz 0 dates c2]
  show ?thesis
  proof (cases "icsmaker_dates c1 lz 0 dates")
    case (Inl e)
    then have "icsmaker_dates c2 lz 0 dates = Inl e"
      using fe by (simp add: runs_agree_Inl)
    then show ?thesis
      using Inl ds it by (simp add: icsmaker_generate_ics_content_def icsmaker_ics_lines_def)
  next
    case r: (Inr p)
    obtain l1 k1 where p: "p = (l1, k1)" by (cases p)
    obtain l2 where l2: "icsmaker_dates c2 lz 0 dates = Inr (l2, k1)"
      and rel: "list_all2 same_but_dtstamp l1 l2"
      using fe r p by (auto simp: runs_agree_Inr)
    show ?thesis
      using r p l2 ds it enveloped_masked [OF rel]
      by (simp add: icsmaker_generate_ics_content_def icsmaker_ics_lines_def)
  qed
qed

text \<open>
  Claim C10.  For the same games (and the same machine), two runs of either renderer with
  any two clocks end with the same exception, or return texts with the same lines once
  every \<^verbatim>\<open>DTSTAMP\<close> line is blanked: the clock reaches the output in the
  \<^verbatim>\<open>DTSTAMP\<close> lines only.
\<close>

theorem rendering_deterministic_modulo_dtstamp:
  "map_sum id modulo_dtstamp (updater_generate_ics_content clock1 lz games)
     = map_sum id modulo_dtstamp (updater_generate_ics_content clock2 lz games)
   \<and> map_sum id modulo_dtstamp (icsmaker_generate_ics_content clock1 lz games_data)
     = map_sum id modulo_dtstamp (icsmaker_generate_ics_content clock2 lz games_data)"
  using updater_generate_deterministic icsmaker_generate_deterministic by blast

subsection \<open>Records that are passed over\<close>

lemma for_each_game_skip:
  assumes "body g = Inr None"
  shows "for_each_game clock body k (pre @ g # post) = for_each_game clock body k (pre @ post)"
proof (induction pre arbitrary: k)
  case Nil
  show ?case using assms by simp
next
  case (Cons p ps)
  show ?case
    by (cases "body p") (simp_all add: Cons.IH split: option.splits)
qed

lemma for_each_game_raise:
  assumes "\<forall>p \<in> set pre. \<exists>r. body p = Inr r" and "body g = Inl e"
  shows "for_each_game clock body k (pre @ g # post) = Inl e"
  using assms(1)
proof (induction pre arbitrary: k)
  case Nil
  show ?case using assms(2) by simp
next
  case (Cons p ps)
  then obtain r where r: "body p = Inr r" by auto
  show ?case using r Cons by (cases r) simp_all
qed

lemma format_game_time_both_or_neither:
  "format_game_time lz gd away home = (None, None)
   \<or> (\<exists>s e. format_game_time lz gd away home = (Some s, Some e) \<and> s \<noteq> [] \<and> e \<noteq> [])"
proof (cases gd)
  case (VStr str)
  show ?thesis
  proof (cases "format_game_time_try lz str away home")
    case (Inl e)
    then show ?thesis by (simp add: format_game_time_def VStr)
  next
    case (Inr p)
    obtain s e where p: "p = (s, e)" by (cases p)
    have "s \<noteq> [] \<and> e \<noteq> []"
      using Inr p strftime_ics_nonempty
      by (auto simp: format_game_time_try_def utc_start_end_def exn_bind_def split: sum.splits)
    then show ?thesis using Inr p by (simp add: format_game_time_def VStr)
  qed
qed (simp_all add: format_game_time_def)

lemma get_game_date_time_both_or_neither:
  assumes "get_game_date_time lz game = Inr (s, e)"
  shows "(s = [] \<and> e = []) \<or> (s \<noteq> [] \<and> e \<noteq> [])"
proof (cases "s = []")
  case True
  have "\<And>v. game_date_time_tbd_try lz v \<noteq> Inr ([], e)" "\<And>v. game_date_time_try lz v \<noteq> Inr ([], e)"
    using strftime_ics_nonempty
    by (auto simp: game_date_time_tbd_try_def game_date_time_try_def exn_bind_def split: sum.splits)
  then show ?thesis
    using assms True
    by (auto simp: get_game_date_time_def exn_bind_def split: sum.splits if_splits)
next
  case False
  then obtain a b where "e = strftime_ics b"
    using get_game_date_time_duration [OF assms] by blast
  then show ?thesis using False strftime_ics_nonempty by simp
qed

lemma updater_loop_body_skip:
  assumes "dict_get game ''game_datetime'' VNone = Inr gdt"
    and "dict_get game ''game_date'' VNone = Inr gd"
    and "dict_get game ''away_name'' (VStr ''TBD'') = Inr away"
    and "dict_get game ''home_name'' (VStr ''TBD'') = Inr home"
    and "\<not> py_truthy (py_or gdt gd) \<or> fst (format_game_time lz (py_or gdt gd) away home) = None"
  shows "updater_loop_body lz game = Inr None"
  using assms format_game_time_both_or_neither [of lz "py_or gdt gd" away home]
  by (auto simp: updater_loop_body_def Let_def)

lemma get_game_date_time_missing:
  assumes "dict_get game ''status'' (VDict []) = Inr st"
    and "dict_get st ''startTimeTBD'' (VBool False) = Inr tbd"
    and "dict_get game ''gameDate'' (VStr []) = Inr gd"
    and "\<not> py_truthy gd"
  shows "get_game_date_time lz game = Inr ([], [])"
  using assms by (simp add: get_game_date_time_def)

lemma exn_bind_raises:
  assumes "\<And>v. m = Inr v \<Longrightarrow> \<exists>e. f v = Inl e"
  shows "\<exists>e. exn_bind m f = Inl e"
  using assms by (cases m) simp_all

lemma get_series_name_raises:
  assumes "dict_get game ''gamesInSeries'' (VDict []) = Inr v" and "as_number v = None"
  shows "\<exists>e. icsmaker_get_series_name game = Inl e"
proof -
  have f: "py_floordiv2 v = Inl TypeError"
    using assms(2) by (simp add: py_floordiv2_def)
  show ?thesis
    unfolding icsmaker_get_series_name_def
    apply (rule exn_bind_raises)
    apply (simp only: assms(1) exn_bind_simps)
    apply (intro exn_bind_raises)
    apply (simp add: f)
    done
qed


lemma makeViewModel_raises:
  assumes "dict_get game ''gamesInSeries'' (VDict []) = Inr v" and "as_number v = None"
  shows "\<exists>e. makeViewModel lz game = Inl e"
  using get_series_name_raises [OF assms] by (auto simp: makeViewModel_def)

lemma icsmaker_loop_body_skip:
  assumes "makeViewModel lz game = Inr vm" and "game_start_time vm = [] \<or> game_end_time vm = []"
  shows "icsmaker_loop_body lz game = Inr None"
  using assms by (auto simp: icsmaker_loop_body_def)

lemma get_game_date_time_unparseable:
  assumes "dict_get game ''status'' (VDict []) = Inr st"
    and "dict_get st ''startTimeTBD'' (VBool False) = Inr tbd"
    and "dict_get game ''gameDate'' (VStr []) = Inr (VStr s)"
    and "fromisoformat lz (replace_char CHR ''Z'' ''+00:00'' s) = Inl e"
  shows "get_game_date_time lz game = Inr ([], [])"
  using assms
  by (simp add: get_game_date_time_def game_date_time_try_def game_date_time_tbd_try_def
      py_replace_Z_def)

lemma for_each_game_events:
  assumes "\<forall>g \<in> set games. \<exists>r. body g = Inr r"
  shows "for_each_game clock body k games
           = Inr (stamp_events clock k (events_of body games), k + length (events_of body games))"
  using assms
proof (induction games arbitrary: k)
  case Nil
  show ?case by simp
next
  case (Cons g gs)
  then obtain r where r: "body g = Inr r" by auto
  have ih: "\<And>k. for_each_game clock body k gs
           = Inr (stamp_events clock k (events_of body gs), k + length (events_of body gs))"
    using Cons by simp
  show ?case using r ih by (cases r) simp_all
qed

lemma for_each_game_append:
  "for_each_game clock body k (xs @ ys) =
     exn_bind (for_each_game clock body k xs) (\<lambda>(ls, k').
     exn_bind (for_each_game clock body k' ys) (\<lambda>(ls', k'').
       Inr (ls @ ls', k'')))"
proof (induction xs arbitrary: k)
  case Nil
  show ?case by (cases "for_each_game clock body k ys") auto
next
  case (Cons x xs)
  show ?case
  proof (cases "body x")
    case (Inl e)
    then show ?thesis by simp
  next
    case (Inr r)
    show ?thesis
    proof (cases r)
      case None
      then show ?thesis using Inr Cons.IH [of k] by simp
    next
      case (Some ev)
      show ?thesis
        using Inr Some Cons.IH [of "Suc k"]
        by (cases "for_each_game clock body (Suc k) xs")
           (auto simp: exn_bind_def split: sum.splits)
    qed
  qed
qed

lemma icsmaker_dates_flat:
  assumes "games_of_dates dates = Inr games"
  shows "icsmaker_dates clock lz k dates = for_each_game clock (icsmaker_loop_body lz) k games"
  using assms
proof (induction dates arbitrary: k games)
  case Nil
  then show ?case by simp
next
  case (Cons d ds)
  obtain gs where gs: "games_of_date d = Inr gs"
    using Cons.prems by (cases "games_of_date d") simp_all
  obtain rest where rest: "games_of_dates ds = Inr rest"
    using Cons.prems gs by (cases "games_of_dates ds") simp_all
  have g: "games = gs @ rest" using Cons.prems gs rest by simp
  have d: "exn_bind (dict_get d ''games'' (VList [])) py_iter = Inr gs"
    using gs by (simp add: games_of_date_def)
  then obtain v where v: "dict_get d ''games'' (VList []) = Inr v" and it: "py_iter v = Inr gs"
    by (cases "dict_get d ''games'' (VList [])") simp_all
  show ?case
    unfolding g for_each_game_append
    using v it Cons.IH [OF rest]
    by (simp add: exn_bind_def split: sum.splits prod.splits)
qed

lemma icsmaker_batch:
  assumes "batch_games games_data = Inr games"
  shows "icsmaker_generate_ics_content clock lz games_data =
     exn_bind (for_each_game clock (icsmaker_loop_body lz) 0 games) (\<lambda>(ls, k).
       Inr (join [CHR 0x0A] (calendar_header @ ls @ calendar_footer)))"
proof -
  obtain ds where ds: "dict_get games_data ''dates'' (VList []) = Inr ds"
    using assms by (cases "dict_get games_data ''dates'' (VList [])") (simp_all add: batch_games_def)
  obtain dates where it: "py_iter ds = Inr dates"
    using assms ds by (cases "py_iter ds") (simp_all add: batch_games_def)
  have g: "games_of_dates dates = Inr games"
    using assms ds it by (simp add: batch_games_def)
  show ?thesis
    using ds it icsmaker_dates_flat [OF g]
    by (cases "for_each_game clock (icsmaker_loop_body lz) 0 games")
       (auto simp: icsmaker_generate_ics_content_def icsmaker_ics_lines_def)
qed

lemma batch_games_schedule_of: "batch_games (schedule_of days) = Inr (concat days)"
proof -
  have "games_of_dates (map (\<lambda>games. VDict [(''games'', VList games)]) days) = Inr (concat days)"
    by (induction days) (simp_all add: games_of_date_def dict_get_def py_iter_def)
  then show ?thesis by (simp add: batch_games_def schedule_of_def dict_get_def py_iter_def)
qed

lemma events_of_append:
  "events_of body (xs @ ys) = events_of body xs @ events_of body ys"
  by (induction xs) (simp_all split: sum.splits option.splits)

lemma count_vevents_stamp: "count_vevents (stamp_events clock k evs) = length evs"
  by (induction evs arbitrary: k) (simp_all add: count_vevents_def event_lines_def)

lemma updater_loop_body_passes_over:
  assumes "dict_get game ''game_datetime'' VNone = Inr gdt"
    and "dict_get game ''game_date'' VNone = Inr gd"
    and "dict_get game ''away_name'' (VStr ''TBD'') = Inr away"
    and "dict_get game ''home_name'' (VStr ''TBD'') = Inr home"
  shows "updater_loop_body lz game = Inr None
           \<longleftrightarrow> \<not> py_truthy (py_or gdt gd) \<or> fst (format_game_time lz (py_or gdt gd) away home) = None"
proof
  assume "\<not> py_truthy (py_or gdt gd) \<or> fst (format_game_time lz (py_or gdt gd) away home) = None"
  then show "updater_loop_body lz game = Inr None"
    using assms by (rule updater_loop_body_skip [rotated 4])
next
  assume n: "updater_loop_body lz game = Inr None"
  show "\<not> py_truthy (py_or gdt gd) \<or> fst (format_game_time lz (py_or gdt gd) away home) = None"
  proof (rule ccontr)
    assume "\<not> (\<not> py_truthy (py_or gdt gd)
                \<or> fst (format_game_time lz (py_or gdt gd) away home) = None)"
    then have t: "py_truthy (py_or gdt gd)"
      and f: "fst (format_game_time lz (py_or gdt gd) away home) \<noteq> None" by simp_all
    obtain s e where se: "format_game_time lz (py_or gdt gd) away home = (Some s, Some e)"
      and ne: "s \<noteq> []"
      using format_game_time_both_or_neither [of lz "py_or gdt gd" away home] f by auto
    show False
      using n assms t se ne
      by (auto simp: updater_loop_body_def Let_def exn_bind_def split: sum.splits)
  qed
qed

lemma updater_loop_body_emits:
  assumes "dict_get game ''game_datetime'' VNone = Inr gdt"
    and "dict_get game ''game_date'' VNone = Inr gd"
    and "dict_get game ''away_name'' (VStr ''TBD'') = Inr away"
    and "dict_get game ''home_name'' (VStr ''TBD'') = Inr home"
    and "py_truthy (py_or gdt gd)"
    and "format_game_time lz (py_or gdt gd) away home = (Some s, Some e)"
    and "dict_get game ''game_id'' (VStr []) = Inr gid"
    and "create_event_summary game = Inr summ"
    and "create_event_description game = Inr descr"
    and "dict_get game ''venue_name'' (VStr ''TBD'') = Inr loc"
  shows "updater_loop_body lz game =
           Inr (Some \<lparr>ev_uid = py_str gid, ev_start = s, ev_end = e, ev_summary = summ,
                      ev_location = py_str loc, ev_description = descr\<rparr>)"
proof -
  have "s \<noteq> []"
    using format_game_time_both_or_neither [of lz "py_or gdt gd" away home] assms(6) by auto
  then show ?thesis using assms by (simp add: updater_loop_body_def Let_def)
qed

lemma icsmaker_loop_body_cases:
  assumes "makeViewModel lz game = Inr vm"
  shows "icsmaker_loop_body lz game =
           (if game_start_time vm = [] \<or> game_end_time vm = [] then Inr None
            else Inr (Some \<lparr>ev_uid = py_str (game_PK vm), ev_start = game_start_time vm,
                            ev_end = game_end_time vm, ev_summary = summary vm,
                            ev_location = py_str (location vm),
                            ev_description = description vm\<rparr>))"
  using assms by (simp add: icsmaker_loop_body_def)

lemma updater_run_events:
  assumes "\<forall>g \<in> set games. \<exists>r. updater_loop_body lz g = Inr r"
  shows "updater_generate_ics_content clock lz games
           = Inr (calendar_of clock (events_of (updater_loop_body lz) games))"
  using for_each_game_events [OF assms, of clock 0]
  by (simp add: updater_generate_ics_content_def updater_ics_lines_def calendar_of_def)

lemma icsmaker_run_events:
  assumes "batch_games games_data = Inr games"
    and "\<forall>g \<in> set games. \<exists>r. icsmaker_loop_body lz g = Inr r"
  shows "icsmaker_generate_ics_content clock lz games_data
           = Inr (calendar_of clock (events_of (icsmaker_loop_body lz) games))"
  using for_each_game_events [OF assms(2), of clock 0]
  by (simp add: icsmaker_batch [OF assms(1)] calendar_of_def)

lemma icsmaker_run_raises:
  assumes "batch_games games_data = Inr (pre @ g # post)"
    and "\<forall>p \<in> set pre. \<exists>r. icsmaker_loop_body lz p = Inr r"
    and "makeViewModel lz g = Inl e"
  shows "icsmaker_generate_ics_content clock lz games_data = Inl e"
    and "save_ics_file clock lz fs output_file games_data = False"
proof -
  have b: "icsmaker_loop_body lz g = Inl e"
    using assms(3) by (simp add: icsmaker_loop_body_def)
  have "for_each_game clock (icsmaker_loop_body lz) 0 (pre @ g # post) = Inl e"
    using assms(2) b by (rule for_each_game_raise)
  then show c: "icsmaker_generate_ics_content clock lz games_data = Inl e"
    by (simp add: icsmaker_batch [OF assms(1)])
  then show "save_ics_file clock lz fs output_file games_data = False"
    by (simp add: save_ics_file_def)
qed

lemma events_of_without:
  assumes "body g = Inr None"
  shows "events_of body (pre @ g # post) = events_of body pre @ events_of body post"
  using assms by (simp add: events_of_append)

lemma events_of_with:
  assumes "body g = Inr (Some ev)"
  shows "events_of body (pre @ g # post) = events_of body pre @ ev # events_of body post"
  using assms by (simp add: events_of_append)

lemma returns_if_not_raises: "\<not> isl x \<Longrightarrow> \<exists>r. x = Inr r"
  by (cases x) simp_all

lemma dict_get_with_field:
  "k \<noteq> k' \<Longrightarrow> dict_get (with_field k v (VDict kvs)) k' d = dict_get (VDict kvs) k' d"
  by (simp add: dict_get_def with_field_def)

lemma get_series_name_with_gameDate:
  "icsmaker_get_series_name (with_field ''gameDate'' v (VDict kvs))
     = icsmaker_get_series_name (VDict kvs)"
  by (simp add: icsmaker_get_series_name_def dict_get_with_field)

lemma get_description_with_gameDate:
  "get_description (with_field ''gameDate'' v (VDict kvs)) = get_description (VDict kvs)"
  by (simp add: get_description_def dict_get_with_field)

lemma get_game_date_time_returns:
  assumes "dict_get game ''status'' (VDict []) = Inr st"
    and "dict_get st ''startTimeTBD'' (VBool False) = Inr tbd"
    and "dict_get game ''gameDate'' (VStr []) = Inr gd"
  shows "\<exists>s e. get_game_date_time lz game = Inr (s, e)"
  using assms
  by (auto simp: get_game_date_time_def split: sum.splits)

lemma makeViewModel_with_gameDate:
  assumes "makeViewModel lz g = Inr vm"
  shows "\<exists>s e. get_game_date_time lz (with_field ''gameDate'' v g) = Inr (s, e)
           \<and> makeViewModel lz (with_field ''gameDate'' v g)
               = Inr (vm\<lparr>game_start_time := s, game_end_time := e\<rparr>)"
proof -
  obtain kvs where g: "g = VDict kvs"
    using assms
    by (cases g) (simp_all add: makeViewModel_def icsmaker_get_series_name_def dict_get_def)
  obtain summ where summ: "icsmaker_get_series_name g = Inr summ"
    using assms by (cases "icsmaker_get_series_name g") (simp_all add: makeViewModel_def)
  obtain s0 e0 where t0: "get_game_date_time lz g = Inr (s0, e0)"
    using assms summ by (cases "get_game_date_time lz g") (auto simp: makeViewModel_def)
  obtain st where st: "dict_get g ''status'' (VDict []) = Inr st"
    using t0 by (cases "dict_get g ''status'' (VDict [])") (simp_all add: get_game_date_time_def)
  obtain tbd where tbd: "dict_get st ''startTimeTBD'' (VBool False) = Inr tbd"
    using t0 st
    by (cases "dict_get st ''startTimeTBD'' (VBool False)") (simp_all add: get_game_date_time_def)
  let ?g = "with_field ''gameDate'' v g"
  have a: "dict_get ?g ''status'' (VDict []) = Inr st"
    using st unfolding g by (simp add: dict_get_with_field)
  have b: "dict_get ?g ''gameDate'' (VStr []) = Inr v"
    unfolding g by (simp add: dict_get_def with_field_def)
  obtain s e where t: "get_game_date_time lz ?g = Inr (s, e)"
    using get_game_date_time_returns [OF a tbd b] by blast
  have "makeViewModel lz ?g = Inr (vm\<lparr>game_start_time := s, game_end_time := e\<rparr>)"
    using assms summ t0 t unfolding g
    by (auto simp: makeViewModel_def get_series_name_with_gameDate get_description_with_gameDate
        dict_get_with_field exn_bind_def split: sum.splits)
  then show ?thesis using t by blast
qed

text \<open>
  Claim C6.  A resolver never returns one time without the other.  In
  \<^verbatim>\<open>MLB_PostSeason.py\<close> a game is passed over, no event being made for it, exactly
  when its timestamp is empty or missing or its time is not resolved, and a game whose time
  is resolved to \<open>s\<close> and \<open>e\<close> gets the event with these two times.  In
  \<^verbatim>\<open>MLB_API.py\<close> a game whose view model is built is passed over exactly when one of
  its two times is empty, and gets the event of its view model otherwise; whatever is put in the place of
  the \<^verbatim>\<open>gameDate\<close> of such a game, its view model is still built, with other times
  only; a missing or empty \<^verbatim>\<open>gameDate\<close>, and one that does not parse, give the empty
  pair of times.  A run
  in which no game raises returns the calendar with exactly the events of its games, in
  order (for \<^verbatim>\<open>MLB_API.py\<close> over all the dates of the response): none for a game that
  is passed over, one for each game before and after it, and as many \<^verbatim>\<open>VEVENT\<close> blocks
  as events.
\<close>

theorem games_without_time_are_left_out:
  "(format_game_time lz gd away home = (None, None)
      \<or> (\<exists>s e. format_game_time lz gd away home = (Some s, Some e) \<and> s \<noteq> [] \<and> e \<noteq> []))
   \<and> (get_game_date_time lz g0 = Inr (s0, e0) \<longrightarrow> (s0 = [] \<and> e0 = []) \<or> (s0 \<noteq> [] \<and> e0 \<noteq> []))
   \<and> (dict_get g1 ''game_datetime'' VNone = Inr gdt
        \<and> dict_get g1 ''game_date'' VNone = Inr gdate
        \<and> dict_get g1 ''away_name'' (VStr ''TBD'') = Inr a1
        \<and> dict_get g1 ''home_name'' (VStr ''TBD'') = Inr h1
      \<longrightarrow> (updater_loop_body lz g1 = Inr None
             \<longleftrightarrow> \<not> py_truthy (py_or gdt gdate)
                  \<or> fst (format_game_time lz (py_or gdt gdate) a1 h1) = None)
          \<and> (py_truthy (py_or gdt gdate)
               \<and> format_game_time lz (py_or gdt gdate) a1 h1 = (Some s1, Some e1)
               \<and> dict_get g1 ''game_id'' (VStr []) = Inr gid
               \<and> create_event_summary g1 = Inr summ
               \<and> create_event_description g1 = Inr descr
               \<and> dict_get g1 ''venue_name'' (VStr ''TBD'') = Inr loc
             \<longrightarrow> updater_loop_body lz g1 =
                   Inr (Some \<lparr>ev_uid = py_str gid, ev_start = s1, ev_end = e1, ev_summary = summ,
                              ev_location = py_str loc, ev_description = descr\<rparr>)))
   \<and> (makeViewModel lz g2 = Inr vm
      \<longrightarrow> icsmaker_loop_body lz g2 =
            (if game_start_time vm = [] \<or> game_end_time vm = [] then Inr None
             else Inr (Some \<lparr>ev_uid = py_str (game_PK vm), ev_start = game_start_time vm,
                             ev_end = game_end_time vm, ev_summary = summary vm,
                             ev_location = py_str (location vm),
                             ev_description = description vm\<rparr>)))
   \<and> (makeViewModel lz g2 = Inr vm
      \<longrightarrow> (\<exists>s e. get_game_date_time lz (with_field ''gameDate'' v g2) = Inr (s, e)
                 \<and> makeViewModel lz (with_field ''gameDate'' v g2)
                     = Inr (vm\<lparr>game_start_time := s, game_end_time := e\<rparr>)))
   \<and> (dict_get g3 ''status'' (VDict []) = Inr st
        \<and> dict_get st ''startTimeTBD'' (VBool False) = Inr tbd
        \<and> dict_get g3 ''gameDate'' (VStr []) = Inr gd3
        \<and> (\<not> py_truthy gd3
            \<or> (\<exists>str e. gd3 = VStr str
                  \<and> fromisoformat lz (replace_char CHR ''Z'' ''+00:00'' str) = Inl e))
      \<longrightarrow> get_game_date_time lz g3 = Inr ([], []))
   \<and> ((\<forall>g \<in> set games. \<exists>r. updater_loop_body lz g = Inr r)
      \<longrightarrow> updater_generate_ics_content clock lz games
            = Inr (calendar_of clock (events_of (updater_loop_body lz) games)))
   \<and> (batch_games games_data = Inr batch
        \<and> (\<forall>g \<in> set batch. \<exists>r. icsmaker_loop_body lz g = Inr r)
      \<longrightarrow> icsmaker_generate_ics_content clock lz games_data
            = Inr (calendar_of clock (events_of (icsmaker_loop_body lz) batch)))
   \<and> (body g = Inr None
      \<longrightarrow> events_of body (pre @ g # post) = events_of body pre @ events_of body post)
   \<and> (body g = Inr (Some ev)
      \<longrightarrow> events_of body (pre @ g # post) = events_of body pre @ ev # events_of body post)
   \<and> count_vevents (stamp_events clock k evs) = length evs"
proof -
  have p1: "format_game_time lz gd away home = (None, None)
      \<or> (\<exists>s e. format_game_time lz gd away home = (Some s, Some e) \<and> s \<noteq> [] \<and> e \<noteq> [])"
    by (rule format_game_time_both_or_neither)
  have p2: "get_game_date_time lz g0 = Inr (s0, e0) \<longrightarrow>
              (s0 = [] \<and> e0 = []) \<or> (s0 \<noteq> [] \<and> e0 \<noteq> [])"
    using get_game_date_time_both_or_neither by blast
  have p3: "dict_get g1 ''game_datetime'' VNone = Inr gdt
        \<and> dict_get g1 ''game_date'' VNone = Inr gdate
        \<and> dict_get g1 ''away_name'' (VStr ''TBD'') = Inr a1
        \<and> dict_get g1 ''home_name'' (VStr ''TBD'') = Inr h1
      \<longrightarrow> (updater_loop_body lz g1 = Inr None
             \<longleftrightarrow> \<not> py_truthy (py_or gdt gdate)
                  \<or> fst (format_game_time lz (py_or gdt gdate) a1 h1) = None)
          \<and> (py_truthy (py_or gdt gdate)
               \<and> format_game_time lz (py_or gdt gdate) a1 h1 = (Some s1, Some e1)
               \<and> dict_get g1 ''game_id'' (VStr []) = Inr gid
               \<and> create_event_summary g1 = Inr summ
               \<and> create_event_description g1 = Inr descr
               \<and> dict_get g1 ''venue_name'' (VStr ''TBD'') = Inr loc
             \<longrightarrow> updater_loop_body lz g1 =
                   Inr (Some \<lparr>ev_uid = py_str gid, ev_start = s1, ev_end = e1, ev_summary = summ,
                              ev_location = py_str loc, ev_description = descr\<rparr>))"
  proof (intro impI conjI)
    assume d: "dict_get g1 ''game_datetime'' VNone = Inr gdt
        \<and> dict_get g1 ''game_date'' VNone = Inr gdate
        \<and> dict_get g1 ''away_name'' (VStr ''TBD'') = Inr a1
        \<and> dict_get g1 ''home_name'' (VStr ''TBD'') = Inr h1"
    show "updater_loop_body lz g1 = Inr None
             \<longleftrightarrow> \<not> py_truthy (py_or gdt gdate)
                  \<or> fst (format_game_time lz (py_or gdt gdate) a1 h1) = None"
      using d by (intro updater_loop_body_passes_over) simp_all
    assume h: "py_truthy (py_or gdt gdate)
               \<and> format_game_time lz (py_or gdt gdate) a1 h1 = (Some s1, Some e1)
               \<and> dict_get g1 ''game_id'' (VStr []) = Inr gid
               \<and> create_event_summary g1 = Inr summ
               \<and> create_event_description g1 = Inr descr
               \<and> dict_get g1 ''venue_name'' (VStr ''TBD'') = Inr loc"
    show "updater_loop_body lz g1 =
                   Inr (Some \<lparr>ev_uid = py_str gid, ev_start = s1, ev_end = e1, ev_summary = summ,
                              ev_location = py_str loc, ev_description = descr\<rparr>)"
      using d h by (intro updater_loop_body_emits [of g1 gdt gdate a1 h1]) simp_all
  qed
  have p4: "makeViewModel lz g2 = Inr vm
      \<longrightarrow> icsmaker_loop_body lz g2 =
            (if game_start_time vm = [] \<or> game_end_time vm = [] then Inr None
             else Inr (Some \<lparr>ev_uid = py_str (game_PK vm), ev_start = game_start_time vm,
                             ev_end = game_end_time vm, ev_summary = summary vm,
                             ev_location = py_str (location vm),
                             ev_description = description vm\<rparr>))"
    using icsmaker_loop_body_cases [of lz g2 vm] by blast
  have p4': "makeViewModel lz g2 = Inr vm
      \<longrightarrow> (\<exists>s e. get_game_date_time lz (with_field ''gameDate'' v g2) = Inr (s, e)
                 \<and> makeViewModel lz (with_field ''gameDate'' v g2)
                     = Inr (vm\<lparr>game_start_time := s, game_end_time := e\<rparr>))"
    using makeViewModel_with_gameDate [of lz g2 vm v] by blast
  have p5: "dict_get g3 ''status'' (VDict []) = Inr st
        \<and> dict_get st ''startTimeTBD'' (VBool False) = Inr tbd
        \<and> dict_get g3 ''gameDate'' (VStr []) = Inr gd3
        \<and> (\<not> py_truthy gd3
            \<or> (\<exists>str e. gd3 = VStr str
                  \<and> fromisoformat lz (replace_char CHR ''Z'' ''+00:00'' str) = Inl e))
      \<longrightarrow> get_game_date_time lz g3 = Inr ([], [])"
    using get_game_date_time_missing [of g3 st tbd gd3 lz]
      get_game_date_time_unparseable [of g3 st tbd _ lz]
    by blast
  have p6: "(\<forall>g \<in> set games. \<exists>r. updater_loop_body lz g = Inr r)
      \<longrightarrow> updater_generate_ics_content clock lz games
            = Inr (calendar_of clock (events_of (updater_loop_body lz) games))"
    using updater_run_events [of games lz clock] by blast
  have p7: "batch_games games_data = Inr batch
        \<and> (\<forall>g \<in> set batch. \<exists>r. icsmaker_loop_body lz g = Inr r)
      \<longrightarrow> icsmaker_generate_ics_content clock lz games_data
            = Inr (calendar_of clock (events_of (icsmaker_loop_body lz) batch))"
    using icsmaker_run_events [of games_data batch lz clock] by blast
  have p8: "body g = Inr None
      \<longrightarrow> events_of body (pre @ g # post) = events_of body pre @ events_of body post"
    using events_of_without [of body g pre post] by blast
  have p9: "body g = Inr (Some ev)
      \<longrightarrow> events_of body (pre @ g # post) = events_of body pre @ ev # events_of body post"
    using events_of_with [of body g ev pre post] by blast
  have p10: "count_vevents (stamp_events clock k evs) = length evs"
    by (rule count_vevents_stamp)
  show ?thesis using p1 p2 p3 p4 p4' p5 p6 p7 p8 p9 p10 by (intro conjI)
qed

text \<open>
  Two runs with games that have no time among games that have one: three listed games in
  \<^verbatim>\<open>MLB_PostSeason.py\<close>, and a response of two days with two games each in
  \<^verbatim>\<open>MLB_API.py\<close>, whose calendar has the two events of the resolvable games.
\<close>

theorem games_without_time_are_left_out_witness:
  "updater_loop_body utc_host sample_game_without_date = Inr None
   \<and> (\<exists>descr. updater_loop_body utc_host second_sample_game =
          Inr (Some \<lparr>ev_uid = ''813045'', ev_start = ''20251016T200800Z'',
                     ev_end = ''20251016T233800Z'', ev_summary = ''ALDS 4: Seattle @ Detroit'',
                     ev_location = ''Comerica Park'', ev_description = descr\<rparr>))
   \<and> get_game_date_time utc_host game_without_date = Inr ([], [])
   \<and> get_game_date_time utc_host game_with_bad_date = Inr ([], [])
   \<and> (\<exists>s e. get_game_date_time utc_host game_without_date = Inr (s, e)
          \<and> makeViewModel utc_host game_without_date
              = Inr (\<lparr>game_PK = VStr [], game_start_time = ''20251015T230800Z'',
                      game_end_time = ''20251016T020800Z'',
                      description = ''Seattle  - Detroit '', location = VStr ''TBD'',
                      summary = ''ALDS3(2-1) Seattle Leads ''\<rparr>
                     \<lparr>game_start_time := s, game_end_time := e\<rparr>))
   \<and> icsmaker_loop_body utc_host game_without_date = Inr None
   \<and> icsmaker_loop_body utc_host scheduled_game =
        Inr (Some \<lparr>ev_uid = ''813046'', ev_start = ''20251015T230800Z'',
                   ev_end = ''20251016T020800Z'', ev_summary = ''ALDS3 Toronto - New York'',
                   ev_location = ''TBD'', ev_description = ''Toronto - New York''\<rparr>)
   \<and> updater_generate_ics_content still_clock utc_host
        [sample_game, sample_game_without_date, second_sample_game]
       = Inr (calendar_of still_clock
                (events_of (updater_loop_body utc_host) [sample_game, second_sample_game]))
   \<and> map ev_uid (events_of (updater_loop_body utc_host) [sample_game, second_sample_game])
       = [''813044'', ''813045'']
   \<and> icsmaker_generate_ics_content still_clock utc_host
        (schedule_of [[final_game, game_without_date], [game_with_bad_date, scheduled_game]])
       = Inr two_event_calendar
   \<and> events_of (icsmaker_loop_body utc_host)
        ([final_game, game_without_date, game_with_bad_date] @ scheduled_game # [])
       = events_of (icsmaker_loop_body utc_host) [final_game, game_without_date, game_with_bad_date]
         @ [\<lparr>ev_uid = ''813046'', ev_start = ''20251015T230800Z'',
                   ev_end = ''20251016T020800Z'', ev_summary = ''ALDS3 Toronto - New York'',
                   ev_location = ''TBD'', ev_description = ''Toronto - New York''\<rparr>]
   \<and> count_vevents (lines_of two_event_calendar) = 2"
proof -
  let ?vm0 = "\<lparr>game_PK = VStr [], game_start_time = [], game_end_time = [],
                description = ''Seattle  - Detroit '', location = VStr ''TBD'',
                summary = ''ALDS3(2-1) Seattle Leads ''\<rparr>"
  let ?vm1 = "\<lparr>game_PK = VInt 813046, game_start_time = ''20251015T230800Z'',
                game_end_time = ''20251016T020800Z'',
                description = ''Toronto - New York'', location = VStr ''TBD'',
                summary = ''ALDS3 Toronto - New York''\<rparr>"
  let ?st = "VDict [(''statusCode'', VStr ''F'')]"
  let ?games = "[sample_game, sample_game_without_date, second_sample_game]"
  let ?batch = "[final_game, game_without_date, game_with_bad_date, scheduled_game]"
  let ?data = "schedule_of [[final_game, game_without_date], [game_with_bad_date, scheduled_game]]"
  have a: "dict_get sample_game_without_date ''game_datetime'' VNone = Inr (VStr [])"
          "dict_get sample_game_without_date ''game_date'' VNone = Inr (VStr [])"
          "dict_get sample_game_without_date ''away_name'' (VStr ''TBD'')
             = Inr (VStr ''Seattle Mariners'')"
          "dict_get sample_game_without_date ''home_name'' (VStr ''TBD'')
             = Inr (VStr ''Detroit Tigers'')"
    by code_simp+
  have a': "\<not> py_truthy (py_or (VStr []) (VStr []))" by (simp add: py_or_def)
  have b: "dict_get second_sample_game ''game_datetime'' VNone = Inr (VStr ''2025-10-16T20:08:00Z'')"
          "dict_get second_sample_game ''game_date'' VNone = Inr (VStr ''2025-10-15'')"
          "dict_get second_sample_game ''away_name'' (VStr ''TBD'')
             = Inr (VStr ''Seattle Mariners'')"
          "dict_get second_sample_game ''home_name'' (VStr ''TBD'')
             = Inr (VStr ''Detroit Tigers'')"
          "dict_get second_sample_game ''game_id'' (VStr []) = Inr (VInt 813045)"
          "dict_get second_sample_game ''venue_name'' (VStr ''TBD'') = Inr (VStr ''Comerica Park'')"
          "create_event_summary second_sample_game = Inr ''ALDS 4: Seattle @ Detroit''"
    by code_simp+
  have b1: "py_or (VStr ''2025-10-16T20:08:00Z'') (VStr ''2025-10-15'') = VStr ''2025-10-16T20:08:00Z''"
    by (simp add: py_or_def)
  have b2: "format_game_time utc_host (VStr ''2025-10-16T20:08:00Z'') (VStr ''Seattle Mariners'')
              (VStr ''Detroit Tigers'') = (Some ''20251016T200800Z'', Some ''20251016T233800Z'')"
    by code_simp
  have "\<not> isl (create_event_description second_sample_game)" by code_simp
  then obtain descr where b3: "create_event_description second_sample_game = Inr descr"
    by (cases "create_event_description second_sample_game") simp_all
  have b4: "py_str (VInt 813045) = ''813045''" "py_str (VStr ''Comerica Park'') = ''Comerica Park''"
           "py_str (VInt 813046) = ''813046''" "py_str (VStr ''TBD'') = ''TBD''"
    by code_simp+
  have c: "makeViewModel utc_host game_without_date = Inr ?vm0" by code_simp
  have c1: "makeViewModel utc_host scheduled_game = Inr ?vm1" by code_simp
  have d: "dict_get game_without_date ''status'' (VDict []) = Inr ?st"
          "dict_get ?st ''startTimeTBD'' (VBool False) = Inr (VBool False)"
          "dict_get game_without_date ''gameDate'' (VStr []) = Inr (VStr [])"
          "dict_get game_with_bad_date ''status'' (VDict []) = Inr ?st"
          "dict_get game_with_bad_date ''gameDate'' (VStr []) = Inr (VStr ''soon'')"
          "fromisoformat utc_host (replace_char CHR ''Z'' ''+00:00'' ''soon'') = Inl ValueError"
    by code_simp+
  have e: "\<not> isl (updater_loop_body utc_host sample_game)"
          "\<not> isl (updater_loop_body utc_host second_sample_game)"
          "\<not> isl (icsmaker_loop_body utc_host final_game)"
          "\<not> isl (icsmaker_loop_body utc_host game_with_bad_date)"
    by code_simp+
  have f: "batch_games ?data = Inr ?batch" by code_simp
  note T1 = games_without_time_are_left_out [where lz = utc_host and clock = still_clock
      and ?g0.0 = game_without_date and ?s0.0 = "[]" and ?e0.0 = "[]"
      and ?g1.0 = sample_game_without_date and gdt = "VStr []" and gdate = "VStr []"
      and ?a1.0 = "VStr ''Seattle Mariners''" and ?h1.0 = "VStr ''Detroit Tigers''"
      and ?g2.0 = game_without_date and vm = ?vm0
      and ?g3.0 = game_without_date and st = ?st and tbd = "VBool False" and ?gd3.0 = "VStr []"
      and games = ?games and games_data = ?data and batch = ?batch
      and body = "updater_loop_body utc_host" and g = sample_game_without_date
      and pre = "[sample_game]" and post = "[second_sample_game]"]
  let ?vmF = "\<lparr>game_PK = VStr [], game_start_time = ''20251015T230800Z'',
                game_end_time = ''20251016T020800Z'',
                description = ''Seattle  - Detroit '', location = VStr ''TBD'',
                summary = ''ALDS3(2-1) Seattle Leads ''\<rparr>"
  have c0: "makeViewModel utc_host final_game = Inr ?vmF" by code_simp
  note T3 = games_without_time_are_left_out [where lz = utc_host
      and ?g2.0 = final_game and vm = ?vmF and v = "VStr []"]
  have r0: "\<exists>s e. get_game_date_time utc_host game_without_date = Inr (s, e)
          \<and> makeViewModel utc_host game_without_date
              = Inr (?vmF\<lparr>game_start_time := s, game_end_time := e\<rparr>)"
    using T3 [THEN conjunct2, THEN conjunct2, THEN conjunct2, THEN conjunct2, THEN conjunct1] c0 unfolding game_without_date_def by blast
  note T2 = games_without_time_are_left_out [where lz = utc_host
      and ?g1.0 = second_sample_game and gdt = "VStr ''2025-10-16T20:08:00Z''"
      and gdate = "VStr ''2025-10-15''"
      and ?a1.0 = "VStr ''Seattle Mariners''" and ?h1.0 = "VStr ''Detroit Tigers''"
      and ?s1.0 = "''20251016T200800Z''" and ?e1.0 = "''20251016T233800Z''"
      and gid = "VInt 813045" and summ = "''ALDS 4: Seattle @ Detroit''" and descr = descr
      and loc = "VStr ''Comerica Park''"
      and ?g2.0 = scheduled_game and vm = ?vm1
      and ?g3.0 = game_with_bad_date and st = ?st and tbd = "VBool False"
      and ?gd3.0 = "VStr ''soon''"
      and body = "icsmaker_loop_body utc_host" and g = scheduled_game
      and ev = "\<lparr>ev_uid = ''813046'', ev_start = ''20251015T230800Z'',
                   ev_end = ''20251016T020800Z'', ev_summary = ''ALDS3 Toronto - New York'',
                   ev_location = ''TBD'', ev_description = ''Toronto - New York''\<rparr>"
      and pre = "[final_game, game_without_date, game_with_bad_date]" and post = "[]"]
  have r1: "updater_loop_body utc_host sample_game_without_date = Inr None"
    using T1 [THEN conjunct2, THEN conjunct2, THEN conjunct1] a a' by simp
  have r2: "updater_loop_body utc_host second_sample_game =
          Inr (Some \<lparr>ev_uid = ''813045'', ev_start = ''20251016T200800Z'',
                     ev_end = ''20251016T233800Z'', ev_summary = ''ALDS 4: Seattle @ Detroit'',
                     ev_location = ''Comerica Park'', ev_description = descr\<rparr>)"
    using T2 [THEN conjunct2, THEN conjunct2, THEN conjunct1] b b1 b2 b3 b4 by simp
  have r3: "get_game_date_time utc_host game_without_date = Inr ([], [])"
    using T1 [THEN conjunct2, THEN conjunct2, THEN conjunct2, THEN conjunct2, THEN conjunct2, THEN conjunct1] d by simp
  have r4: "get_game_date_time utc_host game_with_bad_date = Inr ([], [])"
    using T2 [THEN conjunct2, THEN conjunct2, THEN conjunct2, THEN conjunct2, THEN conjunct2, THEN conjunct1] d by simp
  have r5: "icsmaker_loop_body utc_host game_without_date = Inr None"
    using T1 [THEN conjunct2, THEN conjunct2, THEN conjunct2, THEN conjunct1] c by simp
  have r6: "icsmaker_loop_body utc_host scheduled_game =
        Inr (Some \<lparr>ev_uid = ''813046'', ev_start = ''20251015T230800Z'',
                   ev_end = ''20251016T020800Z'', ev_summary = ''ALDS3 Toronto - New York'',
                   ev_location = ''TBD'', ev_description = ''Toronto - New York''\<rparr>)"
    using T2 [THEN conjunct2, THEN conjunct2, THEN conjunct2, THEN conjunct1] c1 b4 by simp
  have h1: "\<forall>g \<in> set ?games. \<exists>r. updater_loop_body utc_host g = Inr r"
    using e(1,2) [THEN returns_if_not_raises] r1 by simp
  have h2: "\<forall>g \<in> set ?batch. \<exists>r. icsmaker_loop_body utc_host g = Inr r"
    using e(3,4) [THEN returns_if_not_raises] r5 r6 by simp
  have ev: "events_of (updater_loop_body utc_host) ([sample_game] @ sample_game_without_date # [second_sample_game])
              = events_of (updater_loop_body utc_host) [sample_game]
                @ events_of (updater_loop_body utc_host) [second_sample_game]"
    using T1 [THEN conjunct2, THEN conjunct2, THEN conjunct2, THEN conjunct2, THEN conjunct2, THEN conjunct2, THEN conjunct2, THEN conjunct2, THEN conjunct1] r1 by simp
  have r7: "updater_generate_ics_content still_clock utc_host ?games
       = Inr (calendar_of still_clock
                (events_of (updater_loop_body utc_host) [sample_game, second_sample_game]))"
  proof -
    have "updater_generate_ics_content still_clock utc_host ?games
            = Inr (calendar_of still_clock (events_of (updater_loop_body utc_host) ?games))"
      using T1 [THEN conjunct2, THEN conjunct2, THEN conjunct2, THEN conjunct2, THEN conjunct2, THEN conjunct2, THEN conjunct1] h1 by blast
    moreover have "events_of (updater_loop_body utc_host) ?games
            = events_of (updater_loop_body utc_host) [sample_game, second_sample_game]"
      using ev by (simp split: sum.splits option.splits)
    ultimately show ?thesis by simp
  qed
  have r8: "map ev_uid (events_of (updater_loop_body utc_host) [sample_game, second_sample_game])
       = [''813044'', ''813045'']"
    by code_simp
  have t: "calendar_of still_clock (events_of (icsmaker_loop_body utc_host) ?batch)
             = two_event_calendar"
    by code_simp
  have r9: "icsmaker_generate_ics_content still_clock utc_host ?data = Inr two_event_calendar"
    using T1 [THEN conjunct2, THEN conjunct2, THEN conjunct2, THEN conjunct2, THEN conjunct2, THEN conjunct2, THEN conjunct2, THEN conjunct1] f h2 t by simp
  have r11: "events_of (icsmaker_loop_body utc_host)
        ([final_game, game_without_date, game_with_bad_date] @ scheduled_game # [])
       = events_of (icsmaker_loop_body utc_host) [final_game, game_without_date, game_with_bad_date]
         @ [\<lparr>ev_uid = ''813046'', ev_start = ''20251015T230800Z'',
                   ev_end = ''20251016T020800Z'', ev_summary = ''ALDS3 Toronto - New York'',
                   ev_location = ''TBD'', ev_description = ''Toronto - New York''\<rparr>]"
    using T2 [THEN conjunct2, THEN conjunct2, THEN conjunct2, THEN conjunct2, THEN conjunct2, THEN conjunct2, THEN conjunct2, THEN conjunct2, THEN conjunct2, THEN conjunct1] r6 by simp
  have r10: "count_vevents (lines_of two_event_calendar) = 2" by code_simp
  show ?thesis using r0 r1 r2 r3 r4 r5 r6 r7 r8 r9 r10 r11 by blast
qed

subsection \<open>Records that end the run\<close>

text \<open>
  Claim C4, as amended.  In \<^verbatim>\<open>MLB_API.py\<close> an exception raised while the view model
  of a record is built is not caught by \<^verbatim>\<open>generate_ics_content\<close>: a record whose
  \<^verbatim>\<open>gamesInSeries\<close> is present and no integer raises one, the run ends with the
  exception of the first record that raises (on whatever date of the response it is), no
  calendar is produced, and \<^verbatim>\<open>save_ics_file\<close> answers \<^verbatim>\<open>False\<close>.  Only a
  timestamp that does not parse is absorbed: the times are the empty pair, the record is
  passed over (whatever is put in the place of the \<^verbatim>\<open>gameDate\<close> of a record whose view
  model is built, the view model is still built, with other times only), and a run in which no record raises returns the calendar with exactly the
  events of the records whose times are resolved.
\<close>

theorem only_timestamp_errors_are_absorbed:
  "(map_of kvs ''gamesInSeries'' = Some v \<and> as_number v = None
      \<longrightarrow> (\<exists>e. makeViewModel lz (VDict kvs) = Inl e))
   \<and> (batch_games games_data = Inr (pre @ g1 # post)
        \<and> (\<forall>p \<in> set pre. \<exists>r. icsmaker_loop_body lz p = Inr r)
        \<and> makeViewModel lz g1 = Inl e1
      \<longrightarrow> icsmaker_generate_ics_content clock lz games_data = Inl e1
          \<and> save_ics_file clock lz fs output_file games_data = False)
   \<and> (dict_get g2 ''status'' (VDict []) = Inr st
        \<and> dict_get st ''startTimeTBD'' (VBool False) = Inr tbd
        \<and> dict_get g2 ''gameDate'' (VStr []) = Inr (VStr s)
        \<and> fromisoformat lz (replace_char CHR ''Z'' ''+00:00'' s) = Inl e2
      \<longrightarrow> get_game_date_time lz g2 = Inr ([], []))
   \<and> (makeViewModel lz g3 = Inr vm
      \<longrightarrow> icsmaker_loop_body lz g3 =
            (if game_start_time vm = [] \<or> game_end_time vm = [] then Inr None
             else Inr (Some \<lparr>ev_uid = py_str (game_PK vm), ev_start = game_start_time vm,
                             ev_end = game_end_time vm, ev_summary = summary vm,
                             ev_location = py_str (location vm),
                             ev_description = description vm\<rparr>)))
   \<and> (makeViewModel lz g3 = Inr vm
      \<longrightarrow> (\<exists>s e. get_game_date_time lz (with_field ''gameDate'' v' g3) = Inr (s, e)
                 \<and> makeViewModel lz (with_field ''gameDate'' v' g3)
                     = Inr (vm\<lparr>game_start_time := s, game_end_time := e\<rparr>)))
   \<and> (batch_games games_data' = Inr batch
        \<and> (\<forall>g \<in> set batch. \<exists>r. icsmaker_loop_body lz g = Inr r)
      \<longrightarrow> icsmaker_generate_ics_content clock lz games_data'
            = Inr (calendar_of clock (events_of (icsmaker_loop_body lz) batch)))
   \<and> (icsmaker_loop_body lz g4 = Inr None
      \<longrightarrow> events_of (icsmaker_loop_body lz) (pre4 @ g4 # post4)
            = events_of (icsmaker_loop_body lz) pre4 @ events_of (icsmaker_loop_body lz) post4)
   \<and> (icsmaker_loop_body lz g5 = Inr (Some ev)
      \<longrightarrow> events_of (icsmaker_loop_body lz) (pre5 @ g5 # post5)
            = events_of (icsmaker_loop_body lz) pre5 @ ev # events_of (icsmaker_loop_body lz) post5)"
proof -
  have p1: "map_of kvs ''gamesInSeries'' = Some v \<and> as_number v = None
      \<longrightarrow> (\<exists>e. makeViewModel lz (VDict kvs) = Inl e)"
    using makeViewModel_raises [where game = "VDict kvs" and v = v and lz = lz]
    by (simp add: dict_get_def)
  have p2: "batch_games games_data = Inr (pre @ g1 # post)
        \<and> (\<forall>p \<in> set pre. \<exists>r. icsmaker_loop_body lz p = Inr r)
        \<and> makeViewModel lz g1 = Inl e1
      \<longrightarrow> icsmaker_generate_ics_content clock lz games_data = Inl e1
          \<and> save_ics_file clock lz fs output_file games_data = False"
    using icsmaker_run_raises(1) [of games_data pre g1 post lz e1 clock]
      icsmaker_run_raises(2) [of games_data pre g1 post lz e1 clock fs output_file]
    by blast
  have p3: "dict_get g2 ''status'' (VDict []) = Inr st
        \<and> dict_get st ''startTimeTBD'' (VBool False) = Inr tbd
        \<and> dict_get g2 ''gameDate'' (VStr []) = Inr (VStr s)
        \<and> fromisoformat lz (replace_char CHR ''Z'' ''+00:00'' s) = Inl e2
      \<longrightarrow> get_game_date_time lz g2 = Inr ([], [])"
    using get_game_date_time_unparseable by blast
  have p4: "makeViewModel lz g3 = Inr vm
      \<longrightarrow> icsmaker_loop_body lz g3 =
            (if game_start_time vm = [] \<or> game_end_time vm = [] then Inr None
             else Inr (Some \<lparr>ev_uid = py_str (game_PK vm), ev_start = game_start_time vm,
                             ev_end = game_end_time vm, ev_summary = summary vm,
                             ev_location = py_str (location vm),
                             ev_description = description vm\<rparr>))"
    using icsmaker_loop_body_cases [of lz g3 vm] by blast
  have p4': "makeViewModel lz g3 = Inr vm
      \<longrightarrow> (\<exists>s e. get_game_date_time lz (with_field ''gameDate'' v' g3) = Inr (s, e)
                 \<and> makeViewModel lz (with_field ''gameDate'' v' g3)
                     = Inr (vm\<lparr>game_start_time := s, game_end_time := e\<rparr>))"
    using makeViewModel_with_gameDate [of lz g3 vm v'] by blast
  have p5: "batch_games games_data' = Inr batch
        \<and> (\<forall>g \<in> set batch. \<exists>r. icsmaker_loop_body lz g = Inr r)
      \<longrightarrow> icsmaker_generate_ics_content clock lz games_data'
            = Inr (calendar_of clock (events_of (icsmaker_loop_body lz) batch))"
    using icsmaker_run_events [of games_data' batch lz clock] by blast
  have p6: "icsmaker_loop_body lz g4 = Inr None
      \<longrightarrow> events_of (icsmaker_loop_body lz) (pre4 @ g4 # post4)
            = events_of (icsmaker_loop_body lz) pre4 @ events_of (icsmaker_loop_body lz) post4"
    using events_of_without [of "icsmaker_loop_body lz" g4 pre4 post4] by blast
  have p7: "icsmaker_loop_body lz g5 = Inr (Some ev)
      \<longrightarrow> events_of (icsmaker_loop_body lz) (pre5 @ g5 # post5)
            = events_of (icsmaker_loop_body lz) pre5 @ ev # events_of (icsmaker_loop_body lz) post5"
    using events_of_with [of "icsmaker_loop_body lz" g5 ev pre5 post5] by blast
  show ?thesis using p1 p2 p3 p4 p4' p5 p6 p7 by (intro conjI)
qed

text \<open>
  A response of two days.  With the record whose \<^verbatim>\<open>gamesInSeries\<close> is a string on
  the second day the run raises; with a record whose timestamp does not parse in its place
  the calendar has the events of the two other records.
\<close>

theorem only_timestamp_errors_are_absorbed_witness:
  "(\<exists>e. makeViewModel utc_host game_with_bad_series_length = Inl e)
   \<and> icsmaker_generate_ics_content still_clock utc_host
        (schedule_of [[final_game], [game_with_bad_series_length, scheduled_game]]) = Inl TypeError
   \<and> save_ics_file still_clock utc_host accepting_fs default_output_file
        (schedule_of [[final_game], [game_with_bad_series_length, scheduled_game]]) = False
   \<and> get_game_date_time utc_host game_with_bad_date = Inr ([], [])
   \<and> (\<exists>s e. get_game_date_time utc_host game_with_bad_date = Inr (s, e)
          \<and> makeViewModel utc_host game_with_bad_date
              = Inr (\<lparr>game_PK = VStr [], game_start_time = ''20251015T230800Z'',
                      game_end_time = ''20251016T020800Z'',
                      description = ''Seattle  - Detroit '', location = VStr ''TBD'',
                      summary = ''ALDS3(2-1) Seattle Leads ''\<rparr>
                     \<lparr>game_start_time := s, game_end_time := e\<rparr>))
   \<and> icsmaker_loop_body utc_host game_with_bad_date = Inr None
   \<and> icsmaker_loop_body utc_host scheduled_game =
        Inr (Some \<lparr>ev_uid = ''813046'', ev_start = ''20251015T230800Z'',
                   ev_end = ''20251016T020800Z'', ev_summary = ''ALDS3 Toronto - New York'',
                   ev_location = ''TBD'', ev_description = ''Toronto - New York''\<rparr>)
   \<and> icsmaker_generate_ics_content still_clock utc_host
        (schedule_of [[final_game], [game_with_bad_date, scheduled_game]])
       = Inr two_event_calendar
   \<and> events_of (icsmaker_loop_body utc_host) ([final_game] @ game_with_bad_date # [scheduled_game])
       = events_of (icsmaker_loop_body utc_host) [final_game]
         @ events_of (icsmaker_loop_body utc_host) [scheduled_game]
   \<and> events_of (icsmaker_loop_body utc_host) ([final_game, game_with_bad_date] @ scheduled_game # [])
       = events_of (icsmaker_loop_body utc_host) [final_game, game_with_bad_date]
         @ [\<lparr>ev_uid = ''813046'', ev_start = ''20251015T230800Z'',
                   ev_end = ''20251016T020800Z'', ev_summary = ''ALDS3 Toronto - New York'',
                   ev_location = ''TBD'', ev_description = ''Toronto - New York''\<rparr>]"
proof -
  let ?vm0 = "\<lparr>game_PK = VStr [], game_start_time = [], game_end_time = [],
                description = ''Seattle  - Detroit '', location = VStr ''TBD'',
                summary = ''ALDS3(2-1) Seattle Leads ''\<rparr>"
  let ?vm1 = "\<lparr>game_PK = VInt 813046, game_start_time = ''20251015T230800Z'',
                game_end_time = ''20251016T020800Z'',
                description = ''Toronto - New York'', location = VStr ''TBD'',
                summary = ''ALDS3 Toronto - New York''\<rparr>"
  let ?st = "VDict [(''statusCode'', VStr ''F'')]"
  let ?bad = "schedule_of [[final_game], [game_with_bad_series_length, scheduled_game]]"
  let ?good = "schedule_of [[final_game], [game_with_bad_date, scheduled_game]]"
  let ?batch = "[final_game, game_with_bad_date, scheduled_game]"
  obtain kvs where k: "game_with_bad_series_length = VDict kvs"
    and k': "map_of kvs ''gamesInSeries'' = Some (VStr ''5'')"
    by (simp add: game_with_bad_series_length_def final_game_def worked_example_def
        with_field_def)
  have n: "as_number (VStr ''5'') = None" by (simp add: as_number_def)
  have a: "batch_games ?bad = Inr ([final_game] @ game_with_bad_series_length # [scheduled_game])"
    by code_simp
  have b: "makeViewModel utc_host game_with_bad_series_length = Inl TypeError" by code_simp
  have c: "makeViewModel utc_host game_with_bad_date = Inr ?vm0" by code_simp
  have c1: "makeViewModel utc_host scheduled_game = Inr ?vm1" by code_simp
  have c2: "py_str (VInt 813046) = ''813046''" "py_str (VStr ''TBD'') = ''TBD''" by code_simp+
  have d: "dict_get game_with_bad_date ''status'' (VDict []) = Inr ?st"
          "dict_get ?st ''startTimeTBD'' (VBool False) = Inr (VBool False)"
          "dict_get game_with_bad_date ''gameDate'' (VStr []) = Inr (VStr ''soon'')"
          "fromisoformat utc_host (replace_char CHR ''Z'' ''+00:00'' ''soon'') = Inl ValueError"
    by code_simp+
  have e: "\<not> isl (icsmaker_loop_body utc_host final_game)" by code_simp
  have f: "batch_games ?good = Inr ?batch" by code_simp
  have t: "calendar_of still_clock (events_of (icsmaker_loop_body utc_host) ?batch)
             = two_event_calendar"
    by code_simp
  note T1 = only_timestamp_errors_are_absorbed [where lz = utc_host and clock = still_clock
      and fs = accepting_fs and output_file = default_output_file
      and kvs = kvs and v = "VStr ''5''"
      and games_data = ?bad and pre = "[final_game]" and ?g1.0 = game_with_bad_series_length
      and post = "[scheduled_game]" and ?e1.0 = TypeError
      and ?g2.0 = game_with_bad_date and st = ?st and tbd = "VBool False" and s = "''soon''"
      and ?e2.0 = ValueError
      and ?g3.0 = game_with_bad_date and vm = ?vm0
      and games_data' = ?good and batch = ?batch
      and ?g4.0 = game_with_bad_date and ?pre4.0 = "[final_game]" and ?post4.0 = "[scheduled_game]"]
  note T2 = only_timestamp_errors_are_absorbed [where lz = utc_host
      and ?g3.0 = scheduled_game and vm = ?vm1
      and ?g5.0 = scheduled_game
      and ev = "\<lparr>ev_uid = ''813046'', ev_start = ''20251015T230800Z'',
                   ev_end = ''20251016T020800Z'', ev_summary = ''ALDS3 Toronto - New York'',
                   ev_location = ''TBD'', ev_description = ''Toronto - New York''\<rparr>"
      and ?pre5.0 = "[final_game, game_with_bad_date]" and ?post5.0 = "[]"]
  let ?vmF = "\<lparr>game_PK = VStr [], game_start_time = ''20251015T230800Z'',
                game_end_time = ''20251016T020800Z'',
                description = ''Seattle  - Detroit '', location = VStr ''TBD'',
                summary = ''ALDS3(2-1) Seattle Leads ''\<rparr>"
  have c0: "makeViewModel utc_host final_game = Inr ?vmF" by code_simp
  note T3 = only_timestamp_errors_are_absorbed [where lz = utc_host
      and ?g3.0 = final_game and vm = ?vmF and v' = "VStr ''soon''"]
  have r0: "\<exists>s e. get_game_date_time utc_host game_with_bad_date = Inr (s, e)
          \<and> makeViewModel utc_host game_with_bad_date
              = Inr (?vmF\<lparr>game_start_time := s, game_end_time := e\<rparr>)"
    using T3 [THEN conjunct2, THEN conjunct2, THEN conjunct2, THEN conjunct2, THEN conjunct1] c0 unfolding game_with_bad_date_def by blast
  have r1: "\<exists>e. makeViewModel utc_host game_with_bad_series_length = Inl e"
    using T1 [THEN conjunct1] k k' n by simp
  have h0: "\<forall>p \<in> set [final_game]. \<exists>r. icsmaker_loop_body utc_host p = Inr r"
    using e [THEN returns_if_not_raises] by simp
  have r2: "icsmaker_generate_ics_content still_clock utc_host ?bad = Inl TypeError
   \<and> save_ics_file still_clock utc_host accepting_fs default_output_file ?bad = False"
    using T1 [THEN conjunct2, THEN conjunct1] a b h0 by blast
  have r3: "get_game_date_time utc_host game_with_bad_date = Inr ([], [])"
    using T1 [THEN conjunct2, THEN conjunct2, THEN conjunct1] d by simp
  have r4: "icsmaker_loop_body utc_host game_with_bad_date = Inr None"
    using T1 [THEN conjunct2, THEN conjunct2, THEN conjunct2, THEN conjunct1] c by simp
  have r5: "icsmaker_loop_body utc_host scheduled_game =
        Inr (Some \<lparr>ev_uid = ''813046'', ev_start = ''20251015T230800Z'',
                   ev_end = ''20251016T020800Z'', ev_summary = ''ALDS3 Toronto - New York'',
                   ev_location = ''TBD'', ev_description = ''Toronto - New York''\<rparr>)"
    using T2 [THEN conjunct2, THEN conjunct2, THEN conjunct2, THEN conjunct1] c1 c2 by simp
  have h: "\<forall>g \<in> set ?batch. \<exists>r. icsmaker_loop_body utc_host g = Inr r"
    using e [THEN returns_if_not_raises] r4 r5 by simp
  have r6: "icsmaker_generate_ics_content still_clock utc_host ?good = Inr two_event_calendar"
    using T1 [THEN conjunct2, THEN conjunct2, THEN conjunct2, THEN conjunct2, THEN conjunct2, THEN conjunct1]
      f h t by simp
  have r7: "events_of (icsmaker_loop_body utc_host) ([final_game] @ game_with_bad_date # [scheduled_game])
       = events_of (icsmaker_loop_body utc_host) [final_game]
         @ events_of (icsmaker_loop_body utc_host) [scheduled_game]"
    using T1 [THEN conjunct2, THEN conjunct2, THEN conjunct2, THEN conjunct2, THEN conjunct2, THEN conjunct2, THEN conjunct1] r4 by simp
  have r8: "events_of (icsmaker_loop_body utc_host) ([final_game, game_with_bad_date] @ scheduled_game # [])
       = events_of (icsmaker_loop_body utc_host) [final_game, game_with_bad_date]
         @ [\<lparr>ev_uid = ''813046'', ev_start = ''20251015T230800Z'',
                   ev_end = ''20251016T020800Z'', ev_summary = ''ALDS3 Toronto - New York'',
                   ev_location = ''TBD'', ev_description = ''Toronto - New York''\<rparr>]"
    using T2 [THEN conjunct2, THEN conjunct2, THEN conjunct2, THEN conjunct2, THEN conjunct2, THEN conjunct2, THEN conjunct2] r5 by simp
  show ?thesis using r0 r1 r2 r3 r4 r5 r6 r7 r8 by blast
qed

text \<open>
  Claim C4 as stated fails: a record whose \<^verbatim>\<open>gamesInSeries\<close> is the string
  \<^verbatim>\<open>5\<close> is not skipped.  The run raises \<^verbatim>\<open>TypeError\<close>, \<^verbatim>\<open>save_ics_file\<close>
  answers \<^verbatim>\<open>False\<close>, and no calendar with the event of the record after it is
  produced, although that record alone is rendered.
\<close>

theorem non_integer_series_length_counterexample:
  "makeViewModel utc_host game_with_bad_series_length = Inl TypeError
   \<and> icsmaker_generate_ics_content still_clock utc_host
        (schedule_of [[game_with_bad_series_length, scheduled_game]]) = Inl TypeError
   \<and> save_ics_file still_clock utc_host accepting_fs default_output_file
        (schedule_of [[game_with_bad_series_length, scheduled_game]]) = False
   \<and> map_sum id (\<lambda>text. count_vevents (lines_of text))
        (icsmaker_generate_ics_content still_clock utc_host (schedule_of [[scheduled_game]]))
       = Inr 1"
  by code_simp

end
